(* ===== verification/Prelude.thy ===== *)
theory Prelude
  imports Complex_Main "HOL-Library.Product_Lexorder"
begin

text \<open>
  Shared vocabulary of the zvt model: calendar dates and pandas timestamps
  (ordered, so that the ORM's \<open>timestamp >= ...\<close> filters and \<open>order=...asc()\<close>
  can be written as in the code), the Python errors the recorders can raise,
  the value semantics of pandas (\<open>Series.sum\<close> skips NaN) and of SQL
  (\<open>NULL\<close> propagation through division), and the in-place row update the ORM
  session performs on a table.  Component theories import this one and add their
  own lemmas to the collections declared here.
\<close>

named_theorems table_simps "characteristic equations of the table operations"
named_theorems value_simps "characteristic equations of pandas and SQL value operations"

section \<open>Dates and timestamps\<close>

text \<open>
  A date is the \<open>(year, month, day)\<close> triple of \<open>pandas.Timestamp\<close>; a timestamp
  adds the minute of the day (intraday k-line levels).  \<open>to_time_str\<close> formats a
  timestamp with the default \<open>'%Y-%m-%d'\<close>, i.e.\ it keeps only the date, and
  \<open>to_pd_timestamp\<close> of a date string is that date at midnight.
\<close>

datatype date = Date (year: nat) (month: nat) (day: nat)

definition date_key :: "date \<Rightarrow> nat \<times> nat \<times> nat" where
  "date_key d = (year d, month d, day d)"

instantiation date :: linorder
begin

definition less_eq_date :: "date \<Rightarrow> date \<Rightarrow> bool" where
  "d \<le> e \<longleftrightarrow> date_key d \<le> date_key e"

definition less_date :: "date \<Rightarrow> date \<Rightarrow> bool" where
  "d < e \<longleftrightarrow> date_key d < date_key e"

instance
proof
  fix d e f :: date
  show "d < e \<longleftrightarrow> d \<le> e \<and> \<not> e \<le> d"
    by (auto simp: less_eq_date_def less_date_def)
  show "d \<le> d" by (simp add: less_eq_date_def)
  show "d \<le> e \<Longrightarrow> e \<le> f \<Longrightarrow> d \<le> f"
    unfolding less_eq_date_def by (rule order_trans)
  show "d \<le> e \<Longrightarrow> e \<le> d \<Longrightarrow> d = e"
    unfolding less_eq_date_def by (drule (1) antisym) (cases d; cases e; simp add: date_key_def)
  show "d \<le> e \<or> e \<le> d"
    unfolding less_eq_date_def by (rule linear)
qed

end

type_synonym timestamp = "date \<times> nat"

definition to_pd_timestamp :: "date \<Rightarrow> timestamp" where
  "to_pd_timestamp d = (d, 0)"

definition to_time_str :: "timestamp \<Rightarrow> date" where
  "to_time_str t = fst t"

text \<open>\<open>to_pd_timestamp(str(y))\<close>, the first instant of year \<open>y\<close>, and
  \<open>to_pd_timestamp("{y}-12-31")\<close>, midnight of its last day.\<close>

definition year_start :: "nat \<Rightarrow> timestamp" where
  "year_start y = to_pd_timestamp (Date y 1 1)"

definition year_end :: "nat \<Rightarrow> timestamp" where
  "year_end y = to_pd_timestamp (Date y 12 31)"

definition ts_year :: "timestamp \<Rightarrow> nat" where
  "ts_year t = year (fst t)"

text \<open>\<open>t + timedelta(days=1)\<close>: the next calendar day (Gregorian leap years), same time.\<close>

definition is_leap :: "nat \<Rightarrow> bool" where
  "is_leap y \<longleftrightarrow> (4 dvd y \<and> \<not> 100 dvd y) \<or> 400 dvd y"

definition days_in_month :: "nat \<Rightarrow> nat \<Rightarrow> nat" where
  "days_in_month y m =
     (if m = 2 then (if is_leap y then 29 else 28)
      else if m = 4 \<or> m = 6 \<or> m = 9 \<or> m = 11 then 30 else 31)"

definition next_date :: "date \<Rightarrow> date" where
  "next_date d =
     (if day d < days_in_month (year d) (month d) then Date (year d) (month d) (Suc (day d))
      else if month d < 12 then Date (year d) (Suc (month d)) 1
      else Date (Suc (year d)) 1 1)"

definition valid_date :: "date \<Rightarrow> bool" where
  "valid_date d \<longleftrightarrow> 1 \<le> month d \<and> month d \<le> 12 \<and> 1 \<le> day d \<and> day d \<le> days_in_month (year d) (month d)"

definition add_one_day :: "timestamp \<Rightarrow> timestamp" where
  "add_one_day t = (next_date (fst t), snd t)"

section \<open>Domain rows\<close>

text \<open>\<open>zvt.domain\<close>: every stored row (k-data, financing detail, yearly aggregate) extends a
  mixin carrying the entity it is about and its timestamp; an entity (a listed stock) has an
  identifier, a code, an exchange and a name.\<close>

record mixin =
  entity_id :: string
  timestamp :: timestamp

record entity =
  ent_id :: string
  code :: string
  exchange :: string
  name :: string

section \<open>Python errors\<close>

datatype py_error =
    IndexError
  | KeyError
  | ProviderError string  \<comment> \<open>an exception raised by an HTTP request or a data SDK call\<close>

text \<open>Python's \<open>xs[i]\<close> for a non-negative index: \<open>IndexError\<close> out of range.\<close>

definition py_nth :: "'a list \<Rightarrow> nat \<Rightarrow> py_error + 'a" where
  "py_nth xs i = (if i < length xs then Inr (xs ! i) else Inl IndexError)"

section \<open>pandas and SQL values\<close>

text \<open>
  A nullable float column holds \<open>real option\<close>: \<open>None\<close> is SQL \<open>NULL\<close> and pandas
  \<open>NaN\<close>.  \<open>Series.sum()\<close> skips missing values and is \<open>0\<close> on an empty or all-NaN
  series.  SQLite evaluates \<open>x / f\<close> to \<open>NULL\<close> when \<open>x\<close> is \<open>NULL\<close> or \<open>f = 0\<close>.
\<close>

definition opt_val :: "real option \<Rightarrow> real" where
  "opt_val v = (case v of None \<Rightarrow> 0 | Some x \<Rightarrow> x)"

definition pd_sum :: "real option list \<Rightarrow> real" where
  "pd_sum vs = sum_list (map opt_val vs)"

text \<open>SQL \<open>SUM\<close> over a column: \<open>NULL\<close> when no value is non-\<open>NULL\<close> (in particular over no
  rows), the sum of the non-\<open>NULL\<close> values otherwise.\<close>

definition sql_sum :: "real option list \<Rightarrow> real option" where
  "sql_sum vs = (if list_all (\<lambda>v. v = None) vs then None else Some (pd_sum vs))"

definition sql_div :: "real option \<Rightarrow> real \<Rightarrow> real option" where
  "sql_div v f = (case v of None \<Rightarrow> None | Some x \<Rightarrow> if f = 0 then None else Some (x / f))"

section \<open>Tables and in-place row updates\<close>

text \<open>
  A table is the list of its rows.  An ORM loop that assigns attributes of the
  loaded objects and commits, or an SQL \<open>UPDATE ... WHERE\<close>, rewrites exactly the rows
  that satisfy a predicate: \<open>update_where\<close>.
\<close>

definition update_where :: "('r \<Rightarrow> bool) \<Rightarrow> ('r \<Rightarrow> 'r) \<Rightarrow> 'r list \<Rightarrow> 'r list" where
  "update_where P f rs = map (\<lambda>r. if P r then f r else r) rs"

text \<open>
  The ORM loops of the recorders have one shape: for each object \<open>k\<close> loaded from the
  table, look its key up in a downloaded frame and, when found, assign fields of the
  object (which writes the row with \<open>k\<close>'s identity).  \<open>for_each_match\<close> is that
  loop; \<open>for_each_match_eq\<close> shows that it rewrites exactly the rows whose identity is
  among the loaded objects, each once, provided the looked-up key is determined by the
  identity and the assignment neither changes identity nor key and is idempotent.
\<close>

fun for_each_match :: "('r \<Rightarrow> 'i) \<Rightarrow> ('r \<Rightarrow> 'v option) \<Rightarrow> ('v \<Rightarrow> 'r \<Rightarrow> 'r) \<Rightarrow> 'r list \<Rightarrow> 'r list \<Rightarrow> 'r list" where
  "for_each_match ident look upd [] tbl = tbl"
| "for_each_match ident look upd (k # ks) tbl =
     for_each_match ident look upd ks
       (case look k of None \<Rightarrow> tbl | Some v \<Rightarrow> update_where (\<lambda>r. ident r = ident k) (upd v) tbl)"

definition apply_match :: "('r \<Rightarrow> 'v option) \<Rightarrow> ('v \<Rightarrow> 'r \<Rightarrow> 'r) \<Rightarrow> 'r \<Rightarrow> 'r" where
  "apply_match look upd r = (case look r of None \<Rightarrow> r | Some v \<Rightarrow> upd v r)"

section \<open>Lemmas\<close>

lemma date_key_eq_iff: "date_key d = date_key e \<longleftrightarrow> d = e"
  by (cases d; cases e) (simp add: date_key_def)

lemma Date_le_iff [simp]:
  "Date y m d \<le> Date y' m' d' \<longleftrightarrow> y < y' \<or> y = y' \<and> (m < m' \<or> m = m' \<and> d \<le> d')"
  by (auto simp: less_eq_date_def date_key_def)

lemma Date_less_iff [simp]:
  "Date y m d < Date y' m' d' \<longleftrightarrow> y < y' \<or> y = y' \<and> (m < m' \<or> m = m' \<and> d < d')"
  by (auto simp: less_date_def date_key_def)

lemmas timestamp_defs [value_simps] =
  to_pd_timestamp_def to_time_str_def year_start_def year_end_def ts_year_def

lemma pd_sum_Nil [simp, value_simps]: "pd_sum [] = 0"
  by (simp add: pd_sum_def)

lemma pd_sum_Cons [simp, value_simps]: "pd_sum (v # vs) = opt_val v + pd_sum vs"
  by (simp add: pd_sum_def)

lemma pd_sum_append [simp]: "pd_sum (vs @ ws) = pd_sum vs + pd_sum ws"
  by (simp add: pd_sum_def)

lemma opt_val_simps [simp, value_simps]: "opt_val None = 0" "opt_val (Some x) = x"
  by (simp_all add: opt_val_def)

lemma pd_sum_all_None: "\<forall>v \<in> set vs. v = None \<Longrightarrow> pd_sum vs = 0"
  by (induction vs) auto

lemma sql_div_simps [simp, value_simps]:
  "sql_div None f = None"
  "sql_div (Some x) f = (if f = 0 then None else Some (x / f))"
  by (simp_all add: sql_div_def)

lemma update_where_Nil [simp, table_simps]: "update_where P f [] = []"
  by (simp add: update_where_def)

lemma update_where_Cons [simp, table_simps]:
  "update_where P f (r # rs) = (if P r then f r else r) # update_where P f rs"
  by (simp add: update_where_def)

lemma length_update_where [simp]: "length (update_where P f rs) = length rs"
  by (simp add: update_where_def)

lemma nth_update_where [simp]:
  "i < length rs \<Longrightarrow> update_where P f rs ! i = (if P (rs ! i) then f (rs ! i) else rs ! i)"
  by (simp add: update_where_def)

lemma set_update_where:
  "set (update_where P f rs) = {if P r then f r else r | r. r \<in> set rs}"
  by (auto simp: update_where_def)

lemma update_where_cong_id:
  "(\<And>r. r \<in> set rs \<Longrightarrow> P r \<Longrightarrow> f r = r) \<Longrightarrow> update_where P f rs = rs"
  by (induction rs) auto

lemma map_update_where_frame:
  "(\<And>r. P r \<Longrightarrow> g (f r) = g r) \<Longrightarrow> map g (update_where P f rs) = map g rs"
  by (induction rs) auto

lemma for_each_match_eq:
  assumes key: "\<And>r k. r \<in> set tbl \<Longrightarrow> k \<in> set ks \<Longrightarrow> ident r = ident k \<Longrightarrow> look r = look k"
    and keep_ident: "\<And>v r. ident (upd v r) = ident r"
    and keep_look: "\<And>v r. look (upd v r) = look r"
    and idem: "\<And>v r. upd v (upd v r) = upd v r"
  shows "for_each_match ident look upd ks tbl =
           update_where (\<lambda>r. ident r \<in> ident ` set ks) (apply_match look upd) tbl"
  using key
proof (induction ks arbitrary: tbl)
  case Nil
  show ?case by (simp add: update_where_def)
next
  case (Cons k ks)
  let ?F = "apply_match look upd"
  show ?case
  proof (cases "look k")
    case None
    have row: "?F r = r" if "r \<in> set tbl" "ident r = ident k" for r
      using Cons.prems [OF that(1) _ that(2)] None by (simp add: apply_match_def)
    have "update_where (\<lambda>r. ident r \<in> ident ` set ks) ?F tbl =
          update_where (\<lambda>r. ident r \<in> ident ` set (k # ks)) ?F tbl"
      unfolding update_where_def by (rule map_cong) (auto simp: row)
    moreover have "for_each_match ident look upd ks tbl =
                   update_where (\<lambda>r. ident r \<in> ident ` set ks) ?F tbl"
      by (rule Cons.IH) (rule Cons.prems, auto)
    ultimately show ?thesis using None by simp
  next
    case (Some v)
    let ?T = "update_where (\<lambda>r. ident r = ident k) (upd v) tbl"
    have row: "?F r = upd v r" "?F (upd v r) = upd v r" if "r \<in> set tbl" "ident r = ident k" for r
      using Cons.prems [OF that(1) _ that(2)] Some
      by (simp_all add: apply_match_def keep_look idem)
    have "update_where (\<lambda>r. ident r \<in> ident ` set ks) ?F ?T =
          update_where (\<lambda>r. ident r \<in> ident ` set (k # ks)) ?F tbl"
      unfolding update_where_def map_map
      by (rule map_cong) (auto simp: row keep_ident idem)
    moreover have "for_each_match ident look upd ks ?T =
                   update_where (\<lambda>r. ident r \<in> ident ` set ks) ?F ?T"
    proof (rule Cons.IH)
      fix r k'
      assume "r \<in> set ?T" "k' \<in> set ks" "ident r = ident k'"
      then obtain r0 where "r0 \<in> set tbl" "r = (if ident r0 = ident k then upd v r0 else r0)"
        by (auto simp: update_where_def)
      with \<open>k' \<in> set ks\<close> \<open>ident r = ident k'\<close> show "look r = look k'"
        by (auto simp: keep_ident keep_look intro: Cons.prems split: if_splits)
    qed
    ultimately show ?thesis using Some by simp
  qed
qed

lemma length_for_each_match [simp]: "length (for_each_match ident look upd ks tbl) = length tbl"
  by (induction ks arbitrary: tbl) (auto split: option.split)

lemma map_for_each_match_frame:
  "(\<And>v r. g (upd v r) = g r) \<Longrightarrow> map g (for_each_match ident look upd ks tbl) = map g tbl"
  by (induction ks arbitrary: tbl) (auto simp: map_update_where_frame split: option.split)

lemma for_each_match_nth_preserves:
  assumes "i < length tbl" "Q (tbl ! i)" "\<And>v r. Q r \<Longrightarrow> Q (upd v r)"
  shows "Q (for_each_match ident look upd ks tbl ! i)"
  using assms(1,2)
proof (induction ks arbitrary: tbl)
  case Nil
  then show ?case by simp
next
  case (Cons k ks)
  let ?T = "case look k of None \<Rightarrow> tbl | Some v \<Rightarrow> update_where (\<lambda>r. ident r = ident k) (upd v) tbl"
  have "Q (?T ! i)"
    using Cons.prems assms(3) by (auto split: option.split)
  with Cons.prems(1) show ?case
    by (simp add: Cons.IH split: option.split del: nth_update_where)
qed

lemma in_set_nthE:
  assumes "r \<in> set rs"
  obtains i where "i < length rs" "r = rs ! i"
  using assms by (auto simp: in_set_conv_nth)

lemma for_each_match_preserves:
  assumes "r \<in> set (for_each_match ident look upd ks tbl)"
    and "\<And>r. r \<in> set tbl \<Longrightarrow> Q r" "\<And>v r. Q r \<Longrightarrow> Q (upd v r)"
  shows "Q r"
proof -
  from assms(1) obtain i where i: "i < length tbl" "r = for_each_match ident look upd ks tbl ! i"
    by (auto elim: in_set_nthE)
  then have "Q (tbl ! i)" using assms(2) by simp
  then show ?thesis
    unfolding i(2) by (rule for_each_match_nth_preserves [where Q = Q, OF i(1) _ assms(3)])
qed

lemma update_where_preserves:
  assumes "r \<in> set (update_where P f rs)"
    and "\<And>r. r \<in> set rs \<Longrightarrow> \<not> P r \<Longrightarrow> Q r" "\<And>r. r \<in> set rs \<Longrightarrow> P r \<Longrightarrow> Q (f r)"
  shows "Q r"
  using assms by (auto simp: update_where_def)

lemma map_eq_nth:
  "map g xs = map g ys \<Longrightarrow> i < length ys \<Longrightarrow> g (xs ! i) = g (ys ! i)"
  by (metis length_map nth_map)

lemma next_date_later: "d < next_date d"
  by (cases d) (simp add: next_date_def)

lemma days_in_month_pos: "28 \<le> days_in_month y m"
  by (simp add: days_in_month_def)

text \<open>The next calendar day of a valid date is valid, and no valid date lies strictly between
  them: \<open>next_date\<close> is the successor in the calendar.\<close>

lemma next_date_valid: "valid_date d \<Longrightarrow> valid_date (next_date d)"
  using days_in_month_pos [of "year d" "Suc (month d)"] days_in_month_pos [of "Suc (year d)" 1]
  by (auto simp: valid_date_def next_date_def)

lemma next_date_least:
  assumes "valid_date e" and "d < e"
  shows "next_date d \<le> e"
proof (cases d, cases e)
  fix y m x y' m' x' assume d: "d = Date y m x" and e: "e = Date y' m' x'"
  show ?thesis
  proof (cases "x < days_in_month y m")
    case True
    with assms show ?thesis by (auto simp: d e next_date_def less_eq_date_def less_date_def date_key_def)
  next
    case notlast: False
    have "(y, m) < (y', m')"
    proof (rule ccontr)
      assume "\<not> (y, m) < (y', m')"
      with assms have "y' = y" "m' = m" "x < x'"
        by (auto simp: d e less_date_def date_key_def)
      with assms notlast show False by (simp add: e valid_date_def)
    qed
    with assms show ?thesis by (auto simp: d e next_date_def less_eq_date_def date_key_def valid_date_def)
  qed
qed

lemma add_one_day_later: "t < add_one_day t"
  by (cases t) (simp add: add_one_day_def next_date_later)

lemma sorted_map_last_max: "sorted (map f xs) \<Longrightarrow> x \<in> set xs \<Longrightarrow> f x \<le> f (last xs)"
  by (induction xs) (auto simp: last_in_set)

lemma sort_key_Nil_iff: "sort_key f xs = [] \<longleftrightarrow> xs = []"
  by (metis length_0_conv length_sort)

lemma update_where_cong:
  "(\<And>r. r \<in> set rs \<Longrightarrow> P r = Q r) \<Longrightarrow> update_where P f rs = update_where Q f rs"
  by (simp add: update_where_def)

lemma days_in_month_le_31: "days_in_month y m \<le> 31"
  by (simp add: days_in_month_def)


lemma py_nth_simps [simp]:
  "i < length xs \<Longrightarrow> py_nth xs i = Inr (xs ! i)"
  "\<not> i < length xs \<Longrightarrow> py_nth xs i = Inl IndexError"
  by (simp_all add: py_nth_def)


text \<open>Sorting commutes with a projection that keeps the sort key: the ORM's \<open>ORDER BY\<close> of a
  table read through a view of its columns.\<close>

lemma insort_key_map: "map f (insort_key (\<lambda>x. k (f x)) x xs) = insort_key k (f x) (map f xs)"
  by (induction xs) auto

lemma sort_key_map: "map f (sort_key (\<lambda>x. k (f x)) xs) = sort_key k (map f xs)"
  by (induction xs) (simp_all add: insort_key_map)

end
