(* ===== verification/TraderApp.thy ===== *)
theory TraderApp
  imports Prelude
begin

text \<open>
  The trader dashboard \<open>src/zvt/apps/trader_app.py\<close>.  The module keeps four globals:
  the traders read from the database (\<open>trader_domains\<close>), their names (\<open>trader_names\<close>)
  and two lists of readers (\<open>account_readers\<close>, \<open>order_readers\<close>) that the callback indexes
  with the dropdown's value.  \<open>load_traders\<close> re-reads the traders and \<^emph>\<open>appends\<close> a reader
  pair per trader; \<open>serve_layout\<close> builds the dropdown from the current names and then
  reloads; \<open>update_trader_details\<close> is the polling callback.  The state is the record
  \<open>app_state\<close>; the database read \<open>get_trader\<close> is a parameter (the trader table at that
  moment), and page loads are the steps of the inductive reachability relation
  \<open>dash_reach\<close>, parameterised by the trader tables the database may hold.
\<close>

section \<open>Traders, readers and the module state\<close>

text \<open>\<open>business.Trader\<close> (only the columns the app reads) and the two readers, built by
  \<open>AccountReader(trader_names=[name], level=level)\<close> and \<open>OrderReader(trader_names=[name])\<close>.\<close>

record trader =
  trader_name :: string
  trader_level :: string

record account_reader =
  acc_trader_names :: "string list"
  acc_level :: string

record order_reader =
  ord_trader_names :: "string list"

record app_state =
  account_readers :: "account_reader list"
  order_readers :: "order_reader list"
  trader_domains :: "trader list"
  trader_names :: "string list"

definition mk_account :: "trader \<Rightarrow> account_reader" where
  "mk_account t = \<lparr>acc_trader_names = [trader_name t], acc_level = trader_level t\<rparr>"

definition mk_order :: "trader \<Rightarrow> order_reader" where
  "mk_order t = \<lparr>ord_trader_names = [trader_name t]\<rparr>"

section \<open>Operations\<close>

text \<open>\<open>load_traders()\<close> with \<open>get_trader\<close> returning \<open>db\<close>: the readers are appended to the
  module's lists, which are never cleared.\<close>

definition load_traders :: "trader list \<Rightarrow> app_state \<Rightarrow> app_state" where
  "load_traders db st =
     st\<lparr>trader_domains := db,
        account_readers := account_readers st @ map mk_account db,
        order_readers := order_readers st @ map mk_order db,
        trader_names := map trader_name db\<rparr>"

text \<open>Import of the module: empty reader lists, the globals initialised from a first read
  \<open>db0\<close>, then the module-level call of \<open>load_traders()\<close> with a second read \<open>db1\<close>.\<close>

definition module_init :: "trader list \<Rightarrow> trader list \<Rightarrow> app_state" where
  "module_init db0 db1 =
     load_traders db1 \<lparr>account_readers = [], order_readers = [], trader_domains = db0,
                       trader_names = map trader_name db0\<rparr>"

text \<open>The layout returned by \<open>serve_layout\<close>: the dropdown's options (label, value) and the
  polling interval.\<close>

record dropdown_option =
  opt_label :: string
  opt_value :: nat

record dash_layout =
  selector_options :: "dropdown_option list"
  interval_ms :: nat
  initial_intervals :: int

text \<open>\<open>serve_layout()\<close>: the options are built from the names \<^emph>\<open>before\<close> the call of
  \<open>load_traders()\<close> that follows.\<close>

definition serve_layout :: "trader list \<Rightarrow> app_state \<Rightarrow> dash_layout \<times> app_state" where
  "serve_layout db st =
     (let layout = \<lparr>selector_options =
                      map (\<lambda>(i, item). \<lparr>opt_label = item, opt_value = i\<rparr>) (enumerate 0 (trader_names st)),
                    interval_ms = 5 * 1000, initial_intervals = 0\<rparr>
      in (layout, load_traders db st))"

text \<open>What the callback returns: \<open>''\<close>, or the figures drawn by
  \<open>get_trader_detail_figures\<close> for a trader and two readers (the drawing itself is not
  modelled; its arguments are).\<close>

datatype trader_detail = No_Detail | Trader_Figures trader account_reader order_reader

definition update_trader_details :: "int \<Rightarrow> nat option \<Rightarrow> app_state \<Rightarrow> py_error + trader_detail" where
  "update_trader_details n i st =
     (if i = None \<or> n < 1 then Inr No_Detail
      else let j = the i in
        (case py_nth (trader_domains st) j of Inl e \<Rightarrow> Inl e | Inr t \<Rightarrow>
         case py_nth (account_readers st) j of Inl e \<Rightarrow> Inl e | Inr a \<Rightarrow>
         case py_nth (order_readers st) j of Inl e \<Rightarrow> Inl e | Inr r \<Rightarrow> Inr (Trader_Figures t a r)))"

section \<open>Page loads\<close>

text \<open>The states the module reaches when every read of the trader table returns a table
  satisfying \<open>D\<close>: the import, then any number of page loads.  The callback does not change
  the state.\<close>

inductive dash_reach :: "(trader list \<Rightarrow> bool) \<Rightarrow> app_state \<Rightarrow> bool" for D :: "trader list \<Rightarrow> bool" where
  init: "D db0 \<Longrightarrow> D db1 \<Longrightarrow> dash_reach D (module_init db0 db1)"
| serve: "dash_reach D st \<Longrightarrow> D db \<Longrightarrow> dash_reach D (snd (serve_layout db st))"

text \<open>The invariant of the module's globals.\<close>

definition dash_inv :: "app_state \<Rightarrow> bool" where
  "dash_inv st \<longleftrightarrow>
     length (account_readers st) = length (order_readers st) \<and>
     length (trader_domains st) \<le> length (account_readers st) \<and>
     trader_names st = map trader_name (trader_domains st)"

text \<open>The abstract specification of the callback for a trader table \<open>db\<close> that does not
  change: nothing until a trader is selected and the interval has fired, then the figures of
  the selected trader drawn with readers of that trader, and \<open>IndexError\<close> for a value that
  is no position of the table.\<close>

definition dashboard_spec :: "trader list \<Rightarrow> int \<Rightarrow> nat option \<Rightarrow> py_error + trader_detail" where
  "dashboard_spec db n i =
     (if i = None \<or> n < 1 then Inr No_Detail
      else if the i < length db then Inr (Trader_Figures (db ! the i) (mk_account (db ! the i)) (mk_order (db ! the i)))
      else Inl IndexError)"

section \<open>Sample data\<close>

abbreviation trader_cta :: trader where
  "trader_cta \<equiv> \<lparr>trader_name = ''cta'', trader_level = ''1d''\<rparr>"

abbreviation trader_macd :: trader where
  "trader_macd \<equiv> \<lparr>trader_name = ''macd'', trader_level = ''1d''\<rparr>"

section \<open>Lemmas\<close>

lemma load_traders_domains [simp]: "trader_domains (load_traders db st) = db"
  by (simp add: load_traders_def)

lemma load_traders_names [simp]: "trader_names (load_traders db st) = map trader_name db"
  by (simp add: load_traders_def)

lemma load_traders_account_readers [simp]:
  "account_readers (load_traders db st) = account_readers st @ map mk_account db"
  by (simp add: load_traders_def)

lemma load_traders_order_readers [simp]:
  "order_readers (load_traders db st) = order_readers st @ map mk_order db"
  by (simp add: load_traders_def)

lemma serve_layout_state [simp]: "snd (serve_layout db st) = load_traders db st"
  by (simp add: serve_layout_def Let_def)

lemma in_serve_layout_options:
  "opt \<in> set (selector_options (fst (serve_layout db st))) \<longleftrightarrow>
     opt_value opt < length (trader_names st) \<and> opt_label opt = trader_names st ! opt_value opt"
  by (cases opt) (auto simp: serve_layout_def Let_def in_set_enumerate_eq)

lemma serve_layout_options_length:
  "length (selector_options (fst (serve_layout db st))) = length (trader_names st)"
  by (simp add: serve_layout_def Let_def)

lemma serve_layout_option_nth:
  "i < length (trader_names st) \<Longrightarrow>
   selector_options (fst (serve_layout db st)) ! i = \<lparr>opt_label = trader_names st ! i, opt_value = i\<rparr>"
  by (simp add: serve_layout_def Let_def nth_enumerate_eq)

lemma update_trader_details_some:
  assumes "1 \<le> n"
  shows "update_trader_details n (Some j) st =
           (if j < length (trader_domains st) \<and> j < length (account_readers st) \<and> j < length (order_readers st)
            then Inr (Trader_Figures (trader_domains st ! j) (account_readers st ! j) (order_readers st ! j))
            else Inl IndexError)"
  using assms by (auto simp: update_trader_details_def py_nth_def)

lemma update_trader_details_prefix:
  assumes "trader_domains st = db" and "account_readers st = map mk_account db @ as"
    and "order_readers st = map mk_order db @ os"
  shows "update_trader_details n i st = dashboard_spec db n i"
proof (cases "i = None \<or> n < 1")
  case True
  then show ?thesis by (auto simp: update_trader_details_def dashboard_spec_def)
next
  case False
  then obtain j where "i = Some j" and "1 \<le> n" by auto
  then show ?thesis
    using assms by (simp add: update_trader_details_some dashboard_spec_def nth_append)
qed

lemma aligned_load_inv:
  "length (account_readers st) = length (order_readers st) \<Longrightarrow> dash_inv (load_traders db st)"
  by (simp add: dash_inv_def)

lemma dash_reach_loaded:
  assumes "dash_reach D st"
  shows "\<exists>st0 db. D db \<and> st = load_traders db st0 \<and> length (account_readers st0) = length (order_readers st0)"
  using assms
proof induction
  case (init db0 db1)
  let ?st0 = "\<lparr>account_readers = [], order_readers = [], trader_domains = db0,
               trader_names = map trader_name db0\<rparr> :: app_state"
  have "D db1 \<and> module_init db0 db1 = load_traders db1 ?st0 \<and>
        length (account_readers ?st0) = length (order_readers ?st0)"
    using init by (simp add: module_init_def)
  then show ?case by blast
next
  case (serve st db)
  then show ?case by (auto intro!: exI [of _ st])
qed

lemma concat_replicate_snoc: "concat (replicate k xs) @ xs = xs @ concat (replicate k xs)"
  by (induction k) auto

lemma dash_reach_fixed_shape:
  assumes "dash_reach (\<lambda>d. d = db) st"
  shows "\<exists>k. trader_domains st = db \<and> trader_names st = map trader_name db \<and>
             account_readers st = map mk_account db @ concat (replicate k (map mk_account db)) \<and>
             order_readers st = map mk_order db @ concat (replicate k (map mk_order db))"
  using assms
proof induction
  case (init db0 db1)
  then show ?case by (auto simp: module_init_def intro: exI [of _ 0])
next
  case (serve st db')
  then obtain k where "trader_domains st = db \<and> trader_names st = map trader_name db \<and>
             account_readers st = map mk_account db @ concat (replicate k (map mk_account db)) \<and>
             order_readers st = map mk_order db @ concat (replicate k (map mk_order db))" by blast
  with serve.hyps(2) show ?case
    by (auto simp: concat_replicate_snoc intro!: exI [of _ "Suc k"])
qed

subsection \<open>The module's globals\<close>

text \<open>C19. Invariant: in every state reached by importing the module and serving pages, with
  the trader table changing arbitrarily between reads, the two reader lists have the same
  length, are at least as long as the trader list, and the names are those of the traders.\<close>

theorem dash_reach_inv:
  "dash_reach D st \<Longrightarrow> dash_inv st"
  by (auto dest!: dash_reach_loaded intro: aligned_load_inv)

text \<open>C20. No index error in range: in a reachable state the callback, once the interval has
  fired, answers a selected position of the current trader list with that trader's figures
  (whatever the readers at that position are), never with \<open>IndexError\<close>.\<close>

theorem update_trader_details_in_range:
  assumes "dash_reach D st" and "i < length (trader_domains st)" and "1 \<le> n"
  shows "\<exists>a r. update_trader_details n (Some i) st = Inr (Trader_Figures (trader_domains st ! i) a r)"
proof -
  from dash_reach_loaded [OF assms(1)] obtain st0 db where
    st: "st = load_traders db st0" and al: "length (account_readers st0) = length (order_readers st0)" by blast
  have "dash_inv st" unfolding st using al by (rule aligned_load_inv)
  with assms(2,3) show ?thesis by (simp add: update_trader_details_some dash_inv_def)
qed

subsection \<open>A trader table that does not change\<close>

text \<open>C21. Refinement: while the trader table stays \<open>db\<close>, the callback answers exactly as
  \<open>dashboard_spec db\<close> in every reachable state, although the reader lists grow: the readers
  at the first positions are always those built for the traders at those positions.\<close>

theorem update_trader_details_refines:
  assumes "dash_reach (\<lambda>d. d = db) st"
  shows "update_trader_details n i st = dashboard_spec db n i"
  using dash_reach_fixed_shape [OF assms] by (auto intro: update_trader_details_prefix)

text \<open>C22. End to end: while the trader table stays \<open>db\<close>, choosing an option of a served page
  shows the trader named by the option's label, with that trader's readers.\<close>

theorem dashboard_selects_labelled_trader:
  assumes "dash_reach (\<lambda>d. d = db) st" and "opt \<in> set (selector_options (fst (serve_layout db st)))"
    and "1 \<le> n"
  shows "\<exists>t. t \<in> set db \<and> trader_name t = opt_label opt \<and>
           update_trader_details n (Some (opt_value opt)) (snd (serve_layout db st)) =
             Inr (Trader_Figures t (mk_account t) (mk_order t))"
proof -
  from dash_reach_fixed_shape [OF assms(1)] obtain k where
    sh: "trader_domains st = db \<and> trader_names st = map trader_name db \<and>
             account_readers st = map mk_account db @ concat (replicate k (map mk_account db)) \<and>
             order_readers st = map mk_order db @ concat (replicate k (map mk_order db))" by blast
  with assms(2) have i: "opt_value opt < length db" and l: "opt_label opt = trader_name (db ! opt_value opt)"
    by (simp_all add: in_serve_layout_options)
  have "update_trader_details n (Some (opt_value opt)) (load_traders db st) = dashboard_spec db n (Some (opt_value opt))"
    by (rule update_trader_details_prefix) (use sh in simp_all)
  with i l assms(3) show ?thesis
    by (auto simp: dashboard_spec_def intro!: exI [of _ "db ! opt_value opt"])
qed

text \<open>The guard of the callback: it returns \<open>''\<close> exactly when no trader is selected or
  the interval has not fired yet.\<close>

lemma update_trader_details_no_detail:
  "update_trader_details n i st = Inr No_Detail \<longleftrightarrow> i = None \<or> n < 1"
  by (auto simp: update_trader_details_def Let_def split: sum.splits)

text \<open>C27. Readers leak: while the trader table stays \<open>db\<close> and is not empty, every page load
  appends readers to both lists, and the callback's answers stay the same: the appended
  readers are never used.\<close>

theorem serve_layout_leaks_readers:
  assumes "dash_reach (\<lambda>d. d = db) st" and "db \<noteq> []"
  shows "length (account_readers st) < length (account_readers (snd (serve_layout db st))) \<and>
         length (order_readers st) < length (order_readers (snd (serve_layout db st))) \<and>
         update_trader_details n i (snd (serve_layout db st)) = update_trader_details n i st"
proof -
  from dash_reach_fixed_shape [OF assms(1)] obtain k where
    sh: "trader_domains st = db \<and> trader_names st = map trader_name db \<and>
             account_readers st = map mk_account db @ concat (replicate k (map mk_account db)) \<and>
             order_readers st = map mk_order db @ concat (replicate k (map mk_order db))" by blast
  have "update_trader_details n i (load_traders db st) = dashboard_spec db n i"
    by (rule update_trader_details_prefix) (use sh in simp_all)
  moreover have "update_trader_details n i st = dashboard_spec db n i"
    by (rule update_trader_details_prefix) (use sh in simp_all)
  ultimately show ?thesis using assms(2) by simp
qed

subsection \<open>A trader table that changes between page loads\<close>

text \<open>C24. Stale options and mismatched readers: whatever table a page load reads,
  \<open>serve_layout\<close> labels option \<open>i\<close> with the name of trader \<open>i\<close> of the previous read (the
  dropdown is built before \<open>load_traders()\<close>), while the callback then shows trader \<open>i\<close> of
  the new read, drawn with the readers at position \<open>i\<close> of the lists, which were built for
  the first traders ever read because the lists are only appended to.  The label and the
  figures disagree as soon as the table has changed at position \<open>i\<close>.\<close>

theorem serve_layout_stale_label:
  assumes reach: "dash_reach D st" and sv: "serve_layout db st = (layout, st')"
    and i: "i < length (selector_options layout)" and idb: "i < length db" and n: "1 \<le> n"
  shows "opt_label (selector_options layout ! i) = trader_name (trader_domains st ! i) \<and>
         opt_value (selector_options layout ! i) = i \<and>
         update_trader_details n (Some (opt_value (selector_options layout ! i))) st' =
           Inr (Trader_Figures (db ! i) (account_readers st ! i) (order_readers st ! i))"
proof -
  have inv: "dash_inv st"
    using reach by (auto dest!: dash_reach_loaded intro: aligned_load_inv)
  have layout: "layout = fst (serve_layout db st)" and st': "st' = load_traders db st"
    using sv by (metis fst_conv, metis serve_layout_state snd_conv)
  have in_names: "i < length (trader_names st)"
    using i by (simp add: layout serve_layout_options_length)
  then have dom: "i < length (trader_domains st)" and acc: "i < length (account_readers st)"
    and ord: "i < length (order_readers st)"
    using inv by (auto simp: dash_inv_def)
  have opt: "selector_options layout ! i = \<lparr>opt_label = trader_names st ! i, opt_value = i\<rparr>"
    using in_names by (simp add: layout serve_layout_option_nth)
  show ?thesis
    using inv dom acc ord idb n
    by (simp add: opt st' update_trader_details_some nth_append dash_inv_def)
qed

text \<open>C25. Index error: whenever a page load reads a table shorter than the previous name
  list, the page still offers the options past its end, and selecting one raises
  \<open>IndexError\<close> in the callback.\<close>

theorem serve_layout_index_error:
  assumes sv: "serve_layout db st = (layout, st')" and short: "length db \<le> i"
    and i: "i < length (trader_names st)" and n: "1 \<le> n"
  shows "selector_options layout ! i = \<lparr>opt_label = trader_names st ! i, opt_value = i\<rparr> \<and>
         update_trader_details n (Some i) st' = Inl IndexError"
proof -
  have layout: "layout = fst (serve_layout db st)" and st': "st' = load_traders db st"
    using sv by (metis fst_conv, metis serve_layout_state snd_conv)
  show ?thesis
    using i short n by (simp add: layout st' serve_layout_option_nth update_trader_details_some)
qed

subsection \<open>Witnesses\<close>

text \<open>Two reachable states: \<open>st_changed\<close>, imported with \<open>[cta]\<close> and served once after
  \<open>macd\<close> was added, and \<open>st_fixed\<close>, imported with \<open>[cta, macd]\<close> and served once.\<close>

lemma reach_changed:
  "dash_reach (\<lambda>d. d = [trader_cta] \<or> d = [trader_macd, trader_cta])
     (snd (serve_layout [trader_macd, trader_cta] (module_init [trader_cta] [trader_cta])))"
  by (intro dash_reach.serve dash_reach.init) simp_all

lemma reach_fixed:
  "dash_reach (\<lambda>d. d = [trader_cta, trader_macd])
     (snd (serve_layout [trader_cta, trader_macd] (module_init [trader_cta, trader_macd] [trader_cta, trader_macd])))"
  by (intro dash_reach.serve dash_reach.init) simp_all

theorem dash_reach_inv_witness:
  "dash_inv (snd (serve_layout [trader_macd, trader_cta] (module_init [trader_cta] [trader_cta]))) \<and>
   length (account_readers (snd (serve_layout [trader_macd, trader_cta] (module_init [trader_cta] [trader_cta])))) = 3"
  using dash_reach_inv [OF reach_changed] by (simp add: module_init_def)

theorem update_trader_details_in_range_witness:
  "\<exists>a r. update_trader_details 1 (Some 1)
            (snd (serve_layout [trader_macd, trader_cta] (module_init [trader_cta] [trader_cta]))) =
          Inr (Trader_Figures trader_cta a r)"
  using update_trader_details_in_range [OF reach_changed, of 1 1] by simp

theorem update_trader_details_refines_witness:
  "update_trader_details 1 (Some 1)
     (snd (serve_layout [trader_cta, trader_macd] (module_init [trader_cta, trader_macd] [trader_cta, trader_macd]))) =
   Inr (Trader_Figures trader_macd (mk_account trader_macd) (mk_order trader_macd))"
  using update_trader_details_refines [OF reach_fixed, of 1 "Some 1"] by (simp add: dashboard_spec_def)

theorem dashboard_selects_labelled_trader_witness:
  "\<exists>t. t \<in> set [trader_cta, trader_macd] \<and> trader_name t = ''macd'' \<and>
     update_trader_details 1 (Some 1)
       (snd (serve_layout [trader_cta, trader_macd]
          (module_init [trader_cta, trader_macd] [trader_cta, trader_macd]))) =
     Inr (Trader_Figures t (mk_account t) (mk_order t))"
proof -
  have r: "dash_reach (\<lambda>d. d = [trader_cta, trader_macd]) (module_init [trader_cta, trader_macd] [trader_cta, trader_macd])"
    by (rule dash_reach.init) simp_all
  show ?thesis
    using dashboard_selects_labelled_trader [OF r, where opt = "\<lparr>opt_label = ''macd'', opt_value = 1\<rparr>" and n = 1]
    by (simp add: serve_layout_def module_init_def)
qed

theorem serve_layout_leaks_readers_witness:
  "length (account_readers (module_init [trader_cta] [trader_cta])) <
     length (account_readers (snd (serve_layout [trader_cta] (module_init [trader_cta] [trader_cta])))) \<and>
   update_trader_details 1 (Some 0) (snd (serve_layout [trader_cta] (module_init [trader_cta] [trader_cta]))) =
     update_trader_details 1 (Some 0) (module_init [trader_cta] [trader_cta])"
proof -
  have r: "dash_reach (\<lambda>d. d = [trader_cta]) (module_init [trader_cta] [trader_cta])"
    by (rule dash_reach.init) simp_all
  show ?thesis
    using serve_layout_leaks_readers [OF r, where n = 1 and i = "Some 0"] by simp
qed


theorem serve_layout_stale_label_witness:
  "opt_label (selector_options (fst (serve_layout [trader_macd, trader_cta] (module_init [trader_cta] [trader_cta]))) ! 0)
     = ''cta'' \<and>
   update_trader_details 1 (Some 0) (snd (serve_layout [trader_macd, trader_cta] (module_init [trader_cta] [trader_cta])))
     = Inr (Trader_Figures trader_macd (mk_account trader_cta) (mk_order trader_cta))"
proof -
  have reach: "dash_reach (\<lambda>_. True) (module_init [trader_cta] [trader_cta])"
    by (rule dash_reach.init) simp_all
  show ?thesis
    using serve_layout_stale_label [OF reach prod.collapse [symmetric], where i = 0 and n = 1
        and db = "[trader_macd, trader_cta]"]
    by (simp add: module_init_def serve_layout_options_length serve_layout_option_nth)
qed

theorem serve_layout_index_error_witness:
  "selector_options (fst (serve_layout [trader_cta] (module_init [trader_cta, trader_macd] [trader_cta, trader_macd]))) ! 1
     = \<lparr>opt_label = ''macd'', opt_value = 1\<rparr> \<and>
   update_trader_details 1 (Some 1) (snd (serve_layout [trader_cta] (module_init [trader_cta, trader_macd] [trader_cta, trader_macd])))
     = Inl IndexError"
  using serve_layout_index_error [OF prod.collapse [symmetric], where i = 1 and n = 1
      and db = "[trader_cta]" and st = "module_init [trader_cta, trader_macd] [trader_cta, trader_macd]"]
  by (simp add: module_init_def)

end
