(* ===== verification/Kdata.thy ===== *)
theory Kdata
  imports Prelude
begin

text \<open>
  The JoinQuant k-data recorder, \<open>src/zvt/recorders/joinquant/quotes/jq_china_stock__kdata_recorder.py\<close>,
  class \<open>JQChinaStockKdataRecorder\<close>: the rows of the k-data table (\<open>kdata\<close>), the
  recorder's own state (\<open>jq_recorder\<close>: level, start timestamp, tracked entities and the
  per-entity adjustment factor captured by \<open>__init__\<close>), and its operations:
  \<open>init_recorder\<close> (\<open>__init__\<close>), \<open>jq_record\<close> (\<open>record\<close>) and the adjustment
  reconciler \<open>on_finish_entity\<close>, composed of \<open>select_unreconciled\<close> (the ORM query),
  \<open>fill_hfq\<close> (the back-adjusted fill loop), \<open>qfq_update_sql\<close> (the two raw SQL
  \<open>UPDATE\<close> statements) and \<open>merge_turnover\<close> (the netease merge).  The data providers
  (JoinQuant \<open>get_price\<close>, the netease CSV endpoint) are parameters: functions from the
  request to a Python exception or a frame.
\<close>

section \<open>Entities and k-data rows\<close>

type_synonym kdata_id = "string \<times> timestamp \<times> string"

text \<open>\<open>zvt.api.common.generate_kdata_id(entity_id, timestamp, level)\<close>: the row identifier
  is determined by entity, timestamp and level.\<close>

definition generate_kdata_id :: "string \<Rightarrow> timestamp \<Rightarrow> string \<Rightarrow> kdata_id" where
  "generate_kdata_id eid ts lvl = (eid, ts, lvl)"

text \<open>One row of the k-data table.  The raw OHLC columns \<open>open\<close>, \<open>close\<close>, \<open>high\<close>,
  \<open>low\<close> are named \<open>open_price\<close> etc.\ (\<open>open\<close> is a HOL constant).  Every
  numeric column is nullable.\<close>

record kdata = mixin +
  kd_id :: kdata_id
  level :: string
  kd_name :: string
  provider :: string
  open_price :: "real option"
  close_price :: "real option"
  high_price :: "real option"
  low_price :: "real option"
  volume :: "real option"
  turnover :: "real option"
  factor :: "real option"
  hfq_open :: "real option"
  hfq_close :: "real option"
  hfq_high :: "real option"
  hfq_low :: "real option"
  qfq_open :: "real option"
  qfq_close :: "real option"
  qfq_high :: "real option"
  qfq_low :: "real option"
  turnover_rate :: "real option"
  change_pct :: "real option"

text \<open>Well-formedness of the table: every row's identifier is the one
  \<open>generate_domain_id\<close> derives from its entity, timestamp and level.\<close>

definition kdata_wf :: "kdata \<Rightarrow> bool" where
  "kdata_wf r \<longleftrightarrow> kd_id r = generate_kdata_id (entity_id r) (timestamp r) (level r)"

definition kdata_table_wf :: "kdata list \<Rightarrow> bool" where
  "kdata_table_wf tbl \<longleftrightarrow> (\<forall>r \<in> set tbl. kdata_wf r)"

text \<open>The recorder's attributes: the level, the JoinQuant frequency and the table name the
  constructor derives from it, the configured start, the tracked entities (chosen by the
  recorder base from the codes) and the factors captured at start.\<close>

record jq_recorder =
  rec_level :: string
  jq_trading_level :: string
  data_schema :: string
  start_timestamp :: "timestamp option"
  entities :: "entity list"
  current_factors :: "string \<rightharpoonup> real option"

section \<open>\<open>__init__\<close>: capturing the current factors\<close>

text \<open>\<open>get_kdata(entity_id, level, order=timestamp.desc(), limit=1)\<close>.\<close>

definition get_kdata_latest :: "kdata list \<Rightarrow> string \<Rightarrow> string \<Rightarrow> kdata option" where
  "get_kdata_latest tbl eid lvl =
     (case rev (sort_key timestamp (filter (\<lambda>r. entity_id r = eid \<and> level r = lvl) tbl)) of
        [] \<Rightarrow> None
      | k # _ \<Rightarrow> Some k)"

fun capture_factors :: "kdata list \<Rightarrow> string \<Rightarrow> entity list \<Rightarrow> (string \<rightharpoonup> real option) \<Rightarrow> (string \<rightharpoonup> real option)" where
  "capture_factors tbl lvl [] cf = cf"
| "capture_factors tbl lvl (e # es) cf =
     capture_factors tbl lvl es
       (case get_kdata_latest tbl (ent_id e) lvl of None \<Rightarrow> cf | Some k \<Rightarrow> cf(ent_id e \<mapsto> factor k))"

text \<open>\<open>__init__\<close>: \<open>data_schema = get_kdata_schema(entity_type, level)\<close> and
  \<open>jq_trading_level = to_jq_trading_level(level)\<close> (functions of \<open>zvt.api.common\<close>, outside the
  repository, hence parameters), the base constructor's attributes, and the loop over the
  entities filling \<open>current_factors\<close>; \<open>auth(...)\<close> opens the JoinQuant session, the
  \<open>jq_logged_in\<close> flag with which \<open>KdataRun.jq_run\<close> starts.\<close>

definition init_recorder ::
  "(string \<Rightarrow> string \<Rightarrow> string) \<Rightarrow> (string \<Rightarrow> string) \<Rightarrow> string \<Rightarrow> string \<Rightarrow> timestamp option \<Rightarrow> entity list \<Rightarrow>
   kdata list \<Rightarrow> jq_recorder" where
  "init_recorder get_kdata_schema to_jq_trading_level entity_type lvl st es tbl =
     \<lparr>rec_level = lvl, jq_trading_level = to_jq_trading_level lvl, data_schema = get_kdata_schema entity_type lvl,
      start_timestamp = st, entities = es, current_factors = capture_factors tbl lvl es Map.empty\<rparr>"

section \<open>\<open>on_finish_entity\<close>: the adjustment reconciler\<close>

subsection \<open>Step 1: rows still missing the back-adjusted close\<close>

definition hfq_cutoff :: timestamp where
  "hfq_cutoff = to_pd_timestamp (Date 2005 1 1)"

definition select_unreconciled :: "kdata list \<Rightarrow> string \<Rightarrow> string \<Rightarrow> kdata list" where
  "select_unreconciled tbl eid lvl =
     sort_key timestamp
       (filter (\<lambda>r. entity_id r = eid \<and> level r = lvl \<and> hfq_close r = None \<and> hfq_cutoff \<le> timestamp r) tbl)"

subsection \<open>Steps 2 and 3: the back-adjusted fill\<close>

text \<open>A row of the frame \<open>get_price(..., fields=['factor','open','close','low','high'],
  fq='post')\<close>, indexed by its date string.\<close>

record jq_bar =
  bar_date :: date
  bar_factor :: real
  bar_open :: real
  bar_close :: real
  bar_low :: real
  bar_high :: real

text \<open>\<open>get_price(to_jq_entity_id(entity), start_date, end_date=now, frequency='daily', fq='post')\<close>:
  the entity and the start date in, an exception or the frame out (\<open>None\<close> and an empty
  frame are both the empty list: the code treats them alike).\<close>

type_synonym jq_post_api = "entity \<Rightarrow> date \<Rightarrow> py_error + jq_bar list"

definition bar_at :: "jq_bar list \<Rightarrow> date \<Rightarrow> jq_bar option" where
  "bar_at df d = find (\<lambda>b. bar_date b = d) df"

definition set_hfq :: "jq_bar \<Rightarrow> kdata \<Rightarrow> kdata" where
  "set_hfq b k = k\<lparr>hfq_open := Some (bar_open b), hfq_close := Some (bar_close b),
                  hfq_high := Some (bar_high b), hfq_low := Some (bar_low b),
                  factor := Some (bar_factor b)\<rparr>"

definition fill_hfq :: "jq_bar list \<Rightarrow> kdata list \<Rightarrow> kdata list \<Rightarrow> kdata list" where
  "fill_hfq df kdatas tbl =
     for_each_match kd_id (\<lambda>k. bar_at df (to_time_str (timestamp k))) set_hfq kdatas tbl"

subsection \<open>Step 4: the forward-adjusted recomputation\<close>

text \<open>The two SQL statements differ only in their \<open>WHERE\<close> clause: every row of the
  entity and level, or only those missing one of the four forward-adjusted prices.\<close>

datatype qfq_scope = Missing_Qfq | All_Rows

definition qfq_missing :: "kdata \<Rightarrow> bool" where
  "qfq_missing r \<longleftrightarrow> qfq_close r = None \<or> qfq_high r = None \<or> qfq_low r = None \<or> qfq_open r = None"

definition set_qfq :: "real \<Rightarrow> kdata \<Rightarrow> kdata" where
  "set_qfq f r = r\<lparr>qfq_close := sql_div (hfq_close r) f, qfq_high := sql_div (hfq_high r) f,
                   qfq_open := sql_div (hfq_open r) f, qfq_low := sql_div (hfq_low r) f\<rparr>"

fun qfq_update_sql :: "qfq_scope \<Rightarrow> real \<Rightarrow> string \<Rightarrow> string \<Rightarrow> kdata list \<Rightarrow> kdata list" where
  "qfq_update_sql Missing_Qfq f eid lvl tbl =
     update_where (\<lambda>r. entity_id r = eid \<and> level r = lvl \<and> qfq_missing r) (set_qfq f) tbl"
| "qfq_update_sql All_Rows f eid lvl tbl =
     update_where (\<lambda>r. entity_id r = eid \<and> level r = lvl) (set_qfq f) tbl"

text \<open>\<open>latest_factor == self.current_factors.get(entity.id)\<close>: \<open>get\<close> is \<open>None\<close> for an
  entity without stored rows and the stored factor (itself possibly \<open>None\<close>) otherwise.\<close>

definition qfq_scope_for :: "(string \<rightharpoonup> real option) \<Rightarrow> string \<Rightarrow> real \<Rightarrow> qfq_scope" where
  "qfq_scope_for cf eid lf = (if cf eid = Some (Some lf) then Missing_Qfq else All_Rows)"

definition reconcile_hfq :: "jq_recorder \<Rightarrow> entity \<Rightarrow> kdata list \<Rightarrow> jq_bar list \<Rightarrow> kdata list \<Rightarrow> kdata list" where
  "reconcile_hfq rc e kdatas df tbl =
     (if df = [] then tbl
      else let tbl1 = fill_hfq df kdatas tbl;
               lf = bar_factor (last df)
           in qfq_update_sql (qfq_scope_for (current_factors rc) (ent_id e) lf) lf
                (ent_id e) (rec_level rc) tbl1)"

subsection \<open>Step 5: turnover rate and percent change from netease\<close>

record netease_row =
  ne_date :: timestamp
  ne_turnover_rate :: "real option"
  ne_change_pct :: "real option"

text \<open>The CSV endpoint \<open>chddata.html?code={flag}{code}&start=..&end=..\<close>.\<close>

type_synonym netease_api = "string \<Rightarrow> date \<Rightarrow> date \<Rightarrow> py_error + netease_row list"

definition exchange_flag :: "entity \<Rightarrow> string" where
  "exchange_flag e = (if exchange e = ''sh'' then ''0'' else ''1'')"

definition netease_code :: "entity \<Rightarrow> string" where
  "netease_code e = exchange_flag e @ code e"

definition netease_at :: "netease_row list \<Rightarrow> timestamp \<Rightarrow> netease_row option" where
  "netease_at nd t = find (\<lambda>n. ne_date n = t) nd"

definition set_turnover :: "netease_row \<Rightarrow> kdata \<Rightarrow> kdata" where
  "set_turnover n k = k\<lparr>turnover_rate := ne_turnover_rate n, change_pct := ne_change_pct n\<rparr>"

definition merge_turnover :: "netease_row list \<Rightarrow> kdata list \<Rightarrow> kdata list \<Rightarrow> kdata list" where
  "merge_turnover nd kdatas tbl =
     for_each_match kd_id (\<lambda>k. netease_at nd (timestamp k)) set_turnover kdatas tbl"

subsection \<open>The whole hook\<close>

text \<open>The result is the committed table and the exception that escaped, if any: the
  commits made before an exception stay in the database.\<close>

definition on_finish_entity ::
  "jq_post_api \<Rightarrow> netease_api \<Rightarrow> jq_recorder \<Rightarrow> entity \<Rightarrow> kdata list \<Rightarrow> kdata list \<times> py_error option" where
  "on_finish_entity jq ne rc e tbl =
     (let kdatas = select_unreconciled tbl (ent_id e) (rec_level rc) in
      if kdatas = [] then (tbl, None)
      else
        let start = timestamp (hd kdatas); end_ts = timestamp (last kdatas) in
        case jq e (to_time_str start) of
          Inl err \<Rightarrow> (tbl, Some err)
        | Inr df \<Rightarrow>
            let tbl2 = reconcile_hfq rc e kdatas df tbl in
            case ne (netease_code e) (to_time_str start) (to_time_str end_ts) of
              Inl err \<Rightarrow> (tbl2, Some err)
            | Inr nd \<Rightarrow> (if nd = [] then (tbl2, None) else (merge_turnover nd kdatas tbl2, None)))"


section \<open>\<open>record\<close>: raw bars from JoinQuant and their persistence\<close>

text \<open>A row of the unadjusted frame \<open>get_price(..., fields=['open','close','low','high',
  'volume','money'], fq=None)\<close>, its index renamed \<open>timestamp\<close>.\<close>

record raw_bar =
  raw_ts :: timestamp
  raw_open :: "real option"
  raw_close :: "real option"
  raw_low :: "real option"
  raw_high :: "real option"
  raw_volume :: "real option"
  raw_money :: "real option"

text \<open>\<open>get_price(to_jq_entity_id(entity), start_date, end_date, frequency, ..., fq=None)\<close>.\<close>

type_synonym jq_raw_api = "entity \<Rightarrow> date \<Rightarrow> date \<Rightarrow> string \<Rightarrow> py_error + raw_bar list"

text \<open>\<open>if self.start_timestamp: start = max(self.start_timestamp, to_pd_timestamp(start))\<close>.\<close>

definition record_start :: "jq_recorder \<Rightarrow> timestamp \<Rightarrow> timestamp" where
  "record_start rc start = (case start_timestamp rc of None \<Rightarrow> start | Some st \<Rightarrow> max st start)"

text \<open>One record of \<open>df.to_dict(orient='records')\<close> (\<open>name\<close>, \<open>provider\<close>, \<open>level\<close> added,
  \<open>money\<close> renamed \<open>turnover\<close>) as the row the recorder stores, with the identifier of
  \<open>generate_domain_id\<close>; the adjusted columns are still empty.\<close>

definition raw_to_kdata :: "jq_recorder \<Rightarrow> entity \<Rightarrow> raw_bar \<Rightarrow> kdata" where
  "raw_to_kdata rc e b =
     \<lparr>entity_id = ent_id e, timestamp = raw_ts b,
      kd_id = generate_kdata_id (ent_id e) (raw_ts b) (rec_level rc), level = rec_level rc,
      kd_name = name e, provider = ''joinquant'',
      open_price = raw_open b, close_price = raw_close b, high_price = raw_high b,
      low_price = raw_low b, volume = raw_volume b, turnover = raw_money b, factor = None,
      hfq_open = None, hfq_close = None, hfq_high = None, hfq_low = None,
      qfq_open = None, qfq_close = None, qfq_high = None, qfq_low = None,
      turnover_rate = None, change_pct = None\<rparr>"

text \<open>\<open>record(entity, start, end, size, timestamps)\<close>: the passed \<open>end\<close> is replaced by
  tomorrow, \<open>df.iloc[-1, :]\<close> raises \<open>IndexError\<close> on an empty frame, and the last bar is
  dropped while it is still being traded (\<open>is_in_trading\<close>, a parameter).\<close>

definition jq_record ::
  "jq_raw_api \<Rightarrow> (timestamp \<Rightarrow> bool) \<Rightarrow> timestamp \<Rightarrow> jq_recorder \<Rightarrow> entity \<Rightarrow> timestamp \<Rightarrow> py_error + kdata list" where
  "jq_record api in_trading now rc e start =
     (let start' = record_start rc start; end_ts = add_one_day now in
      case api e (to_time_str start') (to_time_str end_ts) (jq_trading_level rc) of
        Inl err \<Rightarrow> Inl err
      | Inr df \<Rightarrow>
          if df = [] then Inl IndexError
          else let rows = map (raw_to_kdata rc e) df in
               Inr (if in_trading (raw_ts (last df)) then butlast rows else rows))"

text \<open>Persistence by the recorder base class (spec 4.2, not under \<open>src/\<close>): a row whose
  identifier is stored updates the fields \<open>record\<close> supplies, any other row is inserted.\<close>

definition merge_raw :: "kdata \<Rightarrow> kdata \<Rightarrow> kdata" where
  "merge_raw n r = r\<lparr>kd_name := kd_name n, provider := provider n, open_price := open_price n,
     close_price := close_price n, high_price := high_price n, low_price := low_price n,
     volume := volume n, turnover := turnover n\<rparr>"

fun persist_kdata :: "kdata list \<Rightarrow> kdata list \<Rightarrow> kdata list" where
  "persist_kdata [] tbl = tbl"
| "persist_kdata (n # ns) tbl =
     persist_kdata ns
       (if kd_id n \<in> set (map kd_id tbl) then update_where (\<lambda>r. kd_id r = kd_id n) (merge_raw n) tbl
        else tbl @ [n])"

section \<open>Views used by the properties\<close>

text \<open>The forward-adjusted and back-adjusted columns of a row, and the relation
  \<open>qfq = hfq / f\<close> (with SQL \<open>NULL\<close> semantics) the spec calls the qfq invariant.\<close>

definition qfq_fields :: "kdata \<Rightarrow> real option \<times> real option \<times> real option \<times> real option" where
  "qfq_fields r = (qfq_open r, qfq_close r, qfq_high r, qfq_low r)"

definition hfq_fields :: "kdata \<Rightarrow> real option \<times> real option \<times> real option \<times> real option \<times> real option" where
  "hfq_fields r = (hfq_open r, hfq_close r, hfq_high r, hfq_low r, factor r)"

definition qfq_consistent :: "real \<Rightarrow> kdata \<Rightarrow> bool" where
  "qfq_consistent f r \<longleftrightarrow>
     qfq_fields r = (sql_div (hfq_open r) f, sql_div (hfq_close r) f, sql_div (hfq_high r) f, sql_div (hfq_low r) f)"

section \<open>Sample data\<close>

text \<open>A small k-data table of stock 000778 at level \<open>1d\<close>, one row reconciled in an earlier
  run and one still missing its back-adjusted prices, a row of another stock, and provider
  answers; the witnesses of the properties evaluate the recorder on them.\<close>

abbreviation sample_entity :: entity where
  "sample_entity \<equiv> \<lparr>ent_id = ''stock_sz_000778'', code = ''000778'', exchange = ''sz'', name = ''XGZG''\<rparr>"

abbreviation sample_row :: kdata where
  "sample_row \<equiv> \<lparr>entity_id = ''stock_sz_000778'', timestamp = (Date 2019 1 2, 0),
     kd_id = generate_kdata_id ''stock_sz_000778'' (Date 2019 1 2, 0) ''1d'', level = ''1d'',
     kd_name = ''XGZG'', provider = ''joinquant'',
     open_price = Some 5, close_price = Some 6, high_price = Some 7, low_price = Some 4,
     volume = Some 1000, turnover = Some 6000, factor = None,
     hfq_open = None, hfq_close = None, hfq_high = None, hfq_low = None,
     qfq_open = None, qfq_close = None, qfq_high = None, qfq_low = None,
     turnover_rate = None, change_pct = None\<rparr>"

abbreviation sample_done_row :: kdata where
  "sample_done_row \<equiv> \<lparr>entity_id = ''stock_sz_000778'', timestamp = (Date 2018 12 28, 0),
     kd_id = generate_kdata_id ''stock_sz_000778'' (Date 2018 12 28, 0) ''1d'', level = ''1d'',
     kd_name = ''XGZG'', provider = ''joinquant'',
     open_price = Some 5, close_price = Some 5, high_price = Some 6, low_price = Some 4,
     volume = Some 900, turnover = Some 4500, factor = Some 2,
     hfq_open = Some 10, hfq_close = Some 10, hfq_high = Some 12, hfq_low = Some 8,
     qfq_open = Some 4, qfq_close = Some 4, qfq_high = Some 5, qfq_low = Some 3,
     turnover_rate = None, change_pct = None\<rparr>"

abbreviation sample_other_row :: kdata where
  "sample_other_row \<equiv> sample_row\<lparr>kd_id := generate_kdata_id ''stock_sh_600000'' (Date 2019 1 2, 0) ''1d'',
     entity_id := ''stock_sh_600000''\<rparr>"

abbreviation sample_table :: "kdata list" where
  "sample_table \<equiv> [sample_done_row, sample_row]"

abbreviation sample_bar :: jq_bar where
  "sample_bar \<equiv> \<lparr>bar_date = Date 2019 1 2, bar_factor = 2, bar_open = 10, bar_close = 12,
                  bar_low = 8, bar_high = 14\<rparr>"

abbreviation sample_jq :: jq_post_api where
  "sample_jq \<equiv> (\<lambda>_ _. Inr [sample_bar])"

abbreviation sample_jq_fail :: jq_post_api where
  "sample_jq_fail \<equiv> (\<lambda>_ _. Inl (ProviderError ''jqdatasdk''))"

abbreviation sample_ne :: netease_api where
  "sample_ne \<equiv> (\<lambda>_ _ _. Inr [\<lparr>ne_date = (Date 2019 1 2, 0), ne_turnover_rate = Some 1.5, ne_change_pct = Some 2\<rparr>])"

abbreviation sample_ne_fail :: netease_api where
  "sample_ne_fail \<equiv> (\<lambda>_ _ _. Inl (ProviderError ''netease''))"

abbreviation sample_recorder :: "(string \<rightharpoonup> real option) \<Rightarrow> jq_recorder" where
  "sample_recorder cf \<equiv> \<lparr>rec_level = ''1d'', jq_trading_level = ''1d'', data_schema = ''stock_1d_kdata'',
     start_timestamp = None, entities = [sample_entity], current_factors = cf\<rparr>"

abbreviation sample_raw :: "date \<Rightarrow> raw_bar" where
  "sample_raw d \<equiv> \<lparr>raw_ts = (d, 0), raw_open = Some 5, raw_close = Some 6, raw_low = Some 4,
                    raw_high = Some 7, raw_volume = Some 1000, raw_money = Some 6000\<rparr>"

text \<open>Sample stand-ins for \<open>get_kdata_schema\<close> and \<open>to_jq_trading_level\<close> of \<open>zvt.api.common\<close>.\<close>

abbreviation sample_schema_of :: "string \<Rightarrow> string \<Rightarrow> string" where
  "sample_schema_of et lvl \<equiv> et @ ''_'' @ lvl @ ''_kdata''"

abbreviation sample_jq_level_of :: "string \<Rightarrow> string" where
  "sample_jq_level_of lvl \<equiv> (if lvl = ''1h'' then ''60m'' else lvl)"

abbreviation sample_raw_api :: jq_raw_api where
  "sample_raw_api \<equiv> (\<lambda>_ _ _ _. Inr [sample_raw (Date 2019 1 2), sample_raw (Date 2019 1 3)])"

section \<open>Lemmas\<close>

lemmas kdata_eval = on_finish_entity_def select_unreconciled_def hfq_cutoff_def reconcile_hfq_def
  Let_def fill_hfq_def merge_turnover_def qfq_scope_for_def bar_at_def netease_at_def set_hfq_def
  set_qfq_def set_turnover_def generate_kdata_id_def qfq_consistent_def qfq_fields_def hfq_fields_def
  qfq_missing_def kdata_table_wf_def kdata_wf_def timestamp_defs

subsection \<open>What each assignment writes\<close>

lemma set_hfq_keeps [simp]:
  "kd_id (set_hfq b k) = kd_id k" "entity_id (set_hfq b k) = entity_id k"
  "timestamp (set_hfq b k) = timestamp k" "level (set_hfq b k) = level k"
  "qfq_fields (set_hfq b k) = qfq_fields k"
  "turnover_rate (set_hfq b k) = turnover_rate k" "change_pct (set_hfq b k) = change_pct k"
  by (simp_all add: set_hfq_def qfq_fields_def)

lemma set_hfq_hfq_fields [simp]:
  "hfq_fields (set_hfq b k) = (Some (bar_open b), Some (bar_close b), Some (bar_high b), Some (bar_low b), Some (bar_factor b))"
  by (simp add: set_hfq_def hfq_fields_def)

lemma set_hfq_idem [simp]: "set_hfq b (set_hfq b k) = set_hfq b k"
  by (simp add: set_hfq_def)

lemma set_qfq_keeps [simp]:
  "kd_id (set_qfq f r) = kd_id r" "entity_id (set_qfq f r) = entity_id r"
  "timestamp (set_qfq f r) = timestamp r" "level (set_qfq f r) = level r"
  "hfq_fields (set_qfq f r) = hfq_fields r"
  "turnover_rate (set_qfq f r) = turnover_rate r" "change_pct (set_qfq f r) = change_pct r"
  by (simp_all add: set_qfq_def hfq_fields_def)

lemma set_qfq_consistent: "qfq_consistent f (set_qfq f r)"
  by (simp add: set_qfq_def qfq_consistent_def qfq_fields_def)

lemma set_turnover_keeps [simp]:
  "kd_id (set_turnover n k) = kd_id k" "entity_id (set_turnover n k) = entity_id k"
  "timestamp (set_turnover n k) = timestamp k" "level (set_turnover n k) = level k"
  "hfq_fields (set_turnover n k) = hfq_fields k" "qfq_fields (set_turnover n k) = qfq_fields k"
  by (simp_all add: set_turnover_def hfq_fields_def qfq_fields_def)

lemma set_turnover_idem [simp]: "set_turnover n (set_turnover n k) = set_turnover n k"
  by (simp add: set_turnover_def)

lemma qfq_consistent_cong:
  "hfq_fields r' = hfq_fields r \<Longrightarrow> qfq_fields r' = qfq_fields r \<Longrightarrow> qfq_consistent f r' = qfq_consistent f r"
  by (simp add: qfq_consistent_def hfq_fields_def)

lemma qfq_missing_fields: "qfq_fields r' = qfq_fields r \<Longrightarrow> qfq_missing r' = qfq_missing r"
  by (auto simp: qfq_missing_def qfq_fields_def)

subsection \<open>Well-formed rows: the identifier determines entity, timestamp and level\<close>

lemma kdata_wf_same_id:
  "kdata_wf r \<Longrightarrow> kdata_wf k \<Longrightarrow> kd_id r = kd_id k \<Longrightarrow>
     entity_id r = entity_id k \<and> timestamp r = timestamp k \<and> level r = level k"
  by (simp add: kdata_wf_def generate_kdata_id_def)

lemma select_unreconciled_rows:
  "k \<in> set (select_unreconciled tbl eid lvl) \<longleftrightarrow>
     k \<in> set tbl \<and> entity_id k = eid \<and> level k = lvl \<and> hfq_close k = None \<and> hfq_cutoff \<le> timestamp k"
  by (auto simp: select_unreconciled_def)

lemma select_unreconciled_wf:
  "kdata_table_wf tbl \<Longrightarrow> kdata_table_wf (select_unreconciled tbl eid lvl)"
  by (auto simp: kdata_table_wf_def select_unreconciled_rows)

subsection \<open>The two loops rewrite exactly the loaded rows\<close>

lemma fill_hfq_eq:
  assumes "kdata_table_wf tbl" "kdata_table_wf ks"
  shows "fill_hfq df ks tbl =
           update_where (\<lambda>r. kd_id r \<in> kd_id ` set ks)
             (apply_match (\<lambda>k. bar_at df (to_time_str (timestamp k))) set_hfq) tbl"
  unfolding fill_hfq_def
proof (rule for_each_match_eq)
  fix r k assume "r \<in> set tbl" "k \<in> set ks" "kd_id r = kd_id k"
  with assms show "bar_at df (to_time_str (timestamp r)) = bar_at df (to_time_str (timestamp k))"
    using kdata_wf_same_id by (metis kdata_table_wf_def)
qed simp_all

lemma merge_turnover_eq:
  assumes "kdata_table_wf tbl" "kdata_table_wf ks"
  shows "merge_turnover nd ks tbl =
           update_where (\<lambda>r. kd_id r \<in> kd_id ` set ks)
             (apply_match (\<lambda>k. netease_at nd (timestamp k)) set_turnover) tbl"
  unfolding merge_turnover_def
proof (rule for_each_match_eq)
  fix r k assume "r \<in> set tbl" "k \<in> set ks" "kd_id r = kd_id k"
  with assms show "netease_at nd (timestamp r) = netease_at nd (timestamp k)"
    using kdata_wf_same_id by (metis kdata_table_wf_def)
qed simp_all


subsection \<open>Well-formedness is kept\<close>

lemma kdata_wf_assignments [simp]:
  "kdata_wf (set_hfq b r) = kdata_wf r" "kdata_wf (set_qfq f r) = kdata_wf r"
  "kdata_wf (set_turnover n r) = kdata_wf r"
  by (simp_all add: kdata_wf_def)

lemma kdata_table_wf_update_where:
  "(\<And>r. kdata_wf r \<Longrightarrow> kdata_wf (f r)) \<Longrightarrow> kdata_table_wf tbl \<Longrightarrow> kdata_table_wf (update_where P f tbl)"
  by (auto simp: kdata_table_wf_def update_where_def)

lemma kdata_table_wf_for_each_match:
  "(\<And>v r. kdata_wf r \<Longrightarrow> kdata_wf (upd v r)) \<Longrightarrow> kdata_table_wf tbl \<Longrightarrow>
     kdata_table_wf (for_each_match ident look upd ks tbl)"
  unfolding kdata_table_wf_def by (blast intro: for_each_match_preserves)

lemma kdata_table_wf_fill_hfq: "kdata_table_wf tbl \<Longrightarrow> kdata_table_wf (fill_hfq df ks tbl)"
  unfolding fill_hfq_def by (rule kdata_table_wf_for_each_match) simp

lemma kdata_table_wf_merge_turnover: "kdata_table_wf tbl \<Longrightarrow> kdata_table_wf (merge_turnover nd ks tbl)"
  unfolding merge_turnover_def by (rule kdata_table_wf_for_each_match) simp

lemma kdata_table_wf_qfq_update_sql: "kdata_table_wf tbl \<Longrightarrow> kdata_table_wf (qfq_update_sql sc f eid lvl tbl)"
  by (cases sc) (simp_all add: kdata_table_wf_update_where)

lemma kdata_table_wf_reconcile_hfq: "kdata_table_wf tbl \<Longrightarrow> kdata_table_wf (reconcile_hfq rc e ks df tbl)"
  by (simp add: reconcile_hfq_def Let_def kdata_table_wf_fill_hfq kdata_table_wf_qfq_update_sql)

lemma length_qfq_update_sql [simp]: "length (qfq_update_sql sc f eid lvl tbl) = length tbl"
  by (cases sc) simp_all

lemma length_reconcile_hfq [simp]: "length (reconcile_hfq rc e ks df tbl) = length tbl"
  by (simp add: reconcile_hfq_def Let_def fill_hfq_def)

lemma length_fill_hfq [simp]: "length (fill_hfq df ks tbl) = length tbl"
  by (simp add: fill_hfq_def)

lemma length_merge_turnover [simp]: "length (merge_turnover nd ks tbl) = length tbl"
  by (simp add: merge_turnover_def)

subsection \<open>The shape of \<open>on_finish_entity\<close>\<close>

lemma on_finish_entity_shape:
  "fst (on_finish_entity jq ne rc e tbl) = tbl \<or>
   (\<exists>df. fst (on_finish_entity jq ne rc e tbl) =
            reconcile_hfq rc e (select_unreconciled tbl (ent_id e) (rec_level rc)) df tbl \<or>
         (\<exists>nd. fst (on_finish_entity jq ne rc e tbl) =
            merge_turnover nd (select_unreconciled tbl (ent_id e) (rec_level rc))
              (reconcile_hfq rc e (select_unreconciled tbl (ent_id e) (rec_level rc)) df tbl)))"
  unfolding on_finish_entity_def Let_def
  by (auto split: sum.split)

lemma on_finish_entity_fetched:
  assumes "select_unreconciled tbl (ent_id e) (rec_level rc) = k # ks"
    and "jq e (to_time_str (timestamp k)) = Inr df"
  shows "fst (on_finish_entity jq ne rc e tbl) = reconcile_hfq rc e (k # ks) df tbl \<or>
         (\<exists>nd. fst (on_finish_entity jq ne rc e tbl) = merge_turnover nd (k # ks) (reconcile_hfq rc e (k # ks) df tbl))"
  using assms unfolding on_finish_entity_def Let_def
  by (auto split: sum.split)

lemma reconcile_hfq_nonempty:
  "df \<noteq> [] \<Longrightarrow> reconcile_hfq rc e ks df tbl =
     qfq_update_sql (qfq_scope_for (current_factors rc) (ent_id e) (bar_factor (last df)))
       (bar_factor (last df)) (ent_id e) (rec_level rc) (fill_hfq df ks tbl)"
  by (simp add: reconcile_hfq_def Let_def)

lemma merge_turnover_frames:
  "map qfq_fields (merge_turnover nd ks tbl) = map qfq_fields tbl"
  "map hfq_fields (merge_turnover nd ks tbl) = map hfq_fields tbl"
  unfolding merge_turnover_def by (simp_all add: map_for_each_match_frame)

lemma fill_hfq_qfq_frame: "map qfq_fields (fill_hfq df ks tbl) = map qfq_fields tbl"
  unfolding fill_hfq_def by (simp add: map_for_each_match_frame)

lemma qfq_update_sql_hfq_frame: "map hfq_fields (qfq_update_sql sc f eid lvl tbl) = map hfq_fields tbl"
  by (cases sc) (simp_all add: map_update_where_frame)


lemma fill_hfq_key_frame:
  "map entity_id (fill_hfq df ks tbl) = map entity_id tbl"
  "map level (fill_hfq df ks tbl) = map level tbl"
  unfolding fill_hfq_def by (simp_all add: map_for_each_match_frame)

lemma merge_turnover_nth_preserves:
  "i < length tbl \<Longrightarrow> Q (tbl ! i) \<Longrightarrow> (\<And>n r. Q r \<Longrightarrow> Q (set_turnover n r)) \<Longrightarrow>
     Q (merge_turnover nd ks tbl ! i)"
  unfolding merge_turnover_def by (rule for_each_match_nth_preserves)

lemma qfq_consistent_set_turnover: "qfq_consistent f r \<Longrightarrow> qfq_consistent f (set_turnover n r)"
  using qfq_consistent_cong [of "set_turnover n r" r f] by simp

subsection \<open>The forward-adjusted recomputation\<close>

text \<open>C1. Factor changed: when the latest factor of the fetched back-adjusted series differs
  from the factor captured when the recorder started, then after \<open>on_finish_entity\<close> every
  stored row of that entity at the recorder's level has all four forward-adjusted prices
  equal to its back-adjusted prices divided by the new factor (no mix of old and new
  divisors), whatever the netease step does.\<close>

theorem on_finish_entity_factor_changed:
  assumes sel: "select_unreconciled tbl (ent_id e) (rec_level rc) = k # ks"
    and jq: "jq e (to_time_str (timestamp k)) = Inr df" and df: "df \<noteq> []"
    and changed: "current_factors rc (ent_id e) \<noteq> Some (Some (bar_factor (last df)))"
    and r: "r \<in> set (fst (on_finish_entity jq ne rc e tbl))"
    and "entity_id r = ent_id e" and "level r = rec_level rc"
  shows "qfq_consistent (bar_factor (last df)) r"
proof -
  let ?lf = "bar_factor (last df)"
  let ?Q = "\<lambda>r. entity_id r = ent_id e \<and> level r = rec_level rc \<longrightarrow> qfq_consistent ?lf r"
  let ?T = "reconcile_hfq rc e (k # ks) df tbl"
  have T: "?T = update_where (\<lambda>r. entity_id r = ent_id e \<and> level r = rec_level rc) (set_qfq ?lf)
                  (fill_hfq df (k # ks) tbl)"
    using df changed by (simp add: reconcile_hfq_nonempty qfq_scope_for_def)
  have QT: "?Q r'" if "r' \<in> set ?T" for r'
    using that unfolding T by (rule update_where_preserves) (auto simp: set_qfq_consistent)
  have shape: "fst (on_finish_entity jq ne rc e tbl) = ?T \<or>
      (\<exists>nd. fst (on_finish_entity jq ne rc e tbl) = merge_turnover nd (k # ks) ?T)"
    using sel jq by (rule on_finish_entity_fetched)
  have "?Q r"
    using shape
  proof (elim disjE exE)
    assume "fst (on_finish_entity jq ne rc e tbl) = ?T"
    with r show "?Q r" by (simp add: QT)
  next
    fix nd
    assume "fst (on_finish_entity jq ne rc e tbl) = merge_turnover nd (k # ks) ?T"
    with r have "r \<in> set (for_each_match kd_id (\<lambda>k. netease_at nd (timestamp k)) set_turnover (k # ks) ?T)"
      by (simp add: merge_turnover_def)
    then show "?Q r"
      by (rule for_each_match_preserves) (simp_all add: QT qfq_consistent_set_turnover)
  qed
  with assms(6,7) show ?thesis by simp
qed

text \<open>A complete row keeps its forward-adjusted prices when the factor is unchanged.\<close>

lemma on_finish_entity_complete_kept:
  assumes sel: "select_unreconciled tbl (ent_id e) (rec_level rc) = k # ks"
    and jq: "jq e (to_time_str (timestamp k)) = Inr df" and df: "df \<noteq> []"
    and same: "current_factors rc (ent_id e) = Some (Some (bar_factor (last df)))"
    and i: "i < length tbl" and complete: "\<not> qfq_missing (tbl ! i)"
  shows "qfq_fields (fst (on_finish_entity jq ne rc e tbl) ! i) = qfq_fields (tbl ! i)"
proof -
  let ?T1 = "fill_hfq df (k # ks) tbl"
  let ?T = "reconcile_hfq rc e (k # ks) df tbl"
  have T: "?T = update_where (\<lambda>r. entity_id r = ent_id e \<and> level r = rec_level rc \<and> qfq_missing r)
                  (set_qfq (bar_factor (last df))) ?T1"
    using df same by (simp add: reconcile_hfq_nonempty qfq_scope_for_def)
  have 1: "qfq_fields (?T1 ! i) = qfq_fields (tbl ! i)"
    using fill_hfq_qfq_frame i by (rule map_eq_nth)
  then have "\<not> qfq_missing (?T1 ! i)"
    using complete qfq_missing_fields by metis
  then have 2: "?T ! i = ?T1 ! i"
    using i by (simp add: T)
  have 3: "qfq_fields (merge_turnover nd (k # ks) ?T ! i) = qfq_fields (?T ! i)" for nd
    using merge_turnover_frames(1) by (rule map_eq_nth) (simp add: i)
  have shape: "fst (on_finish_entity jq ne rc e tbl) = ?T \<or>
      (\<exists>nd. fst (on_finish_entity jq ne rc e tbl) = merge_turnover nd (k # ks) ?T)"
    using sel jq by (rule on_finish_entity_fetched)
  with 1 2 3 show ?thesis by auto
qed

text \<open>An incomplete row of the entity and level is recomputed when the factor is unchanged.\<close>

lemma on_finish_entity_missing_recomputed:
  assumes sel: "select_unreconciled tbl (ent_id e) (rec_level rc) = k # ks"
    and jq: "jq e (to_time_str (timestamp k)) = Inr df" and df: "df \<noteq> []"
    and same: "current_factors rc (ent_id e) = Some (Some (bar_factor (last df)))"
    and i: "i < length tbl" and "entity_id (tbl ! i) = ent_id e" and "level (tbl ! i) = rec_level rc"
    and missing: "qfq_missing (tbl ! i)"
  shows "qfq_consistent (bar_factor (last df)) (fst (on_finish_entity jq ne rc e tbl) ! i)"
proof -
  let ?lf = "bar_factor (last df)"
  let ?T1 = "fill_hfq df (k # ks) tbl"
  let ?T = "reconcile_hfq rc e (k # ks) df tbl"
  have T: "?T = update_where (\<lambda>r. entity_id r = ent_id e \<and> level r = rec_level rc \<and> qfq_missing r)
                  (set_qfq ?lf) ?T1"
    using df same by (simp add: reconcile_hfq_nonempty qfq_scope_for_def)
  have "qfq_fields (?T1 ! i) = qfq_fields (tbl ! i)"
    using fill_hfq_qfq_frame i by (rule map_eq_nth)
  then have "qfq_missing (?T1 ! i)"
    using missing qfq_missing_fields by metis
  moreover have "entity_id (?T1 ! i) = ent_id e" "level (?T1 ! i) = rec_level rc"
    using map_eq_nth [OF fill_hfq_key_frame(1) i] map_eq_nth [OF fill_hfq_key_frame(2) i] assms(6,7)
    by simp_all
  ultimately have "?T ! i = set_qfq ?lf (?T1 ! i)"
    using i by (simp add: T)
  then have QT: "qfq_consistent ?lf (?T ! i)"
    by (simp add: set_qfq_consistent)
  have "qfq_consistent ?lf (merge_turnover nd (k # ks) ?T ! i)" for nd
    by (rule merge_turnover_nth_preserves [where Q = "qfq_consistent ?lf"])
      (simp_all add: i QT qfq_consistent_set_turnover)
  moreover have "fst (on_finish_entity jq ne rc e tbl) = ?T \<or>
      (\<exists>nd. fst (on_finish_entity jq ne rc e tbl) = merge_turnover nd (k # ks) ?T)"
    using sel jq by (rule on_finish_entity_fetched)
  ultimately show ?thesis using QT by auto
qed

text \<open>C2. Unchanged-factor invariant: when the latest fetched factor equals the captured one,
  a row that already had all four forward-adjusted prices keeps exactly its values, and a row
  of the entity and level that misses one of them is recomputed from its (possibly just
  filled) back-adjusted prices and the latest factor.\<close>

theorem on_finish_entity_factor_unchanged:
  assumes sel: "select_unreconciled tbl (ent_id e) (rec_level rc) = k # ks"
    and jq: "jq e (to_time_str (timestamp k)) = Inr df" and df: "df \<noteq> []"
    and same: "current_factors rc (ent_id e) = Some (Some (bar_factor (last df)))"
    and i: "i < length tbl"
  shows "(\<not> qfq_missing (tbl ! i) \<longrightarrow>
           qfq_fields (fst (on_finish_entity jq ne rc e tbl) ! i) = qfq_fields (tbl ! i)) \<and>
         (entity_id (tbl ! i) = ent_id e \<and> level (tbl ! i) = rec_level rc \<and> qfq_missing (tbl ! i) \<longrightarrow>
           qfq_consistent (bar_factor (last df)) (fst (on_finish_entity jq ne rc e tbl) ! i))"
  using on_finish_entity_complete_kept [where jq = jq and e = e and k = k and df = df, OF sel jq df same i]
    on_finish_entity_missing_recomputed [where jq = jq and e = e and k = k and df = df, OF sel jq df same i]
  by blast


lemma length_on_finish_entity [simp]: "length (fst (on_finish_entity jq ne rc e tbl)) = length tbl"
  using on_finish_entity_shape [of jq ne rc e tbl] by auto

subsection \<open>The back-adjusted fill\<close>

text \<open>C3. Back-adjusted fill: every row of the entity and level that still missed its
  back-adjusted close, is dated on or after 2005-01-01, and whose date is in the fetched
  post-adjusted series ends with that day's back-adjusted open, close, high, low and factor.
  The series is fetched at daily frequency and the row is matched by \<open>to_time_str\<close>, its
  date alone: at an intraday level every bar of a day receives that day's daily values.\<close>

theorem on_finish_entity_hfq_filled:
  assumes wf: "kdata_table_wf tbl"
    and sel: "select_unreconciled tbl (ent_id e) (rec_level rc) = k # ks"
    and jq: "jq e (to_time_str (timestamp k)) = Inr df"
    and i: "i < length tbl"
    and row: "entity_id (tbl ! i) = ent_id e" "level (tbl ! i) = rec_level rc"
      "hfq_close (tbl ! i) = None" "hfq_cutoff \<le> timestamp (tbl ! i)"
    and bar: "bar_at df (to_time_str (timestamp (tbl ! i))) = Some b"
  shows "hfq_fields (fst (on_finish_entity jq ne rc e tbl) ! i) =
           (Some (bar_open b), Some (bar_close b), Some (bar_high b), Some (bar_low b), Some (bar_factor b))"
proof -
  let ?T1 = "fill_hfq df (k # ks) tbl"
  let ?T = "reconcile_hfq rc e (k # ks) df tbl"
  have df: "df \<noteq> []"
    using bar by (auto simp: bar_at_def)
  have "tbl ! i \<in> set (select_unreconciled tbl (ent_id e) (rec_level rc))"
    using i row by (simp add: select_unreconciled_rows)
  then have mem: "tbl ! i \<in> set (k # ks)"
    by (simp only: sel)
  have wfks: "kdata_table_wf (k # ks)"
    using select_unreconciled_wf [OF wf, of "ent_id e" "rec_level rc"] by (simp only: sel)
  have 1: "hfq_fields (?T1 ! i) = hfq_fields (set_hfq b (tbl ! i))"
    using i mem bar by (auto simp: fill_hfq_eq [OF wf wfks] apply_match_def)
  have 2: "hfq_fields (?T ! i) = hfq_fields (?T1 ! i)"
    unfolding reconcile_hfq_nonempty [OF df]
    by (rule map_eq_nth [OF qfq_update_sql_hfq_frame]) (simp add: i)
  have 3: "hfq_fields (merge_turnover nd (k # ks) ?T ! i) = hfq_fields (?T ! i)" for nd
    by (rule map_eq_nth [OF merge_turnover_frames(2)]) (simp add: i)
  have "fst (on_finish_entity jq ne rc e tbl) = ?T \<or>
      (\<exists>nd. fst (on_finish_entity jq ne rc e tbl) = merge_turnover nd (k # ks) ?T)"
    using sel jq by (rule on_finish_entity_fetched)
  with 1 2 3 show ?thesis by auto
qed

subsection \<open>Rows of other entities and levels\<close>

lemma select_unreconciled_other_id:
  "kdata_table_wf tbl \<Longrightarrow> kdata_wf r \<Longrightarrow> entity_id r \<noteq> eid \<or> level r \<noteq> lvl \<Longrightarrow>
     kd_id r \<notin> kd_id ` set (select_unreconciled tbl eid lvl)"
  by (fastforce simp: select_unreconciled_rows kdata_table_wf_def kdata_wf_def generate_kdata_id_def)

lemma reconcile_hfq_other_row:
  assumes wf: "kdata_table_wf tbl" and i: "i < length tbl"
    and other: "entity_id (tbl ! i) \<noteq> ent_id e \<or> level (tbl ! i) \<noteq> rec_level rc"
  shows "reconcile_hfq rc e (select_unreconciled tbl (ent_id e) (rec_level rc)) df tbl ! i = tbl ! i"
proof -
  let ?ks = "select_unreconciled tbl (ent_id e) (rec_level rc)"
  have "kdata_wf (tbl ! i)"
    using wf i by (simp add: kdata_table_wf_def)
  then have "kd_id (tbl ! i) \<notin> kd_id ` set ?ks"
    using other by (rule select_unreconciled_other_id [OF wf])
  then have T1: "fill_hfq df ?ks tbl ! i = tbl ! i"
    using i by (simp add: fill_hfq_eq [OF wf select_unreconciled_wf [OF wf]])
  show ?thesis
  proof (cases "df = []")
    case True
    then show ?thesis by (simp add: reconcile_hfq_def)
  next
    case False
    with T1 other i show ?thesis
      by (cases "qfq_scope_for (current_factors rc) (ent_id e) (bar_factor (last df))")
        (auto simp: reconcile_hfq_nonempty)
  qed
qed

text \<open>C4. Frame: \<open>on_finish_entity\<close> for one entity leaves every row of another entity or
  of another level exactly as it was, on every path (nothing to reconcile, provider errors,
  empty frames, both \<open>UPDATE\<close> statements, the netease merge).\<close>

theorem on_finish_entity_frame:
  assumes wf: "kdata_table_wf tbl" and i: "i < length tbl"
    and other: "entity_id (tbl ! i) \<noteq> ent_id e \<or> level (tbl ! i) \<noteq> rec_level rc"
  shows "fst (on_finish_entity jq ne rc e tbl) ! i = tbl ! i"
proof -
  let ?ks = "select_unreconciled tbl (ent_id e) (rec_level rc)"
  have R: "reconcile_hfq rc e ?ks df tbl ! i = tbl ! i" for df
    using wf i other by (rule reconcile_hfq_other_row)
  have M: "merge_turnover nd ?ks (reconcile_hfq rc e ?ks df tbl) ! i = tbl ! i" for nd df
  proof -
    have "kd_id (tbl ! i) \<notin> kd_id ` set ?ks"
      using wf i other by (intro select_unreconciled_other_id) (simp_all add: kdata_table_wf_def)
    then show ?thesis
      using i R [of df]
      by (simp add: merge_turnover_eq [OF kdata_table_wf_reconcile_hfq [OF wf] select_unreconciled_wf [OF wf]])
  qed
  show ?thesis
    using on_finish_entity_shape [of jq ne rc e tbl] R M by auto
qed

subsection \<open>Well-formedness and error paths\<close>

text \<open>C5. Invariant: \<open>on_finish_entity\<close> keeps the table well formed (every row's identifier
  is generated from its entity, timestamp and level) and never inserts or deletes rows.\<close>

theorem on_finish_entity_wf:
  assumes "kdata_table_wf tbl"
  shows "kdata_table_wf (fst (on_finish_entity jq ne rc e tbl)) \<and>
         length (fst (on_finish_entity jq ne rc e tbl)) = length tbl"
  using on_finish_entity_shape [of jq ne rc e tbl] assms
  by (auto simp: kdata_table_wf_reconcile_hfq kdata_table_wf_merge_turnover)

text \<open>C6. Netease failure: if the turnover request raises, the exception escapes
  \<open>on_finish_entity\<close> after the back-adjusted fill and the forward-adjusted \<open>UPDATE\<close> have
  been committed (the spec describes this merge as best-effort, swallowing errors).\<close>

theorem on_finish_entity_netease_error:
  assumes "select_unreconciled tbl (ent_id e) (rec_level rc) = k # ks"
    and "jq e (to_time_str (timestamp k)) = Inr df"
    and "ne (netease_code e) (to_time_str (timestamp k)) (to_time_str (timestamp (last (k # ks)))) = Inl err"
  shows "on_finish_entity jq ne rc e tbl = (reconcile_hfq rc e (k # ks) df tbl, Some err)"
  using assms by (simp add: on_finish_entity_def Let_def)

text \<open>C7. JoinQuant failure: if the post-adjusted price request raises, the table is left
  as it was and the rows still missing their back-adjusted close are selected again by the
  next run.\<close>

theorem on_finish_entity_jq_error:
  assumes "select_unreconciled tbl (ent_id e) (rec_level rc) = k # ks"
    and "jq e (to_time_str (timestamp k)) = Inl err"
  shows "on_finish_entity jq ne rc e tbl = (tbl, Some err) \<and>
         select_unreconciled (fst (on_finish_entity jq ne rc e tbl)) (ent_id e) (rec_level rc) = k # ks"
  using assms by (simp add: on_finish_entity_def Let_def)


subsection \<open>Witnesses\<close>

theorem on_finish_entity_factor_changed_witness:
  "current_factors (sample_recorder Map.empty) ''stock_sz_000778'' \<noteq> Some (Some 2) \<and>
   qfq_consistent 2 (fst (on_finish_entity sample_jq sample_ne (sample_recorder Map.empty) sample_entity sample_table) ! 0)"
  using on_finish_entity_factor_changed [where tbl = sample_table and e = sample_entity
      and rc = "sample_recorder Map.empty" and k = sample_row and ks = "[]" and jq = sample_jq
      and df = "[sample_bar]" and ne = sample_ne
      and r = "fst (on_finish_entity sample_jq sample_ne (sample_recorder Map.empty) sample_entity sample_table) ! 0"]
  by (simp add: kdata_eval)

theorem on_finish_entity_factor_unchanged_witness:
  "\<not> qfq_missing sample_done_row \<and>
   qfq_fields (fst (on_finish_entity sample_jq sample_ne (sample_recorder [''stock_sz_000778'' \<mapsto> Some 2])
      sample_entity sample_table) ! 0) = (Some 4, Some 4, Some 5, Some 3) \<and>
   qfq_missing sample_row \<and>
   qfq_consistent 2 (fst (on_finish_entity sample_jq sample_ne (sample_recorder [''stock_sz_000778'' \<mapsto> Some 2])
      sample_entity sample_table) ! 1)"
proof -
  note c = on_finish_entity_factor_unchanged [where tbl = sample_table and e = sample_entity
      and rc = "sample_recorder [''stock_sz_000778'' \<mapsto> Some 2]" and k = sample_row and ks = "[]"
      and jq = sample_jq and df = "[sample_bar]" and ne = sample_ne]
  have "\<not> qfq_missing sample_done_row \<and>
   qfq_fields (fst (on_finish_entity sample_jq sample_ne (sample_recorder [''stock_sz_000778'' \<mapsto> Some 2])
      sample_entity sample_table) ! 0) = (Some 4, Some 4, Some 5, Some 3)"
    using c [where i = 0] by (simp add: kdata_eval)
  moreover have "qfq_missing sample_row \<and>
   qfq_consistent 2 (fst (on_finish_entity sample_jq sample_ne (sample_recorder [''stock_sz_000778'' \<mapsto> Some 2])
      sample_entity sample_table) ! 1)"
    using c [where i = 1] by (simp add: kdata_eval)
  ultimately show ?thesis by blast
qed

theorem on_finish_entity_hfq_filled_witness:
  "hfq_fields (fst (on_finish_entity sample_jq sample_ne (sample_recorder Map.empty) sample_entity sample_table) ! 1)
     = (Some 10, Some 12, Some 14, Some 8, Some 2)"
  using on_finish_entity_hfq_filled [where tbl = sample_table and e = sample_entity
      and rc = "sample_recorder Map.empty" and k = sample_row and ks = "[]" and jq = sample_jq
      and df = "[sample_bar]" and ne = sample_ne and i = 1 and b = sample_bar]
  by (simp add: kdata_eval)

theorem on_finish_entity_frame_witness:
  "fst (on_finish_entity sample_jq sample_ne (sample_recorder Map.empty) sample_entity
     [sample_other_row, sample_row]) ! 0 = sample_other_row"
  using on_finish_entity_frame [where tbl = "[sample_other_row, sample_row]" and e = sample_entity
      and rc = "sample_recorder Map.empty" and jq = sample_jq and ne = sample_ne and i = 0]
  by (simp add: kdata_eval)

theorem on_finish_entity_wf_witness:
  "kdata_table_wf (fst (on_finish_entity sample_jq sample_ne (sample_recorder Map.empty) sample_entity sample_table)) \<and>
   length (fst (on_finish_entity sample_jq sample_ne (sample_recorder Map.empty) sample_entity sample_table)) = 2"
  using on_finish_entity_wf [where tbl = sample_table and e = sample_entity
      and rc = "sample_recorder Map.empty" and jq = sample_jq and ne = sample_ne]
  by (simp add: kdata_table_wf_def kdata_wf_def generate_kdata_id_def)

theorem on_finish_entity_netease_error_witness:
  "on_finish_entity sample_jq sample_ne_fail (sample_recorder Map.empty) sample_entity sample_table =
     (reconcile_hfq (sample_recorder Map.empty) sample_entity [sample_row] [sample_bar] sample_table,
      Some (ProviderError ''netease''))"
  using on_finish_entity_netease_error [where tbl = sample_table and e = sample_entity
      and rc = "sample_recorder Map.empty" and k = sample_row and ks = "[]" and jq = sample_jq
      and df = "[sample_bar]" and ne = sample_ne_fail and err = "ProviderError ''netease''"]
  by (simp add: select_unreconciled_def hfq_cutoff_def timestamp_defs)

theorem on_finish_entity_jq_error_witness:
  "on_finish_entity sample_jq_fail sample_ne (sample_recorder Map.empty) sample_entity sample_table =
     (sample_table, Some (ProviderError ''jqdatasdk''))"
  using on_finish_entity_jq_error [where tbl = sample_table and e = sample_entity
      and rc = "sample_recorder Map.empty" and k = sample_row and ks = "[]" and jq = sample_jq_fail
      and ne = sample_ne and err = "ProviderError ''jqdatasdk''"]
  by (simp add: select_unreconciled_def hfq_cutoff_def timestamp_defs)

subsection \<open>\<open>record\<close>\<close>

lemma raw_to_kdata_fields [simp]:
  "kdata_wf (raw_to_kdata rc e b)" "entity_id (raw_to_kdata rc e b) = ent_id e"
  "level (raw_to_kdata rc e b) = rec_level rc" "timestamp (raw_to_kdata rc e b) = raw_ts b"
  "hfq_fields (raw_to_kdata rc e b) = (None, None, None, None, None)"
  "qfq_fields (raw_to_kdata rc e b) = (None, None, None, None)"
  by (simp_all add: raw_to_kdata_def kdata_wf_def hfq_fields_def qfq_fields_def)

text \<open>C8. Empty frame: when JoinQuant returns no bar for the requested window, \<open>record\<close>
  raises \<open>IndexError\<close> (from \<open>df.iloc[-1, :]\<close>) instead of recording nothing.\<close>

theorem jq_record_empty_frame:
  assumes "api e (to_time_str (record_start rc start)) (to_time_str (add_one_day now)) (jq_trading_level rc) = Inr []"
  shows "jq_record api in_trading now rc e start = Inl IndexError"
  using assms by (simp add: jq_record_def)

text \<open>C9. Recorded rows: the rows \<open>record\<close> returns are well formed and are the bars of the
  frame in order, without the last one exactly when that one is still being traded: each
  row carries its bar's timestamp, open, close, high, low, volume and money (as turnover),
  the entity, its name, the recorder's level and the provider \<open>joinquant\<close>, and no factor,
  no back- or forward-adjusted price and no turnover rate or change yet.\<close>

theorem jq_record_rows:
  assumes "api e (to_time_str (record_start rc start)) (to_time_str (add_one_day now)) (jq_trading_level rc) = Inr df"
    and "jq_record api in_trading now rc e start = Inr rows"
  shows "kdata_table_wf rows \<and>
         map (\<lambda>r. (timestamp r, open_price r, close_price r, high_price r, low_price r, volume r, turnover r)) rows =
           map (\<lambda>b. (raw_ts b, raw_open b, raw_close b, raw_high b, raw_low b, raw_volume b, raw_money b))
             (if in_trading (raw_ts (last df)) then butlast df else df) \<and>
         list_all (\<lambda>r. entity_id r = ent_id e \<and> kd_name r = name e \<and> level r = rec_level rc \<and>
                       provider r = ''joinquant'' \<and> factor r = None \<and>
                       hfq_fields r = (None, None, None, None, None) \<and> qfq_fields r = (None, None, None, None) \<and>
                       turnover_rate r = None \<and> change_pct r = None) rows"
  using assms
  by (auto simp: jq_record_def kdata_table_wf_def list_all_iff raw_to_kdata_def hfq_fields_def qfq_fields_def
      kdata_wf_def simp flip: map_butlast split: if_splits dest: in_set_butlastD)

text \<open>C10. Request window: \<open>record\<close> makes exactly one request to JoinQuant, for the entity
  at the recorder's frequency, from the later of the scheduled start and the configured
  \<open>start_timestamp\<close> to the calendar day after now, and its result depends on nothing else
  the provider might answer; for a valid date of now that end date is a valid date with no
  valid date strictly between them (month and year ends, leap years).\<close>

theorem jq_record_window:
  "jq_record api it now rc e start =
     jq_record (\<lambda>e' a b f. if e' = e \<and> a = to_time_str (record_start rc start) \<and>
                              b = next_date (to_time_str now) \<and> f = jq_trading_level rc
                           then api e' a b f else Inl KeyError) it now rc e start \<and>
   to_time_str start \<le> to_time_str (record_start rc start) \<and>
   (\<forall>st. start_timestamp rc = Some st \<longrightarrow> to_time_str st \<le> to_time_str (record_start rc start)) \<and>
   (to_time_str (record_start rc start) = to_time_str start \<or>
    (\<exists>st. start_timestamp rc = Some st \<and> to_time_str (record_start rc start) = to_time_str st)) \<and>
   (valid_date (to_time_str now) \<longrightarrow>
      valid_date (next_date (to_time_str now)) \<and> to_time_str now < next_date (to_time_str now) \<and>
      (\<forall>d. valid_date d \<and> to_time_str now < d \<longrightarrow> next_date (to_time_str now) \<le> d))"
proof -
  have req: "jq_record api it now rc e start =
     jq_record (\<lambda>e' a b f. if e' = e \<and> a = to_time_str (record_start rc start) \<and>
                              b = next_date (to_time_str now) \<and> f = jq_trading_level rc
                           then api e' a b f else Inl KeyError) it now rc e start"
    by (simp add: jq_record_def add_one_day_def to_time_str_def)
  have fst_max: "fst x \<le> fst (max x y) \<and> fst y \<le> fst (max x y) \<and>
      (fst (max x y) = fst x \<or> fst (max x y) = fst y)" for x y :: timestamp
    by (cases x, cases y) (auto simp: max_def less_eq_prod_def)
  have rs: "to_time_str start \<le> to_time_str (record_start rc start) \<and>
      (\<forall>st. start_timestamp rc = Some st \<longrightarrow> to_time_str st \<le> to_time_str (record_start rc start)) \<and>
      (to_time_str (record_start rc start) = to_time_str start \<or>
       (\<exists>st. start_timestamp rc = Some st \<and> to_time_str (record_start rc start) = to_time_str st))"
  proof (cases "start_timestamp rc")
    case None
    then show ?thesis by (simp add: record_start_def)
  next
    case (Some st)
    then show ?thesis using fst_max [of st start] by (auto simp: record_start_def to_time_str_def)
  qed
  have "valid_date (to_time_str now) \<longrightarrow>
      valid_date (next_date (to_time_str now)) \<and> to_time_str now < next_date (to_time_str now) \<and>
      (\<forall>d. valid_date d \<and> to_time_str now < d \<longrightarrow> next_date (to_time_str now) \<le> d)"
    by (simp add: next_date_valid next_date_later next_date_least)
  with req rs show ?thesis by blast
qed

subsection \<open>\<open>__init__\<close>\<close>

lemma get_kdata_latest_Some:
  assumes "get_kdata_latest tbl eid lvl = Some k"
  shows "k \<in> set tbl \<and> entity_id k = eid \<and> level k = lvl \<and>
         (\<forall>r \<in> set tbl. entity_id r = eid \<and> level r = lvl \<longrightarrow> timestamp r \<le> timestamp k)"
proof -
  let ?xs = "sort_key timestamp (filter (\<lambda>r. entity_id r = eid \<and> level r = lvl) tbl)"
  from assms obtain ys where "rev ?xs = k # ys"
    by (auto simp: get_kdata_latest_def split: list.splits)
  then have ne: "?xs \<noteq> []" and k: "k = last ?xs"
    by (auto simp flip: hd_rev)
  have "k \<in> set ?xs" unfolding k by (rule last_in_set [OF ne])
  then have "k \<in> set tbl \<and> entity_id k = eid \<and> level k = lvl" by simp
  moreover have "timestamp r \<le> timestamp k" if "r \<in> set tbl" "entity_id r = eid" "level r = lvl" for r
  proof -
    from that have "r \<in> set ?xs" by simp
    with sorted_sort_key show ?thesis unfolding k by (rule sorted_map_last_max)
  qed
  ultimately show ?thesis by blast
qed

lemma get_kdata_latest_None:
  "get_kdata_latest tbl eid lvl = None \<longleftrightarrow> (\<forall>r \<in> set tbl. entity_id r \<noteq> eid \<or> level r \<noteq> lvl)"
proof -
  let ?xs = "filter (\<lambda>r. entity_id r = eid \<and> level r = lvl) tbl"
  have "get_kdata_latest tbl eid lvl = None \<longleftrightarrow> sort_key timestamp ?xs = []"
    by (simp add: get_kdata_latest_def split: list.split)
  also have "\<dots> \<longleftrightarrow> ?xs = []"
    by (rule sort_key_Nil_iff)
  finally show ?thesis
    by (simp add: filter_empty_conv)
qed

lemma capture_factors_eq:
  "capture_factors tbl lvl es cf eid =
     (if eid \<in> ent_id ` set es
      then (case get_kdata_latest tbl eid lvl of None \<Rightarrow> cf eid | Some k \<Rightarrow> Some (factor k))
      else cf eid)"
  by (induction es arbitrary: cf) (auto split: option.split)


text \<open>C11. Factor capture: for every tracked entity with stored k-data at the recorder's
  level, \<open>__init__\<close> records the factor of a row with the latest timestamp.\<close>

theorem init_recorder_captures_latest_factor:
  assumes "e \<in> set es" and "k \<in> set tbl" and "entity_id k = ent_id e" and "level k = lvl"
  shows "\<exists>k'. current_factors (init_recorder sch jql et lvl st es tbl) (ent_id e) = Some (factor k') \<and>
              k' \<in> set tbl \<and> entity_id k' = ent_id e \<and> level k' = lvl \<and> timestamp k \<le> timestamp k'"
proof -
  obtain k' where k': "get_kdata_latest tbl (ent_id e) lvl = Some k'"
    using assms(2-4) get_kdata_latest_None by (cases "get_kdata_latest tbl (ent_id e) lvl") auto
  then show ?thesis
    using assms get_kdata_latest_Some [OF k']
    by (auto simp: init_recorder_def capture_factors_eq)
qed

text \<open>C12. New entities: an entity without stored k-data at the recorder's level when the
  recorder started has no captured factor, so its reconciliation always takes the
  rewrite-all-rows branch, whatever factor is fetched.\<close>

theorem init_recorder_new_entity_all_rows:
  assumes "\<forall>r \<in> set tbl. entity_id r \<noteq> ent_id e \<or> level r \<noteq> lvl"
  shows "qfq_scope_for (current_factors (init_recorder sch jql et lvl st es tbl)) (ent_id e) lf = All_Rows"
  using assms
  by (simp add: init_recorder_def capture_factors_eq qfq_scope_for_def get_kdata_latest_None [THEN iffD2])


subsection \<open>Intraday levels\<close>

subsection \<open>Witnesses of the recording and capture properties\<close>

theorem jq_record_empty_frame_witness:
  "jq_record (\<lambda>_ _ _ _. Inr []) (\<lambda>_. False) (Date 2019 1 2, 900) (sample_recorder Map.empty)
     sample_entity (Date 2019 1 1, 0) = Inl IndexError"
  using jq_record_empty_frame [where api = "\<lambda>_ _ _ _. Inr []" and e = sample_entity
      and rc = "sample_recorder Map.empty" and start = "(Date 2019 1 1, 0)" and now = "(Date 2019 1 2, 900)"
      and in_trading = "\<lambda>_. False"]
  by simp

theorem jq_record_rows_witness:
  "jq_record sample_raw_api (\<lambda>t. t = (Date 2019 1 3, 0)) (Date 2019 1 3, 600) (sample_recorder Map.empty)
     sample_entity (Date 2019 1 1, 0) = Inr [raw_to_kdata (sample_recorder Map.empty) sample_entity (sample_raw (Date 2019 1 2))] \<and>
   close_price (raw_to_kdata (sample_recorder Map.empty) sample_entity (sample_raw (Date 2019 1 2))) =
     raw_close (sample_raw (Date 2019 1 2)) \<and>
   qfq_close (raw_to_kdata (sample_recorder Map.empty) sample_entity (sample_raw (Date 2019 1 2))) = None"
  using jq_record_rows [where api = sample_raw_api and e = sample_entity
      and rc = "sample_recorder Map.empty" and start = "(Date 2019 1 1, 0)" and now = "(Date 2019 1 3, 600)"
      and in_trading = "\<lambda>t. t = (Date 2019 1 3, 0)"
      and df = "[sample_raw (Date 2019 1 2), sample_raw (Date 2019 1 3)]"
      and rows = "[raw_to_kdata (sample_recorder Map.empty) sample_entity (sample_raw (Date 2019 1 2))]"]
  by (simp add: jq_record_def qfq_fields_def)

theorem jq_record_window_witness:
  "jq_record sample_raw_api (\<lambda>_. False) (Date 2016 2 29, 600)
      (sample_recorder Map.empty\<lparr>start_timestamp := Some (Date 2016 1 4, 0)\<rparr>) sample_entity (Date 2015 6 1, 0) =
   jq_record (\<lambda>e' a b f. if e' = sample_entity \<and> a = Date 2016 1 4 \<and> b = Date 2016 3 1 \<and> f = ''1d''
                          then sample_raw_api e' a b f else Inl KeyError)
      (\<lambda>_. False) (Date 2016 2 29, 600)
      (sample_recorder Map.empty\<lparr>start_timestamp := Some (Date 2016 1 4, 0)\<rparr>) sample_entity (Date 2015 6 1, 0) \<and>
   valid_date (Date 2016 2 29) \<and> next_date (Date 2016 2 29) = Date 2016 3 1 \<and> valid_date (Date 2016 3 1)"
proof -
  note w = jq_record_window [where api = sample_raw_api and it = "\<lambda>_. False" and now = "(Date 2016 2 29, 600)"
      and rc = "sample_recorder Map.empty\<lparr>start_timestamp := Some (Date 2016 1 4, 0)\<rparr>" and e = sample_entity
      and start = "(Date 2015 6 1, 0)"]
  have rs: "record_start (sample_recorder Map.empty\<lparr>start_timestamp := Some (Date 2016 1 4, 0)\<rparr>)
              (Date 2015 6 1, 0) = (Date 2016 1 4, 0)"
    by (simp add: record_start_def less_eq_date_def date_key_def max_def)
  have nd: "next_date (Date 2016 2 29) = Date 2016 3 1"
    by (simp add: next_date_def days_in_month_def is_leap_def)
  have vd: "valid_date (Date 2016 2 29)"
    by (simp add: valid_date_def days_in_month_def is_leap_def)
  from w vd show ?thesis
    by (simp add: rs nd to_time_str_def record_start_def max_def less_eq_date_def date_key_def)
qed

theorem init_recorder_captures_latest_factor_witness:
  "\<exists>k' :: kdata. current_factors (init_recorder sample_schema_of sample_jq_level_of ''stock'' ''1d'' None [sample_entity] sample_table) (ent_id sample_entity) =
          Some (factor k') \<and> timestamp sample_done_row \<le> timestamp k'"
proof -
  have "\<exists>k'. current_factors (init_recorder sample_schema_of sample_jq_level_of ''stock'' ''1d'' None [sample_entity] sample_table) (ent_id sample_entity) =
          Some (factor k') \<and> k' \<in> set sample_table \<and> entity_id k' = ent_id sample_entity \<and>
          level k' = ''1d'' \<and> timestamp sample_done_row \<le> timestamp k'"
    by (rule init_recorder_captures_latest_factor) simp_all
  then show ?thesis by blast
qed

theorem init_recorder_new_entity_all_rows_witness:
  "qfq_scope_for (current_factors (init_recorder sample_schema_of sample_jq_level_of ''stock'' ''1d'' None [sample_entity] [sample_other_row])) ''stock_sz_000778'' 2
     = All_Rows"
  using init_recorder_new_entity_all_rows [where e = sample_entity and es = "[sample_entity]"
      and tbl = "[sample_other_row]" and lvl = "''1d''" and st = None and lf = 2
      and sch = sample_schema_of and jql = sample_jq_level_of and et = "''stock''"]
  by simp

end
