(* ===== verification/Backfill.thy ===== *)
theory Backfill
  imports Prelude
begin

text \<open>
  The cross-reference backfill of the eastmoney detail recorders:
  \<open>SPODetailRecorder.on_finish\<close> (\<open>src/zvt/recorders/eastmoney/dividend_financing/spo_detail_recorder.py\<close>)
  and \<open>RightsIssueDetailRecorder.on_finish\<close> (\<open>rights_issue_detail_recorder.py\<close>).  Both select
  the yearly \<open>DividendFinancing\<close> rows of the recorded codes whose raising-fund column is still
  \<open>NULL\<close>, up to the current year, and set it to the sum of the detail rows of the same entity
  from the aggregate's timestamp to the 31st of December of its year, committing after each
  row.  The two recorders differ only in the columns: \<open>backfill_pass\<close> is the shared loop,
  parameterised by the aggregate column (a getter and a setter satisfying \<open>fund_column\<close>) and
  the detail column; \<open>spo_on_finish\<close> and \<open>rights_on_finish\<close> instantiate it.
\<close>

section \<open>Rows\<close>

text \<open>\<open>SpoDetail\<close>, \<open>RightsIssueDetail\<close> and \<open>DividendFinancing\<close> of \<open>zvt.domain\<close>.  The
  aggregate's columns are prefixed \<open>fin_\<close> where they share a name with a detail column.\<close>

record spo_detail = mixin +
  spo_id :: string
  spo_issues :: "real option"
  spo_price :: "real option"
  spo_raising_fund :: "real option"

record rights_issue_detail = mixin +
  ri_id :: string
  rights_issues :: "real option"
  rights_issue_price :: "real option"
  rights_raising_fund :: "real option"

record dividend_financing = mixin +
  fin_id :: string
  fin_code :: string
  dividend_money :: "real option"
  fin_spo_issues :: "real option"
  fin_rights_issues :: "real option"
  ipo_issues :: "real option"
  fin_spo_raising_fund :: "real option"
  fin_rights_raising_fund :: "real option"

text \<open>The three tables of the \<open>dividend_financing\<close> database the session sees.\<close>

record fin_db =
  fin_table :: "dividend_financing list"
  spo_table :: "spo_detail list"
  rights_table :: "rights_issue_detail list"

text \<open>The primary key: identifiers are distinct.\<close>

definition fin_table_wf :: "dividend_financing list \<Rightarrow> bool" where
  "fin_table_wf tbl \<longleftrightarrow> distinct (map fin_id tbl)"

section \<open>The shared backfill loop\<close>

text \<open>\<open>get_dividend_financing(codes=codes, filters=[col.is_(None)], end_timestamp=str(year))\<close>:
  the rows of the recorded codes whose column is \<open>NULL\<close>, dated up to the first instant of the
  current year.\<close>

definition backfill_selected :: "(dividend_financing \<Rightarrow> real option) \<Rightarrow> nat \<Rightarrow> string list \<Rightarrow> dividend_financing \<Rightarrow> bool" where
  "backfill_selected get y codes r \<longleftrightarrow> fin_code r \<in> set codes \<and> get r = None \<and> timestamp r \<le> year_start y"

definition need_filled :: "(dividend_financing \<Rightarrow> real option) \<Rightarrow> nat \<Rightarrow> string list \<Rightarrow> dividend_financing list \<Rightarrow> dividend_financing list" where
  "need_filled get y codes tbl = filter (backfill_selected get y codes) tbl"

text \<open>\<open>get_spo_detail(entity_id=item.entity_id, start_timestamp=item.timestamp,
  end_timestamp="{}-12-31".format(item.timestamp.year))\<close>.\<close>

definition details_in_year :: "'d mixin_scheme list \<Rightarrow> 'a mixin_scheme \<Rightarrow> 'd mixin_scheme list" where
  "details_in_year dtl item =
     filter (\<lambda>d. entity_id d = entity_id item \<and> timestamp item \<le> timestamp d \<and>
                 timestamp d \<le> year_end (ts_year (timestamp item))) dtl"

text \<open>\<open>if df_is_not_null(df): item.col = df['col'].sum()\<close>: the value to write, if any.\<close>

definition backfill_look :: "('d mixin_scheme \<Rightarrow> real option) \<Rightarrow> 'd mixin_scheme list \<Rightarrow> dividend_financing \<Rightarrow> real option" where
  "backfill_look col dtl item =
     (let ds = details_in_year dtl item in if ds = [] then None else Some (pd_sum (map col ds)))"

definition backfill_pass ::
  "(dividend_financing \<Rightarrow> real option) \<Rightarrow> (real \<Rightarrow> dividend_financing \<Rightarrow> dividend_financing) \<Rightarrow>
   ('d mixin_scheme \<Rightarrow> real option) \<Rightarrow> 'd mixin_scheme list \<Rightarrow> nat \<Rightarrow> string list \<Rightarrow>
   dividend_financing list \<Rightarrow> dividend_financing list" where
  "backfill_pass get upd col dtl y codes tbl =
     for_each_match fin_id (backfill_look col dtl) upd (need_filled get y codes tbl) tbl"

text \<open>The interface the loop needs from an aggregate column: writing \<open>v\<close> makes it \<open>Some v\<close>,
  is idempotent and touches no key column.\<close>

definition fund_column :: "(dividend_financing \<Rightarrow> real option) \<Rightarrow> (real \<Rightarrow> dividend_financing \<Rightarrow> dividend_financing) \<Rightarrow> bool" where
  "fund_column get upd \<longleftrightarrow>
     (\<forall>v r. get (upd v r) = Some v \<and> upd v (upd v r) = upd v r \<and> fin_id (upd v r) = fin_id r \<and>
            fin_code (upd v r) = fin_code r \<and> entity_id (upd v r) = entity_id r \<and>
            timestamp (upd v r) = timestamp r)"

section \<open>The two recorders\<close>

definition set_spo_fund :: "real \<Rightarrow> dividend_financing \<Rightarrow> dividend_financing" where
  "set_spo_fund v r = r\<lparr>fin_spo_raising_fund := Some v\<rparr>"

definition set_rights_fund :: "real \<Rightarrow> dividend_financing \<Rightarrow> dividend_financing" where
  "set_rights_fund v r = r\<lparr>fin_rights_raising_fund := Some v\<rparr>"

text \<open>\<open>on_finish\<close> of each recorder, for the current year \<open>y\<close> (\<open>now_pd_timestamp().year\<close>)
  and the recorder's entities; \<open>super().on_finish()\<close> only closes the session.\<close>

definition spo_on_finish :: "nat \<Rightarrow> entity list \<Rightarrow> fin_db \<Rightarrow> fin_db" where
  "spo_on_finish y es db =
     db\<lparr>fin_table := backfill_pass fin_spo_raising_fund set_spo_fund spo_raising_fund (spo_table db)
                       y (map code es) (fin_table db)\<rparr>"

definition rights_on_finish :: "nat \<Rightarrow> entity list \<Rightarrow> fin_db \<Rightarrow> fin_db" where
  "rights_on_finish y es db =
     db\<lparr>fin_table := backfill_pass fin_rights_raising_fund set_rights_fund rights_raising_fund (rights_table db)
                       y (map code es) (fin_table db)\<rparr>"


section \<open>A set-based reference\<close>

text \<open>The set-based alternative the spec's design notes (section 9) ask for, as one SQL
  statement over the aggregate table:
  \<open>UPDATE dividend_financing a SET col = (SELECT SUM(d.col) FROM detail d WHERE <window>)
  WHERE a.code IN codes AND a.col IS NULL AND a.timestamp <= year AND EXISTS (SELECT ...)\<close>.
  The subquery's \<open>SUM\<close> is SQL's (\<open>sql_sum\<close>): \<open>NULL\<close> when every detail lacks the value;
  writing \<open>NULL\<close> into a column the \<open>WHERE\<close> clause requires to be \<open>NULL\<close> leaves the row as
  it was.\<close>

definition backfill_update_sql ::
  "(dividend_financing \<Rightarrow> real option) \<Rightarrow> (real \<Rightarrow> dividend_financing \<Rightarrow> dividend_financing) \<Rightarrow>
   ('d mixin_scheme \<Rightarrow> real option) \<Rightarrow> 'd mixin_scheme list \<Rightarrow> nat \<Rightarrow> string list \<Rightarrow>
   dividend_financing list \<Rightarrow> dividend_financing list" where
  "backfill_update_sql get upd col dtl y codes tbl =
     map (\<lambda>a. if backfill_selected get y codes a \<and> details_in_year dtl a \<noteq> []
              then (case sql_sum (map col (details_in_year dtl a)) of None \<Rightarrow> a | Some v \<Rightarrow> upd v a)
              else a) tbl"

section \<open>Sample data\<close>

text \<open>The values of \<open>tests/api/test_dividend_financing.py\<close> for stock 000778: the 2017
  aggregate (dividend 598632026.4, \<open>spo_issues\<close> 347572815.0, rights and IPO issues 0), the
  2017-04-01 secondary offering (347600000 shares at 5.15, raising 1766000000) and the
  2001-09-10 rights issue (43570000 shares at 11.3, raising 492300000); a 2018 aggregate
  without details and a 2017 aggregate of another stock.\<close>

abbreviation fin_sample_entity :: entity where
  "fin_sample_entity \<equiv> \<lparr>ent_id = ''stock_sz_000778'', code = ''000778'', exchange = ''sz'', name = ''XGZG''\<rparr>"

abbreviation fin_2017 :: dividend_financing where
  "fin_2017 \<equiv> \<lparr>entity_id = ''stock_sz_000778'', timestamp = (Date 2017 1 1, 0),
     fin_id = ''stock_sz_000778_2017-01-01'', fin_code = ''000778'', dividend_money = Some 598632026.4,
     fin_spo_issues = Some 347572815.0, fin_rights_issues = Some 0, ipo_issues = Some 0,
     fin_spo_raising_fund = None, fin_rights_raising_fund = None\<rparr>"

abbreviation fin_2018 :: dividend_financing where
  "fin_2018 \<equiv> fin_2017\<lparr>timestamp := (Date 2018 1 1, 0), fin_id := ''stock_sz_000778_2018-01-01'',
     dividend_money := None\<rparr>"

abbreviation fin_2001 :: dividend_financing where
  "fin_2001 \<equiv> fin_2017\<lparr>timestamp := (Date 2001 1 1, 0), fin_id := ''stock_sz_000778_2001-01-01'',
     dividend_money := None\<rparr>"

abbreviation fin_other :: dividend_financing where
  "fin_other \<equiv> fin_2017\<lparr>entity_id := ''stock_sh_600000'', fin_id := ''stock_sh_600000_2017-01-01'',
     fin_code := ''600000''\<rparr>"

abbreviation spo_2017 :: spo_detail where
  "spo_2017 \<equiv> \<lparr>entity_id = ''stock_sz_000778'', timestamp = (Date 2017 4 1, 0),
     spo_id = ''stock_sz_000778_2017-04-01'', spo_issues = Some 347600000, spo_price = Some 5.15,
     spo_raising_fund = Some 1766000000\<rparr>"

abbreviation ri_2001 :: rights_issue_detail where
  "ri_2001 \<equiv> \<lparr>entity_id = ''stock_sz_000778'', timestamp = (Date 2001 9 10, 0),
     ri_id = ''stock_sz_000778_2001-09-10'', rights_issues = Some 43570000, rights_issue_price = Some 11.3,
     rights_raising_fund = Some 492300000\<rparr>"

abbreviation fin_sample_db :: fin_db where
  "fin_sample_db \<equiv> \<lparr>fin_table = [fin_2017, fin_2018, fin_2001, fin_other], spo_table = [spo_2017],
     rights_table = [ri_2001]\<rparr>"

section \<open>Lemmas\<close>

subsection \<open>The column interface\<close>

lemma fund_column_spo: "fund_column fin_spo_raising_fund set_spo_fund"
  by (simp add: fund_column_def set_spo_fund_def)

lemma fund_column_rights: "fund_column fin_rights_raising_fund set_rights_fund"
  by (simp add: fund_column_def set_rights_fund_def)

lemma fund_columnD:
  assumes "fund_column get upd"
  shows "get (upd v r) = Some v" "upd v (upd v r) = upd v r" "fin_id (upd v r) = fin_id r"
    "fin_code (upd v r) = fin_code r" "entity_id (upd v r) = entity_id r" "timestamp (upd v r) = timestamp r"
  using assms by (simp_all add: fund_column_def)

lemma backfill_look_upd:
  "fund_column get upd \<Longrightarrow> backfill_look dcol dtl (upd v r) = backfill_look dcol dtl r"
  by (simp add: backfill_look_def details_in_year_def fund_columnD)

lemma fin_table_wf_same_id:
  "fin_table_wf tbl \<Longrightarrow> r \<in> set tbl \<Longrightarrow> k \<in> set tbl \<Longrightarrow> fin_id r = fin_id k \<Longrightarrow> r = k"
  unfolding fin_table_wf_def by (metis distinct_map inj_onD)

subsection \<open>The loop rewrites exactly the selected rows\<close>

lemma backfill_pass_eq:
  assumes wf: "fin_table_wf tbl" and col: "fund_column get upd"
  shows "backfill_pass get upd dcol dtl y codes tbl =
           update_where (backfill_selected get y codes) (apply_match (backfill_look dcol dtl) upd) tbl"
proof -
  let ?items = "need_filled get y codes tbl"
  let ?F = "apply_match (backfill_look dcol dtl) upd"
  have "backfill_pass get upd dcol dtl y codes tbl = update_where (\<lambda>r. fin_id r \<in> fin_id ` set ?items) ?F tbl"
    unfolding backfill_pass_def
  proof (rule for_each_match_eq)
    fix r k assume "r \<in> set tbl" "k \<in> set ?items" "fin_id r = fin_id k"
    with wf have "r = k" by (auto simp: need_filled_def intro: fin_table_wf_same_id)
    then show "backfill_look dcol dtl r = backfill_look dcol dtl k" by simp
  qed (simp_all add: fund_columnD [OF col] backfill_look_upd [OF col])
  also have "\<dots> = update_where (backfill_selected get y codes) ?F tbl"
  proof (rule update_where_cong)
    fix r assume "r \<in> set tbl"
    with wf show "(fin_id r \<in> fin_id ` set ?items) = backfill_selected get y codes r"
      by (auto simp: need_filled_def dest: fin_table_wf_same_id)
  qed
  finally show ?thesis .
qed

lemma backfill_pass_nth:
  "fin_table_wf tbl \<Longrightarrow> fund_column get upd \<Longrightarrow> i < length tbl \<Longrightarrow>
     backfill_pass get upd dcol dtl y codes tbl ! i =
       (if backfill_selected get y codes (tbl ! i) then apply_match (backfill_look dcol dtl) upd (tbl ! i) else tbl ! i)"
  by (simp add: backfill_pass_eq)

lemma length_backfill_pass [simp]: "length (backfill_pass get upd dcol dtl y codes tbl) = length tbl"
  by (simp add: backfill_pass_def)

lemma map_backfill_pass_frame:
  "(\<And>v r. g (upd v r) = g r) \<Longrightarrow> map g (backfill_pass get upd dcol dtl y codes tbl) = map g tbl"
  unfolding backfill_pass_def by (rule map_for_each_match_frame)

lemma fin_table_wf_backfill_pass:
  "fund_column get upd \<Longrightarrow> fin_table_wf tbl \<Longrightarrow> fin_table_wf (backfill_pass get upd dcol dtl y codes tbl)"
  unfolding fin_table_wf_def by (simp add: map_backfill_pass_frame fund_columnD)

subsection \<open>Idempotence and resumption\<close>

lemma apply_match_selected:
  assumes col: "fund_column get upd" and sel: "backfill_selected get y codes (apply_match (backfill_look dcol dtl) upd r)"
  shows "apply_match (backfill_look dcol dtl) upd r = r"
proof (cases "backfill_look dcol dtl r")
  case None
  then show ?thesis by (simp add: apply_match_def)
next
  case (Some v)
  with sel show ?thesis
    by (simp add: apply_match_def backfill_selected_def fund_columnD [OF col])
qed

lemma backfill_pass_idem:
  assumes wf: "fin_table_wf tbl" and col: "fund_column get upd"
  shows "backfill_pass get upd dcol dtl y codes (backfill_pass get upd dcol dtl y codes tbl) =
         backfill_pass get upd dcol dtl y codes tbl"
proof -
  let ?S = "backfill_selected get y codes"
  let ?F = "apply_match (backfill_look dcol dtl) upd"
  let ?T = "backfill_pass get upd dcol dtl y codes tbl"
  have T: "?T = update_where ?S ?F tbl"
    using wf col by (rule backfill_pass_eq)
  have "update_where ?S ?F ?T = ?T"
  proof (rule update_where_cong_id)
    fix r assume "r \<in> set ?T" "?S r"
    then obtain r0 where r0: "r0 \<in> set tbl" "r = (if ?S r0 then ?F r0 else r0)"
      by (auto simp: T update_where_def)
    show "?F r = r"
    proof (cases "?S r0")
      case True
      with r0 \<open>?S r\<close> have "?F r0 = r0" by (simp add: apply_match_selected [OF col])
      with True r0 show ?thesis by simp
    next
      case False
      with r0 \<open>?S r\<close> show ?thesis by simp
    qed
  qed
  moreover have "backfill_pass get upd dcol dtl y codes ?T = update_where ?S ?F ?T"
    by (rule backfill_pass_eq [OF fin_table_wf_backfill_pass [OF col wf] col])
  ultimately show ?thesis by simp
qed


lemma apply_match_fin_id: "fund_column get upd \<Longrightarrow> fin_id (apply_match look upd r) = fin_id r"
  by (simp add: apply_match_def fund_columnD split: option.split)

lemma backfill_pass_resume:
  assumes wf: "fin_table_wf tbl" and col: "fund_column get upd"
  shows "backfill_pass get upd dcol dtl y codes
           (for_each_match fin_id (backfill_look dcol dtl) upd (take k (need_filled get y codes tbl)) tbl) =
         backfill_pass get upd dcol dtl y codes tbl"
proof -
  let ?items = "need_filled get y codes tbl"
  let ?S = "backfill_selected get y codes"
  let ?F = "apply_match (backfill_look dcol dtl) upd"
  let ?P = "\<lambda>r. fin_id r \<in> fin_id ` set (take k ?items)"
  have P: "for_each_match fin_id (backfill_look dcol dtl) upd (take k ?items) tbl = update_where ?P ?F tbl"
  proof (rule for_each_match_eq)
    fix r k' assume r: "r \<in> set tbl" and k': "k' \<in> set (take k ?items)" and id: "fin_id r = fin_id k'"
    from k' have "k' \<in> set tbl"
      by (auto simp: need_filled_def dest: in_set_takeD)
    then have "r = k'"
      by (rule fin_table_wf_same_id [OF wf r _ id])
    then show "backfill_look dcol dtl r = backfill_look dcol dtl k'" by simp
  qed (simp_all add: fund_columnD [OF col] backfill_look_upd [OF col])
  have PS: "?S r" if "r \<in> set tbl" "?P r" for r
    using that wf by (auto simp: need_filled_def dest!: in_set_takeD dest: fin_table_wf_same_id)
  have wfP: "fin_table_wf (update_where ?P ?F tbl)"
    using wf by (simp add: fin_table_wf_def map_update_where_frame apply_match_fin_id [OF col])
  have "backfill_pass get upd dcol dtl y codes (update_where ?P ?F tbl) = update_where ?S ?F (update_where ?P ?F tbl)"
    by (rule backfill_pass_eq [OF wfP col])
  also have "\<dots> = update_where ?S ?F tbl"
    unfolding update_where_def map_map
  proof (rule map_cong [OF refl])
    fix r assume r: "r \<in> set tbl"
    show "((\<lambda>r. if ?S r then ?F r else r) \<circ> (\<lambda>r. if ?P r then ?F r else r)) r = (if ?S r then ?F r else r)"
    proof (cases "?P r")
      case True
      have "?F (?F r) = ?F r" if "?S (?F r)"
        using apply_match_selected [OF col that] by simp
      with True PS [OF r] show ?thesis by auto
    next
      case False
      then show ?thesis by simp
    qed
  qed
  also have "\<dots> = backfill_pass get upd dcol dtl y codes tbl"
    by (rule backfill_pass_eq [OF wf col, symmetric])
  finally show ?thesis by (simp add: P)
qed

lemma backfill_pass_sum:
  "fin_table_wf tbl \<Longrightarrow> fund_column get upd \<Longrightarrow> i < length tbl \<Longrightarrow> backfill_selected get y codes (tbl ! i) \<Longrightarrow>
     details_in_year dtl (tbl ! i) \<noteq> [] \<Longrightarrow>
     get (backfill_pass get upd dcol dtl y codes tbl ! i) = Some (pd_sum (map dcol (details_in_year dtl (tbl ! i))))"
  by (simp add: backfill_pass_nth apply_match_def backfill_look_def fund_columnD)

lemma backfill_pass_no_details:
  "fin_table_wf tbl \<Longrightarrow> fund_column get upd \<Longrightarrow> i < length tbl \<Longrightarrow> details_in_year dtl (tbl ! i) = [] \<Longrightarrow>
     backfill_pass get upd dcol dtl y codes tbl ! i = tbl ! i"
  by (simp add: backfill_pass_nth apply_match_def backfill_look_def)

lemma backfill_pass_unselected:
  "fin_table_wf tbl \<Longrightarrow> fund_column get upd \<Longrightarrow> i < length tbl \<Longrightarrow> \<not> backfill_selected get y codes (tbl ! i) \<Longrightarrow>
     backfill_pass get upd dcol dtl y codes tbl ! i = tbl ! i"
  by (simp add: backfill_pass_nth)


lemmas backfill_eval = spo_on_finish_def rights_on_finish_def backfill_pass_def need_filled_def
  backfill_selected_def details_in_year_def backfill_look_def set_spo_fund_def set_rights_fund_def
  fin_table_wf_def timestamp_defs apply_match_def

subsection \<open>Aggregate correctness of the SPO backfill\<close>

text \<open>C13. Aggregate correctness: after \<open>SPODetailRecorder.on_finish\<close>, a selected aggregate row
  (a recorded code, \<open>spo_raising_fund\<close> still null, dated up to the current year) holds the sum
  of the raising funds of the SPO details of its entity in its window when there is at least
  one, and stays null, not zero, when there is none.\<close>

theorem spo_on_finish_sum:
  assumes "fin_table_wf (fin_table db)" and "i < length (fin_table db)"
    and "backfill_selected fin_spo_raising_fund y (map code es) (fin_table db ! i)"
  shows "fin_spo_raising_fund (fin_table (spo_on_finish y es db) ! i) =
           (if details_in_year (spo_table db) (fin_table db ! i) = [] then None
            else Some (pd_sum (map spo_raising_fund (details_in_year (spo_table db) (fin_table db ! i)))))"
proof (cases "details_in_year (spo_table db) (fin_table db ! i) = []")
  case True
  then show ?thesis
    using backfill_pass_no_details [OF assms(1) fund_column_spo assms(2) True] assms(3)
    by (simp add: spo_on_finish_def backfill_selected_def)
next
  case False
  then show ?thesis
    using backfill_pass_sum [OF assms(1) fund_column_spo assms(2,3) False] by (simp add: spo_on_finish_def)
qed

text \<open>C14. Frame: an aggregate row that is not selected (another code, a fund already set, or
  dated after the first instant of the current year) is left unchanged.\<close>

theorem spo_on_finish_frame:
  assumes "fin_table_wf (fin_table db)" and "i < length (fin_table db)"
    and "\<not> backfill_selected fin_spo_raising_fund y (map code es) (fin_table db ! i)"
  shows "fin_table (spo_on_finish y es db) ! i = fin_table db ! i"
  using backfill_pass_unselected [OF assms(1) fund_column_spo assms(2,3)] by (simp add: spo_on_finish_def)

text \<open>C15. Only the fund column: the SPO backfill writes no column of the aggregate other than
  \<open>spo_raising_fund\<close> (in particular not \<open>spo_issues\<close>, which the spec's end-to-end example
  lists among the summed values), never adds or removes rows and leaves the detail tables as
  they are.\<close>

theorem spo_on_finish_only_fund_column:
  "map (\<lambda>r. r\<lparr>fin_spo_raising_fund := None\<rparr>) (fin_table (spo_on_finish y es db)) =
     map (\<lambda>r. r\<lparr>fin_spo_raising_fund := None\<rparr>) (fin_table db) \<and>
   spo_table (spo_on_finish y es db) = spo_table db \<and> rights_table (spo_on_finish y es db) = rights_table db"
  by (simp add: spo_on_finish_def map_backfill_pass_frame set_spo_fund_def)

subsection \<open>Reruns and crashes\<close>

text \<open>C16. Crash and rerun: each aggregate is committed on its own, so a run interrupted after
  its first \<open>k\<close> commits followed by a complete run ends in the same table as one complete
  run (the still-null predicate rediscovers exactly the rows left to do).\<close>

theorem spo_on_finish_resume:
  assumes "fin_table_wf (fin_table db)"
  shows "spo_on_finish y es
           (db\<lparr>fin_table := for_each_match fin_id (backfill_look spo_raising_fund (spo_table db)) set_spo_fund
                 (take k (need_filled fin_spo_raising_fund y (map code es) (fin_table db))) (fin_table db)\<rparr>) =
         spo_on_finish y es db"
  by (simp add: spo_on_finish_def backfill_pass_resume [OF assms fund_column_spo])

subsection \<open>The rights-issue backfill\<close>

text \<open>C17. Aggregate correctness of \<open>RightsIssueDetailRecorder.on_finish\<close>: a selected aggregate
  row with rights-issue details in its window holds the sum of their raising funds.\<close>

theorem rights_on_finish_sum:
  assumes "fin_table_wf (fin_table db)" and "i < length (fin_table db)"
    and "backfill_selected fin_rights_raising_fund y (map code es) (fin_table db ! i)"
    and "details_in_year (rights_table db) (fin_table db ! i) \<noteq> []"
  shows "fin_rights_raising_fund (fin_table (rights_on_finish y es db) ! i) =
           Some (pd_sum (map rights_raising_fund (details_in_year (rights_table db) (fin_table db ! i))))"
  using backfill_pass_sum [OF assms(1) fund_column_rights assms(2-4)] by (simp add: rights_on_finish_def)

subsection \<open>The window and missing values\<close>

text \<open>C18. Calendar year: for an aggregate dated at the first instant of year \<open>Y\<close> (as the
  stored \<open>DividendFinancing\<close> rows are), the detail query selects exactly the entity's
  details dated on a valid day of \<open>Y\<close> at midnight.\<close>

theorem details_in_year_calendar_year:
  assumes "timestamp item = year_start Y" and "snd (timestamp d) = 0" and "valid_date (fst (timestamp d))"
  shows "d \<in> set (details_in_year dtl item) \<longleftrightarrow>
           d \<in> set dtl \<and> entity_id d = entity_id item \<and> ts_year (timestamp d) = Y"
proof -
  obtain dt m where "timestamp d = (dt, m)" by (cases "timestamp d")
  moreover obtain yy mm dd where "dt = Date yy mm dd" by (cases dt)
  moreover note days_in_month_le_31 [of yy mm]
  ultimately show ?thesis
    using assms by (auto simp: details_in_year_def timestamp_defs valid_date_def)
qed

subsection \<open>Witnesses\<close>

theorem spo_on_finish_sum_witness:
  "fin_spo_raising_fund (fin_table (spo_on_finish 2019 [fin_sample_entity] fin_sample_db) ! 0) = Some 1766000000 \<and>
   fin_spo_raising_fund (fin_table (spo_on_finish 2019 [fin_sample_entity] fin_sample_db) ! 1) = None"
proof -
  note c = spo_on_finish_sum [where db = fin_sample_db and y = 2019 and es = "[fin_sample_entity]"]
  have "fin_spo_raising_fund (fin_table (spo_on_finish 2019 [fin_sample_entity] fin_sample_db) ! 0) = Some 1766000000"
    using c [where i = 0] by (simp add: backfill_eval)
  moreover have "fin_spo_raising_fund (fin_table (spo_on_finish 2019 [fin_sample_entity] fin_sample_db) ! 1) = None"
    using c [where i = 1] by (simp add: backfill_eval)
  ultimately show ?thesis by blast
qed

theorem spo_on_finish_frame_witness:
  "fin_table (spo_on_finish 2019 [fin_sample_entity] fin_sample_db) ! 3 = fin_other"
  using spo_on_finish_frame [where db = fin_sample_db and i = 3 and y = 2019 and es = "[fin_sample_entity]"]
  by (simp add: backfill_eval)

theorem spo_on_finish_resume_witness:
  "spo_on_finish 2019 [fin_sample_entity]
     (fin_sample_db\<lparr>fin_table := for_each_match fin_id (backfill_look spo_raising_fund [spo_2017]) set_spo_fund
        (take 1 (need_filled fin_spo_raising_fund 2019 [''000778''] (fin_table fin_sample_db))) (fin_table fin_sample_db)\<rparr>) =
   spo_on_finish 2019 [fin_sample_entity] fin_sample_db"
  using spo_on_finish_resume [where db = fin_sample_db and y = 2019 and es = "[fin_sample_entity]" and k = 1]
  by (simp add: fin_table_wf_def)

theorem rights_on_finish_sum_witness:
  "fin_rights_raising_fund (fin_table (rights_on_finish 2019 [fin_sample_entity] fin_sample_db) ! 2) = Some 492300000"
  using rights_on_finish_sum [where db = fin_sample_db and i = 2 and y = 2019 and es = "[fin_sample_entity]"]
  by (simp add: backfill_eval)

theorem details_in_year_calendar_year_witness:
  "spo_2017 \<in> set (details_in_year [spo_2017] fin_2017) \<and> ts_year (timestamp spo_2017) = 2017"
  using details_in_year_calendar_year [where item = fin_2017 and Y = 2017 and d = spo_2017 and dtl = "[spo_2017]"]
  by (simp add: timestamp_defs valid_date_def days_in_month_def)


subsection \<open>The loop and the set-based statement\<close>

text \<open>One aggregate row: the loop and the SQL statement agree on a selected row unless it has
  details in its window that all lack the value, where pandas' \<open>sum\<close> gives 0 and SQL's
  \<open>SUM\<close> gives \<open>NULL\<close>.\<close>

lemma backfill_row_sql_iff:
  assumes col: "fund_column get upd" and sel: "backfill_selected get y codes a"
  shows "apply_match (backfill_look dcol dtl) upd a =
           (if details_in_year dtl a \<noteq> []
            then (case sql_sum (map dcol (details_in_year dtl a)) of None \<Rightarrow> a | Some v \<Rightarrow> upd v a) else a) \<longleftrightarrow>
         (details_in_year dtl a \<noteq> [] \<longrightarrow> \<not> list_all (\<lambda>d. dcol d = None) (details_in_year dtl a))"
proof -
  have none: "get a = None" using sel by (simp add: backfill_selected_def)
  have "upd v a \<noteq> a" for v
    using fund_columnD(1) [OF col, of v a] none by auto
  then show ?thesis
    by (auto simp: apply_match_def backfill_look_def sql_sum_def Let_def list.pred_map comp_def)
qed

lemma backfill_pass_sql_iff:
  assumes wf: "fin_table_wf tbl" and col: "fund_column get upd"
  shows "backfill_pass get upd dcol dtl y codes tbl = backfill_update_sql get upd dcol dtl y codes tbl \<longleftrightarrow>
         list_all (\<lambda>a. backfill_selected get y codes a \<and> details_in_year dtl a \<noteq> [] \<longrightarrow>
                        \<not> list_all (\<lambda>d. dcol d = None) (details_in_year dtl a)) tbl"
  unfolding backfill_pass_eq [OF wf col] backfill_update_sql_def update_where_def map_eq_conv list_all_iff
  apply (rule ball_cong [OF refl])
  subgoal for a
    by (cases "backfill_selected get y codes a") (simp_all add: backfill_row_sql_iff [OF col] list_all_iff)
  done

text \<open>C23. The per-item loop against one SQL \<open>UPDATE\<close>: as long as the aggregates'
  identifiers are distinct, the ORM loop of either recorder computes the same table as the
  set-based statement \<open>backfill_update_sql\<close> exactly when no selected aggregate has details in
  its window that all lack the raising fund; on such an aggregate the loop writes 0 (pandas)
  where the statement leaves \<open>NULL\<close> (SQL), so the loop cannot be replaced by the statement
  without changing what is stored.\<close>

theorem on_finish_equiv_update_sql:
  assumes "fin_table_wf (fin_table db)"
  shows "(fin_table (spo_on_finish y es db) =
            backfill_update_sql fin_spo_raising_fund set_spo_fund spo_raising_fund (spo_table db) y (map code es) (fin_table db)
          \<longleftrightarrow> list_all (\<lambda>a. backfill_selected fin_spo_raising_fund y (map code es) a \<and> details_in_year (spo_table db) a \<noteq> [] \<longrightarrow>
                 \<not> list_all (\<lambda>d. spo_raising_fund d = None) (details_in_year (spo_table db) a)) (fin_table db)) \<and>
         (fin_table (rights_on_finish y es db) =
            backfill_update_sql fin_rights_raising_fund set_rights_fund rights_raising_fund (rights_table db) y (map code es) (fin_table db)
          \<longleftrightarrow> list_all (\<lambda>a. backfill_selected fin_rights_raising_fund y (map code es) a \<and> details_in_year (rights_table db) a \<noteq> [] \<longrightarrow>
                 \<not> list_all (\<lambda>d. rights_raising_fund d = None) (details_in_year (rights_table db) a)) (fin_table db))"
  by (simp add: spo_on_finish_def rights_on_finish_def backfill_pass_sql_iff [OF assms fund_column_spo]
      backfill_pass_sql_iff [OF assms fund_column_rights])

theorem on_finish_equiv_update_sql_witness:
  "fin_table (spo_on_finish 2019 [fin_sample_entity] fin_sample_db) =
     backfill_update_sql fin_spo_raising_fund set_spo_fund spo_raising_fund [spo_2017] 2019 [''000778''] (fin_table fin_sample_db) \<and>
   fin_table (spo_on_finish 2019 [fin_sample_entity] (fin_sample_db\<lparr>spo_table := [spo_2017\<lparr>spo_raising_fund := None\<rparr>]\<rparr>)) \<noteq>
     backfill_update_sql fin_spo_raising_fund set_spo_fund spo_raising_fund [spo_2017\<lparr>spo_raising_fund := None\<rparr>] 2019 [''000778'']
       (fin_table fin_sample_db)"
proof -
  note c = on_finish_equiv_update_sql [where y = 2019 and es = "[fin_sample_entity]"]
  have "fin_table (spo_on_finish 2019 [fin_sample_entity] fin_sample_db) =
     backfill_update_sql fin_spo_raising_fund set_spo_fund spo_raising_fund [spo_2017] 2019 [''000778''] (fin_table fin_sample_db)"
    using c [where db = fin_sample_db] by (simp add: fin_table_wf_def backfill_eval)
  moreover have "fin_table (spo_on_finish 2019 [fin_sample_entity] (fin_sample_db\<lparr>spo_table := [spo_2017\<lparr>spo_raising_fund := None\<rparr>]\<rparr>)) \<noteq>
     backfill_update_sql fin_spo_raising_fund set_spo_fund spo_raising_fund [spo_2017\<lparr>spo_raising_fund := None\<rparr>] 2019 [''000778'']
       (fin_table fin_sample_db)"
    using c [where db = "fin_sample_db\<lparr>spo_table := [spo_2017\<lparr>spo_raising_fund := None\<rparr>]\<rparr>"]
    by (simp add: fin_table_wf_def backfill_eval)
  ultimately show ?thesis ..
qed

end
