(* ===== verification/FieldMapper.thy ===== *)
theory FieldMapper
  imports Backfill
begin

text \<open>
  The field mapper of the eastmoney recorders.  A provider row is a JSON object
  (\<open>raw_record\<close>, a map from field names to \<open>json_value\<close>s); a recorder declares its data map
  \<open>{canonical_name: (raw_name, coercion)}\<close> in \<open>get_data_map\<close>
  (\<open>spo_data_map\<close>, \<open>rights_data_map\<close>: lines 21--26 and 22--27 of the two recorders) and
  the time field in \<open>get_original_time_field\<close>.  The mapping itself (\<open>apply_data_map\<close>) and the
  coercion \<open>to_float\<close> belong to the \<open>zvdata\<close> base classes, which are not in the
  repository: they are modelled from the spec (section 4.1).  \<open>to_float\<close> reads decimal
  notation (an optional minus sign, digits, optionally a point and digits) and gives
  \<open>None\<close> on anything else, so that a malformed field becomes null instead of failing the
  page.  \<open>show_decimal\<close> prints decimal notation; \<open>to_float_show_decimal\<close> shows that
  \<open>to_float\<close> reads every such string as the number it denotes (over the reals: the
  binary rounding of Python's float is not modelled).
\<close>

section \<open>JSON values and the coercion\<close>

datatype json_value = JStr string | JNum real | JNull

type_synonym raw_record = "string \<Rightarrow> json_value option"

definition is_digit :: "char \<Rightarrow> bool" where
  "is_digit c \<longleftrightarrow> (48::nat) \<le> of_char c \<and> of_char c \<le> (57::nat)"

definition digit_value :: "char \<Rightarrow> nat" where
  "digit_value c = of_char c - 48"

definition digits_val :: "string \<Rightarrow> nat" where
  "digits_val ds = foldl (\<lambda>a c. 10 * a + digit_value c) 0 ds"

definition all_digits :: "string \<Rightarrow> bool" where
  "all_digits ds \<longleftrightarrow> ds \<noteq> [] \<and> list_all is_digit ds"

text \<open>An unsigned decimal: digits, or digits, a point and digits.\<close>

definition parse_unsigned :: "string \<Rightarrow> real option" where
  "parse_unsigned s =
     (if all_digits s then Some (real (digits_val s))
      else case dropWhile (\<lambda>c. c \<noteq> CHR ''.'') s of
        [] \<Rightarrow> None
      | _ # fp \<Rightarrow> (let ip = takeWhile (\<lambda>c. c \<noteq> CHR ''.'') s in
                   if all_digits ip \<and> all_digits fp
                   then Some (real (digits_val ip) + real (digits_val fp) / 10 ^ length fp) else None))"

definition parse_decimal :: "string \<Rightarrow> real option" where
  "parse_decimal s = (case s of CHR ''-'' # t \<Rightarrow> map_option uminus (parse_unsigned t) | _ \<Rightarrow> parse_unsigned s)"

text \<open>\<open>zvdata.utils.utils.to_float\<close> as the spec describes it: numbers pass, strings in
  decimal notation are read, anything else gives \<open>None\<close>.\<close>

definition to_float :: "json_value \<Rightarrow> real option" where
  "to_float v = (case v of JNum r \<Rightarrow> Some r | JStr s \<Rightarrow> parse_decimal s | JNull \<Rightarrow> None)"

text \<open>The coerced value as stored: a float, or null.\<close>

definition to_float_value :: "json_value \<Rightarrow> json_value" where
  "to_float_value v = (case to_float v of Some r \<Rightarrow> JNum r | None \<Rightarrow> JNull)"

section \<open>Printing decimals\<close>

fun nat_digits :: "nat \<Rightarrow> string" where
  "nat_digits n = (if n < 10 then [char_of (48 + n)] else nat_digits (n div 10) @ [char_of (48 + n mod 10)])"

definition pad_zeros :: "nat \<Rightarrow> string \<Rightarrow> string" where
  "pad_zeros m ds = replicate (m - length ds) CHR ''0'' @ ds"

text \<open>\<open>n / 10^k\<close> with \<open>k\<close> digits after the point.\<close>

definition show_fixed :: "nat \<Rightarrow> nat \<Rightarrow> string" where
  "show_fixed n k =
     (let ds = pad_zeros (k + 1) (nat_digits n) in
      if k = 0 then ds else take (length ds - k) ds @ CHR ''.'' # drop (length ds - k) ds)"

definition show_decimal :: "int \<Rightarrow> nat \<Rightarrow> string" where
  "show_decimal i k = (if i < 0 then CHR ''-'' # show_fixed (nat (- i)) k else show_fixed (nat i) k)"

section \<open>Data maps\<close>

type_synonym data_map = "(string \<times> string \<times> (json_value \<Rightarrow> json_value)) list"

text \<open>The canonical record: a mapped field is the coercion of its raw field, absent when
  the raw field is; every other field passes through unchanged.\<close>

definition apply_data_map :: "data_map \<Rightarrow> raw_record \<Rightarrow> raw_record" where
  "apply_data_map dm raw =
     (\<lambda>k. case map_of dm k of Some (rn, co) \<Rightarrow> map_option co (raw rn) | None \<Rightarrow> raw k)"

text \<open>\<open>SPODetailRecorder.get_data_map\<close> and \<open>get_original_time_field\<close>.\<close>

definition spo_data_map :: data_map where
  "spo_data_map =
     [(''spo_issues'', ''ShiJiZengFa'', to_float_value),
      (''spo_price'', ''ZengFaJiaGe'', to_float_value),
      (''spo_raising_fund'', ''ShiJiMuJi'', to_float_value)]"

definition spo_time_field :: string where
  "spo_time_field = ''ZengFaShiJian''"

text \<open>\<open>RightsIssueDetailRecorder.get_data_map\<close> and \<open>get_original_time_field\<close>.\<close>

definition rights_data_map :: data_map where
  "rights_data_map =
     [(''rights_issues'', ''ShiJiPeiGu'', to_float_value),
      (''rights_issue_price'', ''PeiGuJiaGe'', to_float_value),
      (''rights_raising_fund'', ''ShiJiMuJi'', to_float_value)]"

definition rights_time_field :: string where
  "rights_time_field = ''PeiGuGongGaoRi''"

section \<open>From a canonical record to a detail row\<close>

text \<open>A numeric column of the row: the canonical field if it is a float, null otherwise.\<close>

definition num_field :: "raw_record \<Rightarrow> string \<Rightarrow> real option" where
  "num_field c k = (case c k of Some (JNum r) \<Rightarrow> Some r | _ \<Rightarrow> None)"

text \<open>The identifier \<open>{entity_id}_{timestamp}\<close> of the detail rows, with the time as the
  provider's date string.\<close>

definition detail_id :: "string \<Rightarrow> string \<Rightarrow> string" where
  "detail_id eid tstr = eid @ ''_'' @ tstr"

definition to_spo_detail :: "string \<Rightarrow> timestamp \<Rightarrow> string \<Rightarrow> raw_record \<Rightarrow> spo_detail" where
  "to_spo_detail eid ts tstr c =
     \<lparr>entity_id = eid, timestamp = ts, spo_id = detail_id eid tstr,
      spo_issues = num_field c ''spo_issues'', spo_price = num_field c ''spo_price'',
      spo_raising_fund = num_field c ''spo_raising_fund''\<rparr>"

definition to_rights_detail :: "string \<Rightarrow> timestamp \<Rightarrow> string \<Rightarrow> raw_record \<Rightarrow> rights_issue_detail" where
  "to_rights_detail eid ts tstr c =
     \<lparr>entity_id = eid, timestamp = ts, ri_id = detail_id eid tstr,
      rights_issues = num_field c ''rights_issues'', rights_issue_price = num_field c ''rights_issue_price'',
      rights_raising_fund = num_field c ''rights_raising_fund''\<rparr>"

section \<open>Dates in the provider's notation\<close>

text \<open>\<open>YYYY-MM-DD\<close> (the time fields); anything else, or an invalid day, gives \<open>None\<close>.\<close>

definition parse_date :: "string \<Rightarrow> date option" where
  "parse_date s =
     (if length s = 10 \<and> s ! 4 = CHR ''-'' \<and> s ! 7 = CHR ''-'' \<and>
         all_digits (take 4 s) \<and> all_digits (take 2 (drop 5 s)) \<and> all_digits (drop 8 s)
      then let d = Date (digits_val (take 4 s)) (digits_val (take 2 (drop 5 s))) (digits_val (drop 8 s)) in
           if valid_date d then Some d else None
      else None)"

section \<open>Lemmas\<close>

declare nat_digits.simps [simp del]

lemma digits_val_append: "digits_val (xs @ ys) = digits_val xs * 10 ^ length ys + digits_val ys"
proof (induction ys rule: rev_induct)
  case Nil
  then show ?case by (simp add: digits_val_def)
next
  case (snoc y ys)
  then show ?case by (simp add: digits_val_def algebra_simps)
qed

lemma digit_value_char_of: "(d::nat) < 10 \<Longrightarrow> digit_value (char_of (48 + d)) = d"
  by (simp add: digit_value_def of_char_of)

lemma is_digit_char_of: "(d::nat) < 10 \<Longrightarrow> is_digit (char_of (48 + d))"
  by (simp add: is_digit_def of_char_of)

lemma nat_digits_val: "digits_val (nat_digits n) = n"
proof (induction n rule: nat_digits.induct)
  case (1 n)
  show ?case
  proof (cases "n < 10")
    case True
    then show ?thesis by (simp add: nat_digits.simps digits_val_def digit_value_char_of)
  next
    case False
    then have "digits_val (nat_digits n) = digits_val (nat_digits (n div 10)) * 10 + n mod 10"
      by (simp add: nat_digits.simps [of n] digits_val_append digit_value_char_of digits_val_def)
    with 1 False show ?thesis by simp
  qed
qed

lemma nat_digits_not_Nil: "nat_digits n \<noteq> []"
  by (subst nat_digits.simps) simp

lemma nat_digits_digits: "list_all is_digit (nat_digits n)"
  by (induction n rule: nat_digits.induct) (subst nat_digits.simps, simp add: is_digit_char_of)

lemma digits_val_zeros: "digits_val (replicate j CHR ''0'' @ ds) = digits_val ds"
proof -
  have "digits_val (replicate j CHR ''0'') = 0"
    by (induction j) (simp_all add: digits_val_def digit_value_def replicate_append_same [symmetric])
  then show ?thesis by (simp add: digits_val_append)
qed

lemma is_digit_zero: "is_digit CHR ''0''"
  by (simp add: is_digit_def)

lemma is_digit_not_point [simp]: "is_digit c \<Longrightarrow> c \<noteq> CHR ''.''"
  by (auto simp: is_digit_def)

lemma pad_zeros_digits:
  "list_all is_digit ds \<Longrightarrow> list_all is_digit (pad_zeros m ds) \<and> digits_val (pad_zeros m ds) = digits_val ds \<and>
     m \<le> length (pad_zeros m ds)"
  by (auto simp: pad_zeros_def digits_val_zeros is_digit_zero list_all_iff)

lemma parse_unsigned_point:
  assumes "all_digits ip" and "all_digits fp"
  shows "parse_unsigned (ip @ CHR ''.'' # fp) = Some (real (digits_val ip) + real (digits_val fp) / 10 ^ length fp)"
proof -
  have ip: "\<forall>c\<in>set ip. c \<noteq> CHR ''.''" using assms(1) by (auto simp: all_digits_def list_all_iff)
  have "\<not> all_digits (ip @ CHR ''.'' # fp)" by (auto simp: all_digits_def is_digit_def)
  with ip assms show ?thesis by (simp add: parse_unsigned_def dropWhile_append takeWhile_append)
qed

lemma show_fixed_split:
  obtains ds where "list_all is_digit ds" and "digits_val ds = n" and "k + 1 \<le> length ds"
    and "show_fixed n k = (if k = 0 then ds else take (length ds - k) ds @ CHR ''.'' # drop (length ds - k) ds)"
proof
  let ?ds = "pad_zeros (k + 1) (nat_digits n)"
  show "list_all is_digit ?ds" "digits_val ?ds = n" "k + 1 \<le> length ?ds"
    using pad_zeros_digits [OF nat_digits_digits] nat_digits_val by auto
  show "show_fixed n k = (if k = 0 then ?ds else take (length ?ds - k) ?ds @ CHR ''.'' # drop (length ?ds - k) ?ds)"
    by (simp add: show_fixed_def Let_def)
qed

lemma parse_unsigned_show_fixed: "parse_unsigned (show_fixed n k) = Some (real n / 10 ^ k)"
proof -
  obtain ds where d: "list_all is_digit ds" "digits_val ds = n" "k + 1 \<le> length ds"
    and sf: "show_fixed n k = (if k = 0 then ds else take (length ds - k) ds @ CHR ''.'' # drop (length ds - k) ds)"
    by (rule show_fixed_split)
  show ?thesis
  proof (cases "k = 0")
    case True
    have "all_digits ds" using d by (auto simp: all_digits_def)
    with True sf d(2) show ?thesis by (simp add: parse_unsigned_def)
  next
    case False
    let ?ip = "take (length ds - k) ds" and ?fp = "drop (length ds - k) ds"
    have dig: "all_digits ?ip" "all_digits ?fp"
      using d False by (auto simp: all_digits_def list_all_iff dest: in_set_takeD in_set_dropD)
    have len: "length ?fp = k" using d by simp
    have "digits_val ds = digits_val ?ip * 10 ^ k + digits_val ?fp"
      using digits_val_append [of ?ip ?fp] len by simp
    with d(2) have "real n = real (digits_val ?ip) * 10 ^ k + real (digits_val ?fp)"
      by (metis of_nat_add of_nat_mult of_nat_numeral of_nat_power)
    then have "real n / 10 ^ k = real (digits_val ?ip) + real (digits_val ?fp) / 10 ^ k"
      by (simp add: field_simps)
    with False sf d(3) show ?thesis
      by (simp add: parse_unsigned_point [OF dig])
  qed
qed

lemma show_fixed_hd: "\<exists>c t. show_fixed n k = c # t \<and> is_digit c"
proof -
  obtain ds where d: "list_all is_digit ds" "k + 1 \<le> length ds"
    and sf: "show_fixed n k = (if k = 0 then ds else take (length ds - k) ds @ CHR ''.'' # drop (length ds - k) ds)"
    by (rule show_fixed_split)
  then obtain c t where ds: "ds = c # t" "is_digit c" by (cases ds) auto
  with d(2) sf show ?thesis
    by (cases "k = 0") (auto simp: take_Cons')
qed

lemma parse_decimal_digit_start: "is_digit c \<Longrightarrow> parse_decimal (c # t) = parse_unsigned (c # t)"
  by (auto simp: parse_decimal_def is_digit_def split: char.splits bool.splits)

lemma num_field_apply_data_map:
  assumes "map_of dm k = Some (rn, to_float_value)"
  shows "num_field (apply_data_map dm raw) k = Option.bind (raw rn) to_float"
  using assms
  by (cases "raw rn") (auto simp: apply_data_map_def num_field_def to_float_value_def split: option.splits)

lemma to_float_show_decimal:
  "to_float (JStr (show_decimal i k)) = Some (real_of_int i / 10 ^ k)"
proof (cases "i < 0")
  case True
  then show ?thesis
    by (simp add: to_float_def show_decimal_def parse_decimal_def parse_unsigned_show_fixed)
next
  case False
  obtain c t where "show_fixed (nat i) k = c # t" "is_digit c" using show_fixed_hd by blast
  then have "parse_decimal (show_fixed (nat i) k) = parse_unsigned (show_fixed (nat i) k)"
    by (simp add: parse_decimal_digit_start)
  with False show ?thesis
    by (simp add: to_float_def show_decimal_def parse_unsigned_show_fixed)
qed


subsection \<open>The data maps of the detail recorders\<close>

text \<open>C28. The rows the detail recorders store: through the data maps of
  \<open>get_data_map\<close>, each numeric column of a \<open>SpoDetail\<close> or \<open>RightsIssueDetail\<close> row is
  \<open>to_float\<close> of the provider field the map names (\<open>ShiJiZengFa\<close>, \<open>ZengFaJiaGe\<close>,
  \<open>ShiJiMuJi\<close>; \<open>ShiJiPeiGu\<close>, \<open>PeiGuJiaGe\<close>, \<open>ShiJiMuJi\<close>): null when the field is absent or
  malformed, without touching the other columns.\<close>

theorem detail_rows_from_data_maps:
  "spo_issues (to_spo_detail eid ts tstr (apply_data_map spo_data_map raw)) = Option.bind (raw ''ShiJiZengFa'') to_float \<and>
   spo_price (to_spo_detail eid ts tstr (apply_data_map spo_data_map raw)) = Option.bind (raw ''ZengFaJiaGe'') to_float \<and>
   spo_raising_fund (to_spo_detail eid ts tstr (apply_data_map spo_data_map raw)) = Option.bind (raw ''ShiJiMuJi'') to_float \<and>
   rights_issues (to_rights_detail eid ts tstr (apply_data_map rights_data_map raw)) = Option.bind (raw ''ShiJiPeiGu'') to_float \<and>
   rights_issue_price (to_rights_detail eid ts tstr (apply_data_map rights_data_map raw)) = Option.bind (raw ''PeiGuJiaGe'') to_float \<and>
   rights_raising_fund (to_rights_detail eid ts tstr (apply_data_map rights_data_map raw)) = Option.bind (raw ''ShiJiMuJi'') to_float"
  by (simp add: to_spo_detail_def to_rights_detail_def num_field_apply_data_map spo_data_map_def rights_data_map_def)

text \<open>The 2017 offering of the test data, with a malformed price: the price becomes null and
  the other columns are read.\<close>

lemma spo_row_malformed_price:
  "to_spo_detail ''stock_sz_000778'' (Date 2017 4 1, 0) ''2017-04-01''
     (apply_data_map spo_data_map
        [''ShiJiZengFa'' \<mapsto> JStr ''347600000'', ''ZengFaJiaGe'' \<mapsto> JStr ''--'', ''ShiJiMuJi'' \<mapsto> JStr ''1766000000'']) =
   \<lparr>entity_id = ''stock_sz_000778'', timestamp = (Date 2017 4 1, 0), spo_id = ''stock_sz_000778_2017-04-01'',
    spo_issues = Some 347600000, spo_price = None, spo_raising_fund = Some 1766000000\<rparr>"
  by (simp add: to_spo_detail_def num_field_def apply_data_map_def spo_data_map_def detail_id_def
      to_float_value_def to_float_def parse_decimal_def parse_unsigned_def all_digits_def is_digit_def
      digits_val_def digit_value_def)
end
