(* ===== verification/Pageable.thy ===== *)
theory Pageable
  imports FieldMapper
begin

text \<open>
  The pageable recorder of the eastmoney detail recorders (\<open>EastmoneyPageabeDataRecorder\<close> and
  the \<open>zvdata\<close> recorder base).  These classes are not in the repository; they are modelled
  from the spec (sections 4.2, 6 and 7): a page request retried a bounded number of times
  (\<open>request_page\<close>), the page loop that stops at a short page or when the provider reports no
  more data (\<open>fetch_pages\<close>, a \<open>partial_function (option)\<close>: a provider that never ends its
  pages makes the loop diverge, the value \<open>None\<close>), the conversion of provider rows through
  the field mapper (\<open>rows_of\<close>), the upsert keyed by the derived identifier
  (\<open>upsert_all\<close>), and the loop over entities that logs and skips an entity whose requests
  fail (\<open>run_entities\<close>).  \<open>spo_recorder_run\<close> and \<open>rights_recorder_run\<close> are complete runs of
  \<open>SPODetailRecorder\<close> and \<open>RightsIssueDetailRecorder\<close>: record every entity, then
  \<open>on_finish\<close>; \<open>spo_main\<close> and \<open>rights_main\<close> are the two \<open>__main__\<close> blocks, which select
  the entities by code and run.
\<close>

section \<open>Page requests\<close>

text \<open>A page of the provider's answer: the rows under the recorder's \<open>path_fields\<close> and the
  \<open>hasMore\<close> flag.  The provider is a function of the entity, the page number, the page size
  and the attempt, so that a failure may be transient.\<close>

record page =
  page_rows :: "raw_record list"
  has_more :: bool

type_synonym page_api = "string \<Rightarrow> nat \<Rightarrow> nat \<Rightarrow> nat \<Rightarrow> py_error + page"

text \<open>\<open>request_page api eid pg psize r a\<close>: attempt \<open>a\<close>, with \<open>r\<close> retries left (the backoff
  between attempts only delays).\<close>

fun request_page :: "page_api \<Rightarrow> string \<Rightarrow> nat \<Rightarrow> nat \<Rightarrow> nat \<Rightarrow> nat \<Rightarrow> py_error + page" where
  "request_page api eid pg psize 0 a = api eid pg psize a"
| "request_page api eid pg psize (Suc r) a =
     (case api eid pg psize a of Inl _ \<Rightarrow> request_page api eid pg psize r (Suc a) | Inr p \<Rightarrow> Inr p)"

text \<open>The page loop from page \<open>pg\<close> with the rows \<open>acc\<close> fetched so far; it returns the rows
  and the number of pages requested, or the error of the first page whose retries all
  failed.\<close>

partial_function (option) fetch_pages ::
  "page_api \<Rightarrow> nat \<Rightarrow> nat \<Rightarrow> string \<Rightarrow> nat \<Rightarrow> raw_record list \<Rightarrow> (py_error + raw_record list \<times> nat) option" where
  "fetch_pages api retries psize eid pg acc =
     (case request_page api eid pg psize retries 0 of
        Inl e \<Rightarrow> Some (Inl e)
      | Inr p \<Rightarrow>
          if length (page_rows p) < psize \<or> \<not> has_more p then Some (Inr (acc @ page_rows p, Suc pg))
          else fetch_pages api retries psize eid (Suc pg) (acc @ page_rows p))"

section \<open>Rows and the upsert\<close>

text \<open>Provider rows to domain rows: the time field must be a date \<open>YYYY-MM-DD\<close>; the row is
  built from the canonical record by \<open>mk\<close> (\<open>to_spo_detail\<close>, \<open>to_rights_detail\<close>).\<close>

definition rows_of ::
  "(string \<Rightarrow> timestamp \<Rightarrow> string \<Rightarrow> raw_record \<Rightarrow> 'r) \<Rightarrow> data_map \<Rightarrow> string \<Rightarrow> string \<Rightarrow> raw_record list \<Rightarrow> 'r list" where
  "rows_of mk dm tf eid raws =
     List.map_filter (\<lambda>raw. case raw tf of
         Some (JStr tstr) \<Rightarrow> map_option (\<lambda>d. mk eid (to_pd_timestamp d) tstr (apply_data_map dm raw)) (parse_date tstr)
       | _ \<Rightarrow> None) raws"

text \<open>The upsert: an existing identifier has its row merged with the new one (\<open>merge n r\<close>),
  an absent one is inserted.\<close>

definition upsert_row :: "('r \<Rightarrow> 'k) \<Rightarrow> ('r \<Rightarrow> 'r \<Rightarrow> 'r) \<Rightarrow> 'r list \<Rightarrow> 'r \<Rightarrow> 'r list" where
  "upsert_row ident merge tbl n =
     (if ident n \<in> set (map ident tbl) then update_where (\<lambda>r. ident r = ident n) (merge n) tbl else tbl @ [n])"

definition upsert_all :: "('r \<Rightarrow> 'k) \<Rightarrow> ('r \<Rightarrow> 'r \<Rightarrow> 'r) \<Rightarrow> 'r list \<Rightarrow> 'r list \<Rightarrow> 'r list" where
  "upsert_all ident merge tbl ns = fold (\<lambda>n t. upsert_row ident merge t n) ns tbl"

text \<open>The laws a merge satisfies when the new row's fields overwrite the stored ones: the
  last write wins, a row merged with itself is itself, and the key is kept.\<close>

definition overwrite_merge :: "('r \<Rightarrow> 'k) \<Rightarrow> ('r \<Rightarrow> 'r \<Rightarrow> 'r) \<Rightarrow> bool" where
  "overwrite_merge ident merge \<longleftrightarrow>
     (\<forall>n m r. merge n (merge m r) = merge n r) \<and> (\<forall>n. merge n n = n) \<and>
     (\<forall>n r. ident r = ident n \<longrightarrow> ident (merge n r) = ident n)"

section \<open>The recorder loop\<close>

text \<open>The last of the new rows with key \<open>k\<close>.\<close>

definition last_with :: "('r \<Rightarrow> 'k) \<Rightarrow> 'r list \<Rightarrow> 'k \<Rightarrow> 'r option" where
  "last_with ident ns k = find (\<lambda>n. ident n = k) (rev ns)"

text \<open>A detail recorder: its row builder, data map, time field, key and merge.\<close>

record 'r detail_recorder =
  mk_row :: "string \<Rightarrow> timestamp \<Rightarrow> string \<Rightarrow> raw_record \<Rightarrow> 'r"
  rec_data_map :: data_map
  rec_time_field :: string
  row_ident :: "'r \<Rightarrow> string"
  row_merge :: "'r \<Rightarrow> 'r \<Rightarrow> 'r"

record pager =
  max_retries :: nat
  page_size :: nat

text \<open>One entity: its rows upserted, or its error logged and the table unchanged.\<close>

definition record_entity ::
  "'r detail_recorder \<Rightarrow> pager \<Rightarrow> page_api \<Rightarrow> 'r list \<Rightarrow> string \<Rightarrow> ('r list \<times> (string \<times> py_error) list) option" where
  "record_entity R cfg api tbl eid =
     (case fetch_pages api (max_retries cfg) (page_size cfg) eid 0 [] of
        None \<Rightarrow> None
      | Some (Inl e) \<Rightarrow> Some (tbl, [(eid, e)])
      | Some (Inr (raws, _)) \<Rightarrow>
          Some (upsert_all (row_ident R) (row_merge R) tbl (rows_of (mk_row R) (rec_data_map R) (rec_time_field R) eid raws), []))"

text \<open>What one entity contributes to a run, whatever the table: its rows, and its log.\<close>

definition entity_rows :: "'r detail_recorder \<Rightarrow> pager \<Rightarrow> page_api \<Rightarrow> string \<Rightarrow> 'r list" where
  "entity_rows R cfg api eid =
     (case fetch_pages api (max_retries cfg) (page_size cfg) eid 0 [] of
        Some (Inr (raws, _)) \<Rightarrow> rows_of (mk_row R) (rec_data_map R) (rec_time_field R) eid raws
      | _ \<Rightarrow> [])"

definition entity_log :: "pager \<Rightarrow> page_api \<Rightarrow> string \<Rightarrow> (string \<times> py_error) list" where
  "entity_log cfg api eid =
     (case fetch_pages api (max_retries cfg) (page_size cfg) eid 0 [] of Some (Inl e) \<Rightarrow> [(eid, e)] | _ \<Rightarrow> [])"

fun run_entities ::
  "'r detail_recorder \<Rightarrow> pager \<Rightarrow> page_api \<Rightarrow> string list \<Rightarrow> 'r list \<Rightarrow> ('r list \<times> (string \<times> py_error) list) option" where
  "run_entities R cfg api [] tbl = Some (tbl, [])"
| "run_entities R cfg api (eid # eids) tbl =
     (case record_entity R cfg api tbl eid of
        None \<Rightarrow> None
      | Some (tbl', l) \<Rightarrow> map_option (\<lambda>(t, l'). (t, l @ l')) (run_entities R cfg api eids tbl'))"

section \<open>The two detail recorders\<close>

text \<open>The detail rows are replaced as a whole on upsert.\<close>

definition spo_recorder :: "spo_detail detail_recorder" where
  "spo_recorder = \<lparr>mk_row = to_spo_detail, rec_data_map = spo_data_map, rec_time_field = spo_time_field,
     row_ident = spo_id, row_merge = (\<lambda>n r. n)\<rparr>"

definition rights_recorder :: "rights_issue_detail detail_recorder" where
  "rights_recorder = \<lparr>mk_row = to_rights_detail, rec_data_map = rights_data_map,
     rec_time_field = rights_time_field, row_ident = ri_id, row_merge = (\<lambda>n r. n)\<rparr>"

text \<open>\<open>SPODetailRecorder(...).run()\<close> in year \<open>y\<close>: every entity recorded into the SPO table,
  then \<open>on_finish\<close>.\<close>

definition spo_recorder_run ::
  "pager \<Rightarrow> page_api \<Rightarrow> nat \<Rightarrow> entity list \<Rightarrow> fin_db \<Rightarrow> (fin_db \<times> (string \<times> py_error) list) option" where
  "spo_recorder_run cfg api y es db =
     (case run_entities spo_recorder cfg api (map ent_id es) (spo_table db) of
        None \<Rightarrow> None
      | Some (tbl, lg) \<Rightarrow> Some (spo_on_finish y es (db\<lparr>spo_table := tbl\<rparr>), lg))"

text \<open>\<open>RightsIssueDetailRecorder(...).run()\<close> in year \<open>y\<close>.\<close>

definition rights_recorder_run ::
  "pager \<Rightarrow> page_api \<Rightarrow> nat \<Rightarrow> entity list \<Rightarrow> fin_db \<Rightarrow> (fin_db \<times> (string \<times> py_error) list) option" where
  "rights_recorder_run cfg api y es db =
     (case run_entities rights_recorder cfg api (map ent_id es) (rights_table db) of
        None \<Rightarrow> None
      | Some (tbl, lg) \<Rightarrow> Some (rights_on_finish y es (db\<lparr>rights_table := tbl\<rparr>), lg))"

text \<open>The recorder base selects its entities among the stocks by the codes it is given.\<close>

definition select_entities :: "entity list \<Rightarrow> string list \<Rightarrow> entity list" where
  "select_entities stocks codes = filter (\<lambda>e. code e \<in> set codes) stocks"

text \<open>The \<open>__main__\<close> blocks of the two recorders: \<open>SPODetailRecorder(codes=['000999']).run()\<close>
  and \<open>RightsIssueDetailRecorder(codes=SAMPLE_STOCK_CODES).run()\<close> (the sample codes of
  \<open>zvt.settings\<close> are a parameter).\<close>

definition spo_main :: "pager \<Rightarrow> page_api \<Rightarrow> nat \<Rightarrow> entity list \<Rightarrow> fin_db \<Rightarrow> (fin_db \<times> (string \<times> py_error) list) option" where
  "spo_main cfg api y stocks db = spo_recorder_run cfg api y (select_entities stocks [''000999'']) db"

definition rights_main ::
  "pager \<Rightarrow> page_api \<Rightarrow> nat \<Rightarrow> string list \<Rightarrow> entity list \<Rightarrow> fin_db \<Rightarrow> (fin_db \<times> (string \<times> py_error) list) option" where
  "rights_main cfg api y sample_codes stocks db = rights_recorder_run cfg api y (select_entities stocks sample_codes) db"

section \<open>Sample provider\<close>

text \<open>Two offerings of 000778 as the provider sends them (the 2008 one with a malformed
  fund), a provider that times out at the first attempt of every page and fails for every
  other entity, and a provider whose pages never end.\<close>

abbreviation spo_raw_2017 :: raw_record where
  "spo_raw_2017 \<equiv> [''ZengFaShiJian'' \<mapsto> JStr ''2017-04-01'', ''ShiJiZengFa'' \<mapsto> JStr ''347600000'',
     ''ZengFaJiaGe'' \<mapsto> JStr ''5.15'', ''ShiJiMuJi'' \<mapsto> JStr ''1766000000'']"

abbreviation spo_raw_2008 :: raw_record where
  "spo_raw_2008 \<equiv> [''ZengFaShiJian'' \<mapsto> JStr ''2008-06-30'', ''ShiJiZengFa'' \<mapsto> JStr ''120000000'',
     ''ZengFaJiaGe'' \<mapsto> JStr ''8.4'', ''ShiJiMuJi'' \<mapsto> JStr ''--'']"

definition sample_page_api :: page_api where
  "sample_page_api eid pg ps a =
     (if eid \<noteq> ''stock_sz_000778'' \<or> a = 0 then Inl (ProviderError ''timeout'')
      else if pg = 0 then Inr \<lparr>page_rows = [spo_raw_2017], has_more = True\<rparr>
      else Inr \<lparr>page_rows = [spo_raw_2008], has_more = False\<rparr>)"

definition endless_page_api :: page_api where
  "endless_page_api eid pg ps a = Inr \<lparr>page_rows = replicate ps spo_raw_2017, has_more = True\<rparr>"

abbreviation sample_pager :: pager where
  "sample_pager \<equiv> \<lparr>max_retries = 2, page_size = 1\<rparr>"

section \<open>Lemmas\<close>

lemma fetch_pages_returns_short:
  assumes "fetch_pages api r ps eid pg acc = Some y"
  shows "\<exists>p\<ge>pg. \<forall>P. request_page api eid p ps r 0 = Inr P \<longrightarrow> length (page_rows P) < ps \<or> \<not> has_more P"
  using assms
proof (induction rule: fetch_pages.raw_induct [where P = "\<lambda>api r ps eid pg acc y.
    \<exists>p\<ge>pg. \<forall>P. request_page api eid p ps r 0 = Inr P \<longrightarrow> length (page_rows P) < ps \<or> \<not> has_more P",
    rotated, consumes 1, case_names step])
  case (step f api r ps eid pg acc y)
  show ?case
  proof (cases "request_page api eid pg ps r 0")
    case (Inl e)
    then show ?thesis by (intro exI [of _ pg]) auto
  next
    case (Inr p)
    show ?thesis
    proof (cases "length (page_rows p) < ps \<or> \<not> has_more p")
      case True
      with Inr show ?thesis by (intro exI [of _ pg]) auto
    next
      case False
      with Inr step(2) have "f api r ps eid (Suc pg) (acc @ page_rows p) = Some y" by simp
      from step(1) [OF this] show ?thesis by (meson Suc_leD)
    qed
  qed
qed


lemma upsert_all_append:
  "upsert_all i m t (xs @ ys) = upsert_all i m (upsert_all i m t xs) ys"
  by (simp add: upsert_all_def)

lemma upsert_all_snoc:
  "upsert_all i m t (xs @ [n]) = upsert_row i m (upsert_all i m t xs) n"
  by (simp add: upsert_all_def)

lemma last_with_snoc:
  "last_with i (ns @ [n]) k = (if i n = k then Some n else last_with i ns k)"
  by (simp add: last_with_def)

lemma last_with_ident: "last_with i ns k = Some n \<Longrightarrow> i n = k"
  by (auto simp: last_with_def find_Some_iff)

lemma overwrite_mergeD:
  assumes "overwrite_merge i m"
  shows "m n (m n' r) = m n r" and "m n n = n" and "i r = i n \<Longrightarrow> i (m n r) = i n"
  using assms by (auto simp: overwrite_merge_def)

lemma keys_upsert_row:
  assumes "overwrite_merge i m"
  shows "i ` set (upsert_row i m t n) = insert (i n) (i ` set t)"
proof (cases "i n \<in> set (map i t)")
  case True
  have "map i (update_where (\<lambda>r. i r = i n) (m n) t) = map i t"
    by (rule map_update_where_frame) (simp add: overwrite_mergeD(3) [OF assms])
  then have "i ` set (update_where (\<lambda>r. i r = i n) (m n) t) = i ` set t"
    by (metis list.set_map)
  with True show ?thesis by (simp add: upsert_row_def insert_absorb)
qed (simp add: upsert_row_def)

lemma keys_upsert_all:
  assumes "overwrite_merge i m"
  shows "i ` set (upsert_all i m t ns) = i ` set t \<union> i ` set ns"
proof (induction ns rule: rev_induct)
  case Nil
  then show ?case by (simp add: upsert_all_def)
next
  case (snoc n ns)
  then show ?case by (simp add: upsert_all_snoc keys_upsert_row [OF assms])
qed

lemma upsert_all_settled:
  assumes ow: "overwrite_merge i m"
    and "x \<in> set (upsert_all i m t ns)" and "last_with i ns (i x) = Some n"
  shows "m n x = x"
  using assms(2,3)
proof (induction ns arbitrary: x n rule: rev_induct)
  case Nil
  then show ?case by (simp add: last_with_def)
next
  case (snoc n' ns)
  let ?T = "upsert_all i m t ns"
  show ?case
  proof (cases "i n' \<in> set (map i ?T)")
    case True
    from snoc.prems(1) True have mem: "x \<in> set (update_where (\<lambda>r. i r = i n') (m n') ?T)"
      by (simp add: upsert_all_snoc upsert_row_def)
    have "last_with i (ns @ [n']) (i x) = Some n \<longrightarrow> m n x = x"
      using mem
    proof (rule update_where_preserves [where Q = "\<lambda>x. last_with i (ns @ [n']) (i x) = Some n \<longrightarrow> m n x = x"])
      fix r assume "r \<in> set ?T" "\<not> i r = i n'"
      then show "last_with i (ns @ [n']) (i r) = Some n \<longrightarrow> m n r = r"
        using snoc.IH by (auto simp: last_with_snoc)
    next
      fix r assume "r \<in> set ?T" "i r = i n'"
      then show "last_with i (ns @ [n']) (i (m n' r)) = Some n \<longrightarrow> m n (m n' r) = m n' r"
        by (simp add: last_with_snoc overwrite_mergeD [OF ow])
    qed
    with snoc.prems(2) show ?thesis by simp
  next
    case False
    with snoc.prems(1) have "x \<in> set ?T \<or> x = n'"
      by (auto simp: upsert_all_snoc upsert_row_def)
    then show ?thesis
    proof
      assume x: "x \<in> set ?T"
      with False have "i x \<noteq> i n'" by (auto simp: image_iff)
      with x snoc.prems(2) show ?thesis by (intro snoc.IH) (auto simp: last_with_snoc)
    next
      assume "x = n'"
      with snoc.prems(2) show ?thesis by (simp add: last_with_snoc overwrite_mergeD [OF ow])
    qed
  qed
qed

lemma upsert_all_present:
  assumes ow: "overwrite_merge i m" and "set (map i ns) \<subseteq> set (map i T)"
  shows "upsert_all i m T ns = map (\<lambda>x. case last_with i ns (i x) of None \<Rightarrow> x | Some n \<Rightarrow> m n x) T"
  using assms(2)
proof (induction ns rule: rev_induct)
  case Nil
  then show ?case by (simp add: upsert_all_def last_with_def)
next
  case (snoc n' ns)
  let ?f = "\<lambda>x. case last_with i ns (i x) of None \<Rightarrow> x | Some n \<Rightarrow> m n x"
  have keep: "i (?f x) = i x" for x
    by (auto split: option.split dest: last_with_ident simp: overwrite_mergeD(3) [OF ow])
  have mem: "i n' \<in> set (map i (map ?f T))"
    using snoc.prems by (auto simp: keep)
  have IH: "upsert_all i m T ns = map ?f T"
    using snoc.prems by (intro snoc.IH) auto
  have "upsert_all i m T (ns @ [n']) = upsert_row i m (map ?f T) n'"
    by (simp only: upsert_all_snoc IH)
  also have "\<dots> = update_where (\<lambda>r. i r = i n') (m n') (map ?f T)"
    using mem by (simp only: upsert_row_def if_True)
  also have "\<dots> = map (\<lambda>x. case last_with i (ns @ [n']) (i x) of None \<Rightarrow> x | Some n \<Rightarrow> m n x) T"
    unfolding update_where_def map_map by (rule map_cong) (auto simp: keep last_with_snoc overwrite_mergeD(1) [OF ow] split: option.split)
  finally show ?case .
qed

lemma upsert_all_idem:
  assumes ow: "overwrite_merge i m"
  shows "upsert_all i m (upsert_all i m t ns) ns = upsert_all i m t ns"
proof -
  have "set (map i ns) \<subseteq> set (map i (upsert_all i m t ns))"
    by (simp add: keys_upsert_all [OF ow])
  then have "upsert_all i m (upsert_all i m t ns) ns =
      map (\<lambda>x. case last_with i ns (i x) of None \<Rightarrow> x | Some n \<Rightarrow> m n x) (upsert_all i m t ns)"
    by (rule upsert_all_present [OF ow])
  also have "\<dots> = upsert_all i m t ns"
    by (rule map_idI) (auto split: option.split intro: upsert_all_settled [OF ow])
  finally show ?thesis .
qed


lemma upsert_all_prefix:
  assumes "\<And>n r. v (m n r) = v r"
  shows "length t \<le> length (upsert_all i m t ns) \<and> map v (take (length t) (upsert_all i m t ns)) = map v t"
proof (induction ns rule: rev_induct)
  case Nil
  then show ?case by (simp add: upsert_all_def)
next
  case (snoc n ns)
  let ?T = "upsert_all i m t ns"
  have "length t \<le> length (upsert_row i m ?T n) \<and> take (length t) (map v (upsert_row i m ?T n)) = take (length t) (map v ?T)"
    using snoc by (auto simp: upsert_row_def assms map_update_where_frame)
  with snoc show ?case by (simp add: upsert_all_snoc take_map)
qed

lemma upsert_all_new_rows:
  assumes "\<forall>n\<in>set ns. P n" and "\<And>n r. P r \<Longrightarrow> P (m n r)"
  shows "\<forall>r\<in>set (drop (length t) (upsert_all i m t ns)). P r"
  using assms(1)
proof (induction ns rule: rev_induct)
  case Nil
  then show ?case by (simp add: upsert_all_def)
next
  case (snoc n ns)
  let ?T = "upsert_all i m t ns"
  have len: "length t \<le> length ?T"
    using upsert_all_prefix [of "\<lambda>_. ()" m t i ns] by simp
  have ih: "\<forall>r\<in>set (drop (length t) ?T). P r" using snoc by simp
  show ?case
  proof (cases "i n \<in> set (map i ?T)")
    case True
    have "drop (length t) (update_where (\<lambda>r. i r = i n) (m n) ?T) = update_where (\<lambda>r. i r = i n) (m n) (drop (length t) ?T)"
      by (simp add: update_where_def drop_map)
    with True ih assms(2) show ?thesis
      by (auto simp: upsert_all_snoc upsert_row_def set_update_where)
  next
    case False
    with ih len snoc.prems show ?thesis by (auto simp: upsert_all_snoc upsert_row_def)
  qed
qed

lemma upsert_all_distinct:
  assumes "distinct (map i t)" and "\<And>n r. i r = i n \<Longrightarrow> i (m n r) = i n"
  shows "distinct (map i (upsert_all i m t ns))"
proof (induction ns rule: rev_induct)
  case Nil
  then show ?case using assms(1) by (simp add: upsert_all_def)
next
  case (snoc n ns)
  let ?T = "upsert_all i m t ns"
  have "map i (update_where (\<lambda>r. i r = i n) (m n) ?T) = map i ?T"
    by (rule map_update_where_frame) (simp add: assms(2))
  with snoc show ?case by (auto simp: upsert_all_snoc upsert_row_def)
qed

lemma upsert_all_preserves:
  assumes "\<forall>r\<in>set t. P r" and "\<forall>n\<in>set ns. P n" and "\<And>n r. P n \<Longrightarrow> P r \<Longrightarrow> P (m n r)"
  shows "\<forall>r\<in>set (upsert_all i m t ns). P r"
  using assms(2)
proof (induction ns rule: rev_induct)
  case Nil
  then show ?case using assms(1) by (simp add: upsert_all_def)
next
  case (snoc n ns)
  then show ?case
    by (auto simp: upsert_all_snoc upsert_row_def set_update_where assms(3))
qed

lemma record_entity_eq:
  "record_entity R cfg api tbl eid =
     (if fetch_pages api (max_retries cfg) (page_size cfg) eid 0 [] = None then None
      else Some (upsert_all (row_ident R) (row_merge R) tbl (entity_rows R cfg api eid), entity_log cfg api eid))"
  by (auto simp: record_entity_def entity_rows_def entity_log_def upsert_all_def split: option.split sum.split)

lemma run_entities_eq:
  "run_entities R cfg api eids tbl =
     (if \<forall>eid\<in>set eids. fetch_pages api (max_retries cfg) (page_size cfg) eid 0 [] \<noteq> None
      then Some (upsert_all (row_ident R) (row_merge R) tbl (concat (map (entity_rows R cfg api) eids)),
                 concat (map (entity_log cfg api) eids))
      else None)"
  by (induction eids arbitrary: tbl) (auto simp: record_entity_eq upsert_all_append upsert_all_def)

lemma entity_log_rows: "entity_log cfg api eid \<noteq> [] \<Longrightarrow> entity_rows R cfg api eid = []"
  by (auto simp: entity_log_def entity_rows_def split: option.splits sum.splits)

lemma entity_log_fst: "map fst (entity_log cfg api eid) = (if entity_log cfg api eid = [] then [] else [eid])"
  by (auto simp: entity_log_def split: option.splits sum.splits)

lemma spo_recorder_overwrite: "overwrite_merge (row_ident spo_recorder) (row_merge spo_recorder)"
  by (simp add: overwrite_merge_def spo_recorder_def)

lemma sample_fetch_000778:
  "fetch_pages sample_page_api 2 (Suc 0) ''stock_sz_000778'' 0 [] = Some (Inr ([spo_raw_2017, spo_raw_2008], 2))"
  by (simp add: fetch_pages.simps [of sample_page_api] sample_page_api_def eval_nat_numeral)

lemma sample_fetch_other:
  "eid \<noteq> ''stock_sz_000778'' \<Longrightarrow>
     fetch_pages sample_page_api 2 (Suc 0) eid 0 [] = Some (Inl (ProviderError ''timeout''))"
  by (simp add: fetch_pages.simps [of sample_page_api] sample_page_api_def eval_nat_numeral)

lemma sample_run:
  "\<exists>T L. run_entities spo_recorder sample_pager sample_page_api [''stock_sz_000778'', ''stock_sh_600000''] [] = Some (T, L)"
  by (simp add: run_entities_eq sample_fetch_000778 sample_fetch_other)

subsection \<open>Page requests and the page loop\<close>

text \<open>Bounded retries: a page request with \<open>r\<close> retries makes at most \<open>r + 1\<close> attempts
  and returns the first successful answer, or the error of the last attempt.\<close>

lemma request_page_first_success:
  "request_page api eid pg ps r a =
     (case find (\<lambda>j. \<not> isl (api eid pg ps j)) [a..<a + Suc r] of
        Some j \<Rightarrow> api eid pg ps j | None \<Rightarrow> api eid pg ps (a + r))"
proof (induction r arbitrary: a)
  case 0
  then show ?case by (cases "api eid pg ps a") auto
next
  case (Suc r)
  have l: "[a..<a + Suc (Suc r)] = a # [Suc a..<a + Suc (Suc r)]" by (simp add: upt_rec)
  show ?case
    unfolding l using Suc.IH [of "Suc a", unfolded add_Suc_shift]
    by (cases "api eid pg ps a") (auto simp del: upt_Suc add_Suc_right)
qed

text \<open>Exhaustion: when the pages from \<open>pg\<close> to \<open>N - 1\<close> are full and announce more data
  and page \<open>N\<close> is short or announces none, the loop returns the rows of the pages \<open>pg\<close> to
  \<open>N\<close> in order after exactly \<open>N + 1\<close> requests in total: no request follows a short page.\<close>

lemma fetch_pages_exhaustion:
  assumes "\<forall>p. pg \<le> p \<and> p \<le> N \<longrightarrow> request_page api eid p ps r 0 = Inr (P p)"
    and "\<forall>p. pg \<le> p \<and> p < N \<longrightarrow> ps \<le> length (page_rows (P p)) \<and> has_more (P p)"
    and "length (page_rows (P N)) < ps \<or> \<not> has_more (P N)" and "pg \<le> N"
  shows "fetch_pages api r ps eid pg acc = Some (Inr (acc @ concat (map (page_rows \<circ> P) [pg..<Suc N]), Suc N))"
  using assms
proof (induction "N - pg" arbitrary: pg acc)
  case 0
  then have "pg = N" by simp
  with 0 show ?case by (subst fetch_pages.simps) simp
next
  case (Suc m)
  then have lt: "pg < N" by simp
  have ih: "fetch_pages api r ps eid (Suc pg) (acc @ page_rows (P pg)) =
      Some (Inr ((acc @ page_rows (P pg)) @ concat (map (page_rows \<circ> P) [Suc pg..<Suc N]), Suc N))"
    using Suc.prems Suc.hyps(2) lt by (intro Suc.hyps(1)) auto
  have "[pg..<Suc N] = pg # [Suc pg..<Suc N]" using lt by (simp add: upt_conv_Cons)
  with Suc.prems lt ih show ?case by (subst fetch_pages.simps) (simp add: not_less)
qed

text \<open>Divergence: when every page from \<open>pg\<close> on is full and announces more data, the page
  loop never returns (the spec sets no bound on the number of pages).\<close>

lemma fetch_pages_diverges:
  assumes "\<forall>p\<ge>pg. \<exists>P. request_page api eid p ps r 0 = Inr P \<and> ps \<le> length (page_rows P) \<and> has_more P"
  shows "fetch_pages api r ps eid pg acc = None"
proof (rule ccontr)
  assume "fetch_pages api r ps eid pg acc \<noteq> None"
  then obtain y where "fetch_pages api r ps eid pg acc = Some y" by blast
  from fetch_pages_returns_short [OF this] obtain p where "pg \<le> p"
    and "\<forall>P. request_page api eid p ps r 0 = Inr P \<longrightarrow> length (page_rows P) < ps \<or> \<not> has_more P" by blast
  with assms show False by (meson not_less)
qed

subsection \<open>Recording the entities\<close>

text \<open>Isolation: an entity whose requests fail is logged and skipped; the stored table
  is the one a run over only the entities that succeeded produces, and the log names exactly
  the failed entities, in order.\<close>

lemma run_entities_isolation:
  assumes "run_entities R cfg api eids tbl = Some (tbl', lg)"
  shows "run_entities R cfg api (filter (\<lambda>e. entity_log cfg api e = []) eids) tbl = Some (tbl', []) \<and>
         map fst lg = filter (\<lambda>e. entity_log cfg api e \<noteq> []) eids"
proof -
  have ok: "\<forall>eid\<in>set eids. fetch_pages api (max_retries cfg) (page_size cfg) eid 0 [] \<noteq> None"
    and t: "tbl' = upsert_all (row_ident R) (row_merge R) tbl (concat (map (entity_rows R cfg api) eids))"
    and l: "lg = concat (map (entity_log cfg api) eids)"
    using assms by (simp_all add: run_entities_eq split: if_splits)
  have "concat (map (entity_rows R cfg api) (filter (\<lambda>e. entity_log cfg api e = []) eids)) =
        concat (map (entity_rows R cfg api) eids)"
    by (induction eids) (auto dest: entity_log_rows)
  moreover have "concat (map (entity_log cfg api) (filter (\<lambda>e. entity_log cfg api e = []) eids)) = []"
    by (induction eids) auto
  moreover have "map fst lg = filter (\<lambda>e. entity_log cfg api e \<noteq> []) eids"
    unfolding l by (induction eids) (auto simp: entity_log_fst)
  ultimately show ?thesis using ok t by (simp add: run_entities_eq)
qed

text \<open>Idempotence: running the recorder a second time over the same provider answers
  leaves the stored records and the log as they were, for every recorder whose merge
  overwrites (the detail recorders replace whole rows).\<close>

lemma run_entities_idempotent:
  assumes "run_entities R cfg api eids tbl = Some (tbl', lg)"
    and "overwrite_merge (row_ident R) (row_merge R)"
  shows "run_entities R cfg api eids tbl' = Some (tbl', lg)"
  using assms by (auto simp: run_entities_eq upsert_all_idem split: if_splits)

lemma spo_recorder_run_eq:
  "spo_recorder_run cfg api y es db = Some (db', lg) \<longleftrightarrow>
     (\<exists>tbl. run_entities spo_recorder cfg api (map ent_id es) (spo_table db) = Some (tbl, lg) \<and>
            db' = spo_on_finish y es (db\<lparr>spo_table := tbl\<rparr>))"
  by (auto simp: spo_recorder_run_def split: option.splits)

abbreviation other_entity :: entity where
  "other_entity \<equiv> \<lparr>ent_id = ''stock_sh_600000'', code = ''600000'', exchange = ''sh'', name = ''PFYH''\<rparr>"

lemma sample_spo_run:
  "\<exists>db' lg. spo_recorder_run sample_pager sample_page_api 2019 [fin_sample_entity, other_entity]
     (fin_sample_db\<lparr>spo_table := []\<rparr>) = Some (db', lg)"
  by (simp add: spo_recorder_run_def run_entities_eq sample_fetch_000778 sample_fetch_other)

subsection \<open>Recording with the SPO detail recorder\<close>

text \<open>C29. Exhaustion: when the pages of an entity up to \<open>N - 1\<close> are full and announce more
  data and page \<open>N\<close> is short or final, the page loop makes exactly \<open>N + 1\<close> requests (none
  after the short page) and the SPO recorder upserts the rows built from all these pages, in
  order, logging nothing.\<close>

theorem spo_record_entity_exhaustion:
  assumes "\<forall>p\<le>N. request_page api eid p (page_size cfg) (max_retries cfg) 0 = Inr (P p)"
    and "\<forall>p<N. page_size cfg \<le> length (page_rows (P p)) \<and> has_more (P p)"
    and "length (page_rows (P N)) < page_size cfg \<or> \<not> has_more (P N)"
  shows "fetch_pages api (max_retries cfg) (page_size cfg) eid 0 [] =
           Some (Inr (concat (map (page_rows \<circ> P) [0..<Suc N]), Suc N)) \<and>
         record_entity spo_recorder cfg api tbl eid =
           Some (upsert_all spo_id (\<lambda>n r. n) tbl
                   (rows_of to_spo_detail spo_data_map spo_time_field eid (concat (map (page_rows \<circ> P) [0..<Suc N]))), [])"
proof -
  have "fetch_pages api (max_retries cfg) (page_size cfg) eid 0 [] =
          Some (Inr ([] @ concat (map (page_rows \<circ> P) [0..<Suc N]), Suc N))"
    by (rule fetch_pages_exhaustion) (use assms in auto)
  then show ?thesis by (simp add: record_entity_def spo_recorder_def)
qed

text \<open>C30. Divergence: if one of the recorded entities has pages that never end (every page
  full and announcing more data), the run never finishes, so \<open>on_finish\<close> never runs.\<close>

theorem spo_recorder_run_diverges:
  assumes "e \<in> set es"
    and "\<forall>p. \<exists>P. request_page api (ent_id e) p (page_size cfg) (max_retries cfg) 0 = Inr P \<and>
                 page_size cfg \<le> length (page_rows P) \<and> has_more P"
  shows "spo_recorder_run cfg api y es db = None"
proof -
  have "fetch_pages api (max_retries cfg) (page_size cfg) (ent_id e) 0 [] = None"
    by (rule fetch_pages_diverges) (use assms(2) in blast)
  with assms(1) show ?thesis by (auto simp: spo_recorder_run_def run_entities_eq)
qed

text \<open>C31. Isolation: an entity whose requests fail is logged and skipped without aborting the
  run: the SPO table is the one a run over the succeeding entities alone stores, the log
  names exactly the failed entities, and \<open>on_finish\<close> still runs for all entities.\<close>

theorem spo_recorder_run_isolation:
  assumes "spo_recorder_run cfg api y es db = Some (db', lg)"
  shows "run_entities spo_recorder cfg api (filter (\<lambda>e. entity_log cfg api e = []) (map ent_id es)) (spo_table db) =
           Some (spo_table db', []) \<and>
         map fst lg = filter (\<lambda>e. entity_log cfg api e \<noteq> []) (map ent_id es) \<and>
         db' = spo_on_finish y es (db\<lparr>spo_table := spo_table db'\<rparr>)"
proof -
  from assms obtain tbl where r: "run_entities spo_recorder cfg api (map ent_id es) (spo_table db) = Some (tbl, lg)"
    and db': "db' = spo_on_finish y es (db\<lparr>spo_table := tbl\<rparr>)"
    by (auto simp: spo_recorder_run_eq)
  have "spo_table db' = tbl" by (simp add: db' spo_on_finish_def)
  with run_entities_isolation [OF r] db' show ?thesis by simp
qed

lemma rights_recorder_overwrite: "overwrite_merge (row_ident rights_recorder) (row_merge rights_recorder)"
  by (simp add: overwrite_merge_def rights_recorder_def)

lemma rights_recorder_run_eq:
  "rights_recorder_run cfg api y es db = Some (db', lg) \<longleftrightarrow>
     (\<exists>tbl. run_entities rights_recorder cfg api (map ent_id es) (rights_table db) = Some (tbl, lg) \<and>
            db' = rights_on_finish y es (db\<lparr>rights_table := tbl\<rparr>))"
  by (auto simp: rights_recorder_run_def split: option.splits)

lemma spo_run_idempotent:
  assumes run: "spo_recorder_run cfg api y es db = Some (db', lg)" and wf: "fin_table_wf (fin_table db)"
  shows "spo_recorder_run cfg api y es db' = Some (db', lg)"
proof -
  from run obtain tbl where r: "run_entities spo_recorder cfg api (map ent_id es) (spo_table db) = Some (tbl, lg)"
    and db': "db' = spo_on_finish y es (db\<lparr>spo_table := tbl\<rparr>)"
    by (auto simp: spo_recorder_run_eq)
  have st: "spo_table db' = tbl" by (simp add: db' spo_on_finish_def)
  have again: "run_entities spo_recorder cfg api (map ent_id es) tbl = Some (tbl, lg)"
    by (rule run_entities_idempotent [OF r spo_recorder_overwrite])
  have fin: "spo_on_finish y es db' = db'"
    by (simp add: db' spo_on_finish_def backfill_pass_idem [OF wf fund_column_spo])
  have u: "db'\<lparr>spo_table := tbl\<rparr> = db'"
    using st by (cases db') simp
  have "spo_recorder_run cfg api y es db' = Some (spo_on_finish y es (db'\<lparr>spo_table := tbl\<rparr>), lg)"
    using again st by (simp add: spo_recorder_run_def)
  then show ?thesis by (simp only: u fin)
qed

lemma rights_run_idempotent:
  assumes run: "rights_recorder_run cfg api y es db = Some (db', lg)" and wf: "fin_table_wf (fin_table db)"
  shows "rights_recorder_run cfg api y es db' = Some (db', lg)"
proof -
  from run obtain tbl where r: "run_entities rights_recorder cfg api (map ent_id es) (rights_table db) = Some (tbl, lg)"
    and db': "db' = rights_on_finish y es (db\<lparr>rights_table := tbl\<rparr>)"
    by (auto simp: rights_recorder_run_eq)
  have st: "rights_table db' = tbl" by (simp add: db' rights_on_finish_def)
  have again: "run_entities rights_recorder cfg api (map ent_id es) tbl = Some (tbl, lg)"
    by (rule run_entities_idempotent [OF r rights_recorder_overwrite])
  have fin: "rights_on_finish y es db' = db'"
    by (simp add: db' rights_on_finish_def backfill_pass_idem [OF wf fund_column_rights])
  have u: "db'\<lparr>rights_table := tbl\<rparr> = db'"
    using st by (cases db') simp
  have "rights_recorder_run cfg api y es db' = Some (rights_on_finish y es (db'\<lparr>rights_table := tbl\<rparr>), lg)"
    using again st by (simp add: rights_recorder_run_def)
  then show ?thesis by (simp only: u fin)
qed

text \<open>C32. Idempotence of a complete run (spec section 8): running either detail recorder
  again over the same provider answers, on the database the first run left, gives the same
  database and log: the upsert rewrites the rows with themselves and the backfill finds
  nothing left to fill.\<close>

theorem detail_recorder_runs_idempotent:
  assumes "fin_table_wf (fin_table db)"
  shows "(spo_recorder_run cfg api y es db = Some (db', lg) \<longrightarrow> spo_recorder_run cfg api y es db' = Some (db', lg)) \<and>
         (rights_recorder_run cfg api y es db = Some (db', lg) \<longrightarrow> rights_recorder_run cfg api y es db' = Some (db', lg))"
  using spo_run_idempotent [OF _ assms] rights_run_idempotent [OF _ assms] by blast

subsection \<open>Witnesses\<close>

theorem spo_record_entity_exhaustion_witness:
  "fetch_pages sample_page_api 2 1 ''stock_sz_000778'' 0 [] = Some (Inr ([spo_raw_2017, spo_raw_2008], 2)) \<and>
   record_entity spo_recorder sample_pager sample_page_api [] ''stock_sz_000778'' =
     Some (upsert_all spo_id (\<lambda>n r. n) [] (rows_of to_spo_detail spo_data_map spo_time_field ''stock_sz_000778''
             [spo_raw_2017, spo_raw_2008]), [])"
proof -
  let ?P = "\<lambda>p::nat. if p = 0 then \<lparr>page_rows = [spo_raw_2017], has_more = True\<rparr>
                     else \<lparr>page_rows = [spo_raw_2008], has_more = False\<rparr>"
  have "\<forall>p\<le>1. request_page sample_page_api ''stock_sz_000778'' p (page_size sample_pager) (max_retries sample_pager) 0 = Inr (?P p)"
    by (simp add: sample_page_api_def eval_nat_numeral le_Suc_eq)
  moreover have "\<forall>p<1. page_size sample_pager \<le> length (page_rows (?P p)) \<and> has_more (?P p)"
    by simp
  moreover have "length (page_rows (?P 1)) < page_size sample_pager \<or> \<not> has_more (?P 1)"
    by simp
  ultimately have "fetch_pages sample_page_api (max_retries sample_pager) (page_size sample_pager) ''stock_sz_000778'' 0 [] =
           Some (Inr (concat (map (page_rows \<circ> ?P) [0..<Suc 1]), Suc 1)) \<and>
         record_entity spo_recorder sample_pager sample_page_api [] ''stock_sz_000778'' =
           Some (upsert_all spo_id (\<lambda>n r. n) []
                   (rows_of to_spo_detail spo_data_map spo_time_field ''stock_sz_000778'' (concat (map (page_rows \<circ> ?P) [0..<Suc 1]))), [])"
    by (rule spo_record_entity_exhaustion)
  then show ?thesis by simp
qed

theorem spo_recorder_run_diverges_witness:
  "spo_recorder_run sample_pager endless_page_api 2019 [fin_sample_entity] fin_sample_db = None"
proof -
  have "\<forall>p. \<exists>P. request_page endless_page_api (ent_id fin_sample_entity) p (page_size sample_pager) (max_retries sample_pager) 0 = Inr P \<and>
           page_size sample_pager \<le> length (page_rows P) \<and> has_more P"
    by (simp add: endless_page_api_def eval_nat_numeral)
  then show ?thesis by (rule spo_recorder_run_diverges [rotated]) simp
qed

theorem spo_recorder_run_isolation_witness:
  "map fst (snd (the (spo_recorder_run sample_pager sample_page_api 2019 [fin_sample_entity, other_entity]
      (fin_sample_db\<lparr>spo_table := []\<rparr>)))) = [''stock_sh_600000''] \<and>
   run_entities spo_recorder sample_pager sample_page_api [''stock_sz_000778''] [] =
     Some (spo_table (fst (the (spo_recorder_run sample_pager sample_page_api 2019 [fin_sample_entity, other_entity]
      (fin_sample_db\<lparr>spo_table := []\<rparr>)))), [])"
proof -
  obtain db' lg where r: "spo_recorder_run sample_pager sample_page_api 2019 [fin_sample_entity, other_entity]
      (fin_sample_db\<lparr>spo_table := []\<rparr>) = Some (db', lg)"
    using sample_spo_run by blast
  have "entity_log sample_pager sample_page_api ''stock_sz_000778'' = []"
    "entity_log sample_pager sample_page_api ''stock_sh_600000'' \<noteq> []"
    by (simp_all add: entity_log_def sample_fetch_000778 sample_fetch_other)
  with spo_recorder_run_isolation [OF r] r show ?thesis by simp
qed

lemma sample_rights_run:
  "\<exists>db' lg. rights_recorder_run sample_pager sample_page_api 2019 [fin_sample_entity, other_entity]
     (fin_sample_db\<lparr>spo_table := []\<rparr>) = Some (db', lg)"
  by (simp add: rights_recorder_run_def run_entities_eq sample_fetch_000778 sample_fetch_other)

theorem detail_recorder_runs_idempotent_witness:
  "spo_recorder_run sample_pager sample_page_api 2019 [fin_sample_entity, other_entity]
     (fst (the (spo_recorder_run sample_pager sample_page_api 2019 [fin_sample_entity, other_entity]
        (fin_sample_db\<lparr>spo_table := []\<rparr>)))) =
   spo_recorder_run sample_pager sample_page_api 2019 [fin_sample_entity, other_entity] (fin_sample_db\<lparr>spo_table := []\<rparr>) \<and>
   rights_recorder_run sample_pager sample_page_api 2019 [fin_sample_entity, other_entity]
     (fst (the (rights_recorder_run sample_pager sample_page_api 2019 [fin_sample_entity, other_entity]
        (fin_sample_db\<lparr>spo_table := []\<rparr>)))) =
   rights_recorder_run sample_pager sample_page_api 2019 [fin_sample_entity, other_entity] (fin_sample_db\<lparr>spo_table := []\<rparr>)"
proof -
  obtain db' lg where r: "spo_recorder_run sample_pager sample_page_api 2019 [fin_sample_entity, other_entity]
      (fin_sample_db\<lparr>spo_table := []\<rparr>) = Some (db', lg)"
    using sample_spo_run by blast
  obtain db'' lg' where r': "rights_recorder_run sample_pager sample_page_api 2019 [fin_sample_entity, other_entity]
      (fin_sample_db\<lparr>spo_table := []\<rparr>) = Some (db'', lg')"
    using sample_rights_run by blast
  have wf: "fin_table_wf (fin_table (fin_sample_db\<lparr>spo_table := []\<rparr>))" by (simp add: fin_table_wf_def)
  from detail_recorder_runs_idempotent [OF wf, where cfg = sample_pager and api = sample_page_api and y = 2019
      and es = "[fin_sample_entity, other_entity]" and db' = db' and lg = lg]
       detail_recorder_runs_idempotent [OF wf, where cfg = sample_pager and api = sample_page_api and y = 2019
      and es = "[fin_sample_entity, other_entity]" and db' = db'' and lg = lg'] r r'
  show ?thesis by simp
qed

end
