(* ===== verification/KdataRun.thy ===== *)
theory KdataRun
  imports Kdata Pageable
begin

text \<open>
  A complete run of \<open>JQChinaStockKdataRecorder\<close> (\<open>src/zvt/recorders/joinquant/quotes/
  jq_china_stock__kdata_recorder.py\<close>): the \<open>FixedCycleDataRecorder\<close> base (not in the
  repository, modelled from spec sections 2, 4.2, 5 and 7) takes the entities in order; for
  each it starts after the latest stored row, calls \<open>record\<close>, persists the rows and runs
  \<open>on_finish_entity\<close> before the next entity; an exception of either is logged and the
  entity skipped; at the end \<open>on_finish\<close> logs out of JoinQuant.  The run is a step function
  \<open>jq_entity_step\<close> on the state \<open>jq_run_state\<close> (table, log, session) and its structural
  iteration \<open>jq_run_entities\<close>; \<open>jq_main\<close> is the \<open>__main__\<close> block, with the
  command-line parser \<open>jq_parse_args\<close>.  The theory also shows that \<open>persist_kdata\<close> is an instance of
  the generic upsert of \<open>Pageable\<close>.
\<close>

section \<open>The recorder class\<close>

text \<open>The class attributes and \<open>get_data_map\<close>: the k-data recorder maps no field, so the
  field mapper passes \<open>get_price\<close>'s columns through.\<close>

record jq_recorder_class =
  entity_provider :: string
  entity_schema :: string
  data_provider :: string

definition jq_class :: jq_recorder_class where
  "jq_class = \<lparr>entity_provider = ''eastmoney'', entity_schema = ''Stock'', data_provider = ''joinquant''\<rparr>"

definition jq_data_map :: data_map where
  "jq_data_map = []"

section \<open>The run\<close>

text \<open>Where the base class starts an entity: after its latest stored row at the recorder's
  level, or at the default start when it has none.\<close>

definition entity_start :: "kdata list \<Rightarrow> jq_recorder \<Rightarrow> timestamp \<Rightarrow> entity \<Rightarrow> timestamp" where
  "entity_start tbl rc dflt e =
     (case get_kdata_latest tbl (ent_id e) (rec_level rc) of Some k \<Rightarrow> timestamp k | None \<Rightarrow> dflt)"

record jq_run_state =
  run_table :: "kdata list"
  run_log :: "(string \<times> py_error) list"
  jq_logged_in :: bool

text \<open>One entity: \<open>record\<close>, then the persistence of its rows, then \<open>on_finish_entity\<close>; the
  exception of \<open>record\<close> leaves the table as it was, that of \<open>on_finish_entity\<close> leaves what it
  committed.\<close>

definition jq_entity_step ::
  "jq_raw_api \<Rightarrow> (timestamp \<Rightarrow> bool) \<Rightarrow> timestamp \<Rightarrow> jq_post_api \<Rightarrow> netease_api \<Rightarrow> jq_recorder \<Rightarrow> timestamp \<Rightarrow>
   jq_run_state \<Rightarrow> entity \<Rightarrow> jq_run_state" where
  "jq_entity_step api in_trading now jq ne rc dflt s e =
     (case jq_record api in_trading now rc e (entity_start (run_table s) rc dflt e) of
        Inl err \<Rightarrow> s\<lparr>run_log := run_log s @ [(ent_id e, err)]\<rparr>
      | Inr ks \<Rightarrow>
          (case on_finish_entity jq ne rc e (persist_kdata ks (run_table s)) of
             (t, None) \<Rightarrow> s\<lparr>run_table := t\<rparr>
           | (t, Some err) \<Rightarrow> s\<lparr>run_table := t, run_log := run_log s @ [(ent_id e, err)]\<rparr>))"

fun jq_run_entities ::
  "jq_raw_api \<Rightarrow> (timestamp \<Rightarrow> bool) \<Rightarrow> timestamp \<Rightarrow> jq_post_api \<Rightarrow> netease_api \<Rightarrow> jq_recorder \<Rightarrow> timestamp \<Rightarrow>
   jq_run_state \<Rightarrow> entity list \<Rightarrow> jq_run_state" where
  "jq_run_entities api it now jq ne rc dflt s [] = s"
| "jq_run_entities api it now jq ne rc dflt s (e # es) =
     jq_run_entities api it now jq ne rc dflt (jq_entity_step api it now jq ne rc dflt s e) es"

text \<open>\<open>on_finish\<close>: \<open>super().on_finish()\<close> closes the session, \<open>logout()\<close> ends the
  JoinQuant session opened by \<open>auth\<close> in \<open>__init__\<close>.\<close>

definition jq_on_finish :: "jq_run_state \<Rightarrow> jq_run_state" where
  "jq_on_finish s = s\<lparr>jq_logged_in := False\<rparr>"

definition jq_run ::
  "jq_raw_api \<Rightarrow> (timestamp \<Rightarrow> bool) \<Rightarrow> timestamp \<Rightarrow> jq_post_api \<Rightarrow> netease_api \<Rightarrow> jq_recorder \<Rightarrow> timestamp \<Rightarrow>
   kdata list \<Rightarrow> jq_run_state" where
  "jq_run api it now jq ne rc dflt tbl =
     jq_on_finish (jq_run_entities api it now jq ne rc dflt
                     \<lparr>run_table = tbl, run_log = [], jq_logged_in = True\<rparr> (entities rc))"

text \<open>The well-formedness of the table the run maintains: every row's identifier is generated
  from its entity, timestamp and level, and no identifier occurs twice.\<close>

definition kdata_store_ok :: "kdata list \<Rightarrow> bool" where
  "kdata_store_ok tbl \<longleftrightarrow> kdata_table_wf tbl \<and> distinct (map kd_id tbl)"

section \<open>The command line\<close>

text \<open>The \<open>__main__\<close> block parses \<open>--level\<close> (one value among the interval levels, default
  \<open>1d\<close>) and \<open>--codes\<close> (one or more values, default the sample codes) with \<open>argparse\<close>,
  then constructs the recorder for those codes at that level and runs it.  The parser is the
  part of \<open>argparse\<close>'s behaviour these two options use: an option is a token of more than
  one character starting with \<open>-\<close>; \<open>-h\<close>/\<open>--help\<close> prints the help and exits; an unknown
  option, a missing value or a level outside the choices exits with a usage error; a later
  occurrence of an option overrides an earlier one.  Prefix abbreviations of option names,
  the \<open>--opt=value\<close> form, the \<open>--\<close> separator and the reading of negative numbers as
  values are not modelled.\<close>

datatype cli_error = Help_Exit | Unrecognized string | Expected_Argument string | Invalid_Choice string string

definition is_option :: "string \<Rightarrow> bool" where
  "is_option t \<longleftrightarrow> 1 < length t \<and> hd t = CHR ''-''"

fun parse_jq_args ::
  "string list \<Rightarrow> string list \<Rightarrow> string \<times> string list \<Rightarrow> cli_error + string \<times> string list" where
  "parse_jq_args levels [] acc = Inr acc"
| "parse_jq_args levels (t # ts) (lvl, cs) =
     (if t = ''-h'' \<or> t = ''--help'' then Inl Help_Exit
      else if t = ''--level'' then
        (case ts of
           [] \<Rightarrow> Inl (Expected_Argument ''--level'')
         | v # rest \<Rightarrow>
             if is_option v then Inl (Expected_Argument ''--level'')
             else if v \<in> set levels then parse_jq_args levels rest (v, cs)
             else Inl (Invalid_Choice ''--level'' v))
      else if t = ''--codes'' then
        (let vs = takeWhile (\<lambda>v. \<not> is_option v) ts in
         if vs = [] then Inl (Expected_Argument ''--codes'')
         else parse_jq_args levels (drop (length vs) ts) (lvl, vs))
      else Inl (Unrecognized t))"

text \<open>\<open>args = parser.parse_args()\<close> with the defaults \<open>'1d'\<close> and \<open>SAMPLE_STOCK_CODES\<close>; the
  choices are the values of \<open>IntervalLevel\<close>, a parameter.\<close>

definition jq_parse_args :: "string list \<Rightarrow> string list \<Rightarrow> string list \<Rightarrow> cli_error + string \<times> string list" where
  "jq_parse_args levels sample_codes args = parse_jq_args levels args (''1d'', sample_codes)"

text \<open>\<open>JQChinaStockKdataRecorder(level=level, sleeping_time=0, codes=codes).run()\<close>: the
  entities are the stocks of the default exchanges \<open>sh\<close> and \<open>sz\<close> with the given codes, the
  constructor (default \<open>entity_type='stock'\<close>) derives the table and the JoinQuant frequency
  from the level with \<open>get_kdata_schema\<close> and \<open>to_jq_trading_level\<close> (parameters \<open>sch\<close> and
  \<open>jql\<close>) and captures the current factors from the stored table, and the run starts.\<close>

definition jq_main ::
  "(string \<Rightarrow> string \<Rightarrow> string) \<Rightarrow> (string \<Rightarrow> string) \<Rightarrow> string list \<Rightarrow> string list \<Rightarrow> string list \<Rightarrow> entity list \<Rightarrow> jq_raw_api \<Rightarrow> (timestamp \<Rightarrow> bool) \<Rightarrow> timestamp \<Rightarrow>
   jq_post_api \<Rightarrow> netease_api \<Rightarrow> timestamp \<Rightarrow> kdata list \<Rightarrow> cli_error + jq_run_state" where
  "jq_main sch jql levels sample_codes args stocks api it now jq ne dflt tbl =
     (case jq_parse_args levels sample_codes args of
        Inl err \<Rightarrow> Inl err
      | Inr (lvl, codes) \<Rightarrow>
          (let es = filter (\<lambda>e. exchange e \<in> set [''sh'', ''sz'']) (select_entities stocks codes) in
           Inr (jq_run api it now jq ne (init_recorder sch jql ''stock'' lvl None es tbl) dflt tbl)))"

section \<open>Lemmas\<close>

lemma apply_jq_data_map: "apply_data_map jq_data_map raw = raw"
  by (simp add: apply_data_map_def jq_data_map_def)

section \<open>Persisting recorded rows\<close>

text \<open>The base class's persistence of \<open>record\<close>'s rows (\<open>persist_kdata\<close>) is an instance of
  the generic upsert with the merge \<open>merge_raw\<close>, which satisfies the overwrite laws.\<close>

lemma persist_kdata_upsert: "persist_kdata ns tbl = upsert_all kd_id merge_raw tbl ns"
  by (induction ns arbitrary: tbl) (simp_all add: upsert_all_def upsert_row_def)

lemma merge_raw_overwrite: "overwrite_merge kd_id merge_raw"
  by (simp add: overwrite_merge_def merge_raw_def)

lemma jq_record_rows_raw:
  assumes "jq_record api in_trading now rc e start = Inr ks"
  shows "\<exists>df. set ks \<subseteq> raw_to_kdata rc e ` set df"
proof -
  from assms obtain df where "ks = butlast (map (raw_to_kdata rc e) df) \<or> ks = map (raw_to_kdata rc e) df"
    by (auto simp: jq_record_def Let_def split: sum.splits if_splits)
  then have "set ks \<subseteq> raw_to_kdata rc e ` set df" by (auto dest: in_set_butlastD)
  then show ?thesis by blast
qed

text \<open>C34. Re-recording keeps reconciliation: persisting the rows \<open>record\<close> returns twice
  gives the table persisting them once gives; every row stored before keeps its
  back-adjusted prices, factor and forward-adjusted prices (the upsert writes only the raw
  columns), and every newly inserted row has null \<open>hfq_close\<close> and \<open>qfq_close\<close>, so the
  reconciler's "still missing" selection finds exactly the new rows and those left from
  before.\<close>

theorem jq_record_persist_reconcilable:
  assumes "jq_record api in_trading now rc e start = Inr ks"
  shows "persist_kdata ks (persist_kdata ks tbl) = persist_kdata ks tbl \<and>
         map (\<lambda>r. (hfq_fields r, qfq_fields r)) (take (length tbl) (persist_kdata ks tbl)) =
           map (\<lambda>r. (hfq_fields r, qfq_fields r)) tbl \<and>
         (\<forall>r\<in>set (drop (length tbl) (persist_kdata ks tbl)). hfq_close r = None \<and> qfq_close r = None)"
proof -
  from jq_record_rows_raw [OF assms] obtain df where ks: "set ks \<subseteq> raw_to_kdata rc e ` set df" by blast
  have "upsert_all kd_id merge_raw (upsert_all kd_id merge_raw tbl ks) ks = upsert_all kd_id merge_raw tbl ks"
    by (rule upsert_all_idem [OF merge_raw_overwrite])
  moreover have "map (\<lambda>r. (hfq_fields r, qfq_fields r)) (take (length tbl) (upsert_all kd_id merge_raw tbl ks)) =
           map (\<lambda>r. (hfq_fields r, qfq_fields r)) tbl"
    by (rule conjunct2 [OF upsert_all_prefix]) (simp add: merge_raw_def hfq_fields_def qfq_fields_def)
  moreover have "\<forall>r\<in>set (drop (length tbl) (upsert_all kd_id merge_raw tbl ks)). hfq_close r = None \<and> qfq_close r = None"
    by (rule upsert_all_new_rows) (use ks in \<open>auto simp: raw_to_kdata_def merge_raw_def\<close>)
  ultimately show ?thesis by (simp add: persist_kdata_upsert)
qed

theorem jq_record_persist_reconcilable_witness:
  "persist_kdata [raw_to_kdata (sample_recorder Map.empty) sample_entity (sample_raw (Date 2019 1 2)),
      raw_to_kdata (sample_recorder Map.empty) sample_entity (sample_raw (Date 2019 1 3))] (persist_kdata [raw_to_kdata (sample_recorder Map.empty) sample_entity (sample_raw (Date 2019 1 2)),
      raw_to_kdata (sample_recorder Map.empty) sample_entity (sample_raw (Date 2019 1 3))] [sample_done_row]) = persist_kdata [raw_to_kdata (sample_recorder Map.empty) sample_entity (sample_raw (Date 2019 1 2)),
      raw_to_kdata (sample_recorder Map.empty) sample_entity (sample_raw (Date 2019 1 3))] [sample_done_row] \<and>
   map (\<lambda>r. (hfq_fields r, qfq_fields r)) (take 1 (persist_kdata [raw_to_kdata (sample_recorder Map.empty) sample_entity (sample_raw (Date 2019 1 2)),
      raw_to_kdata (sample_recorder Map.empty) sample_entity (sample_raw (Date 2019 1 3))] [sample_done_row])) =
     [((Some 10, Some 10, Some 12, Some 8, Some 2), (Some 4, Some 4, Some 5, Some 3))] \<and>
   list_all (\<lambda>r. hfq_close r = None \<and> qfq_close r = None) (drop 1 (persist_kdata [raw_to_kdata (sample_recorder Map.empty) sample_entity (sample_raw (Date 2019 1 2)),
      raw_to_kdata (sample_recorder Map.empty) sample_entity (sample_raw (Date 2019 1 3))] [sample_done_row]))"
proof -
  have rec: "jq_record sample_raw_api (\<lambda>_. False) (Date 2019 1 3, 600) (sample_recorder Map.empty) sample_entity
      (Date 2019 1 1, 0) = Inr [raw_to_kdata (sample_recorder Map.empty) sample_entity (sample_raw (Date 2019 1 2)),
      raw_to_kdata (sample_recorder Map.empty) sample_entity (sample_raw (Date 2019 1 3))]"
    by (simp add: jq_record_def)
  from jq_record_persist_reconcilable [OF rec, where tbl = "[sample_done_row]"] show ?thesis
    by (simp del: persist_kdata.simps add: hfq_fields_def qfq_fields_def list_all_iff)
qed


section \<open>The run keeps the table well formed\<close>

lemma merge_raw_wf [simp]: "kdata_wf (merge_raw n r) = kdata_wf r"
  by (simp add: merge_raw_def kdata_wf_def)

lemma merge_raw_key [simp]: "kd_id (merge_raw n r) = kd_id r"
  by (simp add: merge_raw_def)

lemma raw_to_kdata_wf: "kdata_wf (raw_to_kdata rc e b)"
  by (simp add: raw_to_kdata_def kdata_wf_def)

lemma jq_record_wf: "jq_record api it now rc e start = Inr ks \<Longrightarrow> \<forall>k\<in>set ks. kdata_wf k"
  by (auto dest!: jq_record_rows_raw simp: raw_to_kdata_wf)

lemma persist_kdata_store_ok:
  assumes "kdata_store_ok tbl" and "\<forall>k\<in>set ks. kdata_wf k"
  shows "kdata_store_ok (persist_kdata ks tbl)"
proof -
  have "distinct (map kd_id (upsert_all kd_id merge_raw tbl ks))"
    by (rule upsert_all_distinct) (use assms(1) in \<open>simp_all add: kdata_store_ok_def\<close>)
  moreover have "\<forall>r\<in>set (upsert_all kd_id merge_raw tbl ks). kdata_wf r"
    by (rule upsert_all_preserves) (use assms in \<open>simp_all add: kdata_store_ok_def kdata_table_wf_def\<close>)
  ultimately show ?thesis by (simp add: kdata_store_ok_def kdata_table_wf_def persist_kdata_upsert)
qed

lemma reconcile_hfq_keys: "map kd_id (reconcile_hfq rc e ks df tbl) = map kd_id tbl"
proof -
  have "map kd_id (qfq_update_sql sc f eid lvl t) = map kd_id t" for sc f eid lvl t
    by (cases sc) (simp_all add: map_update_where_frame set_qfq_def)
  moreover have "map kd_id (fill_hfq df ks t) = map kd_id t" for t
    by (simp add: fill_hfq_def map_for_each_match_frame set_hfq_def)
  ultimately show ?thesis by (simp add: reconcile_hfq_def Let_def)
qed

lemma on_finish_entity_store_ok:
  assumes "kdata_store_ok tbl"
  shows "kdata_store_ok (fst (on_finish_entity jq ne rc e tbl))"
proof -
  have keys: "map kd_id (merge_turnover nd ks t) = map kd_id t" for nd ks t
    by (simp add: merge_turnover_def map_for_each_match_frame set_turnover_def)
  show ?thesis
    using on_finish_entity_shape [of jq ne rc e tbl] assms
    by (auto simp: kdata_store_ok_def kdata_table_wf_reconcile_hfq kdata_table_wf_merge_turnover
        reconcile_hfq_keys keys)
qed

lemma jq_entity_step_store_ok:
  assumes ok: "kdata_store_ok (run_table s)"
  shows "kdata_store_ok (run_table (jq_entity_step api it now jq ne rc dflt s e))"
proof (cases "jq_record api it now rc e (entity_start (run_table s) rc dflt e)")
  case (Inl err)
  with ok show ?thesis by (simp add: jq_entity_step_def)
next
  case (Inr ks)
  from ok jq_record_wf [OF Inr] have "kdata_store_ok (persist_kdata ks (run_table s))"
    by (rule persist_kdata_store_ok)
  then have "kdata_store_ok (fst (on_finish_entity jq ne rc e (persist_kdata ks (run_table s))))"
    by (rule on_finish_entity_store_ok)
  with Inr show ?thesis
    by (cases "on_finish_entity jq ne rc e (persist_kdata ks (run_table s))")
       (simp add: jq_entity_step_def split: option.split)
qed


lemma jq_run_entities_store_ok:
  "kdata_store_ok (run_table s) \<Longrightarrow> kdata_store_ok (run_table (jq_run_entities api it now jq ne rc dflt s es))"
  by (induction es arbitrary: s) (simp_all add: jq_entity_step_store_ok)

text \<open>C26. Type of the stored table: a complete run of the k-data recorder, whatever the
  providers answer or raise, keeps every row's identifier equal to the one generated from its
  entity, timestamp and level and keeps the identifiers distinct, and it ends logged out of
  JoinQuant.\<close>

theorem jq_run_store_ok:
  assumes "kdata_store_ok tbl"
  shows "kdata_store_ok (run_table (jq_run api it now jq ne rc dflt tbl)) \<and>
         \<not> jq_logged_in (jq_run api it now jq ne rc dflt tbl)"
  using jq_run_entities_store_ok [of "\<lparr>run_table = tbl, run_log = [], jq_logged_in = True\<rparr>"] assms
  by (simp add: jq_run_def jq_on_finish_def)

theorem jq_run_store_ok_witness:
  "kdata_store_ok (run_table (jq_run sample_raw_api (\<lambda>_. False) (Date 2019 1 3, 600) sample_jq sample_ne
      (sample_recorder Map.empty) (Date 2019 1 1, 0) [sample_done_row]))"
  using jq_run_store_ok [where tbl = "[sample_done_row]" and api = sample_raw_api and it = "\<lambda>_. False"
      and now = "(Date 2019 1 3, 600)" and jq = sample_jq and ne = sample_ne
      and rc = "sample_recorder Map.empty" and dflt = "(Date 2019 1 1, 0)"]
  by (simp add: kdata_store_ok_def kdata_table_wf_def kdata_wf_def generate_kdata_id_def)

section \<open>The command line\<close>

text \<open>The values \<open>parse_jq_args\<close> returns: a level that is the default or one of the choices,
  and codes that are the default or a non-empty list of non-option tokens.\<close>

lemma parse_jq_args_result:
  "parse_jq_args levels args acc = Inr (lvl, cs) \<Longrightarrow>
   (lvl = fst acc \<or> lvl \<in> set levels) \<and> (cs = snd acc \<or> cs \<noteq> [] \<and> list_all (\<lambda>c. \<not> is_option c) cs)"
proof (induction levels args acc arbitrary: lvl cs rule: parse_jq_args.induct)
  case (1 levels acc)
  then show ?case by simp
next
  case (2 levels t ts l0 c0)
  show ?case
  proof (cases "t = ''--level''")
    case True
    with 2 show ?thesis by (auto split: list.splits if_splits)
  next
    case nl: False
    show ?thesis
    proof (cases "t = ''--codes''")
      case True
      define vs where "vs = takeWhile (\<lambda>v. \<not> is_option v) ts"
      from 2(3) nl True have ne: "vs \<noteq> []" and r: "parse_jq_args levels (drop (length vs) ts) (l0, vs) = Inr (lvl, cs)"
        by (auto simp: vs_def Let_def split: if_splits)
      have hlp: "\<not> (t = ''-h'' \<or> t = ''--help'')" using True by auto
      have "list_all (\<lambda>c. \<not> is_option c) vs" by (auto simp: vs_def list_all_iff dest: set_takeWhileD)
      with 2(2) [OF hlp nl True, folded vs_def, OF refl ne r] ne show ?thesis by auto
    next
      case False
      with 2(3) nl show ?thesis by (simp split: if_splits)
    qed
  qed
qed

lemma jq_parse_args_result:
  "jq_parse_args levels sample_codes args = Inr (lvl, cs) \<Longrightarrow>
   (lvl = ''1d'' \<or> lvl \<in> set levels) \<and> (cs = sample_codes \<or> cs \<noteq> [] \<and> list_all (\<lambda>c. \<not> is_option c) cs)"
  using parse_jq_args_result [of levels args "(''1d'', sample_codes)"] by (simp add: jq_parse_args_def)

text \<open>Round trip: the command line printed from a level among the choices and a non-empty list
  of codes parses back to them.\<close>

lemma jq_parse_args_roundtrip:
  assumes "lvl \<in> set levels" "\<not> is_option lvl" "cs \<noteq> []" "list_all (\<lambda>c. \<not> is_option c) cs"
  shows "jq_parse_args levels sample_codes (''--level'' # lvl # ''--codes'' # cs) = Inr (lvl, cs)"
proof -
  have tw: "takeWhile (\<lambda>v. \<not> is_option v) cs = cs" using assms(4) by (simp add: list_all_iff)
  show ?thesis using assms(1-3) by (simp add: jq_parse_args_def Let_def tw)
qed

text \<open>A level outside the choices ends the process with a usage error before any recorder is
  constructed.\<close>

lemma jq_main_invalid_level:
  "v \<notin> set levels \<Longrightarrow> \<not> is_option v \<Longrightarrow>
   jq_main sch jql levels sample_codes [''--level'', v] stocks api it now jq ne dflt tbl = Inl (Invalid_Choice ''--level'' v)"
  by (simp add: jq_main_def jq_parse_args_def is_option_def)

text \<open>Every command line either stops with a usage error or runs the recorder to its end,
  logged out, on a table that stays well formed with distinct identifiers.\<close>

lemma jq_main_store_ok:
  assumes ok: "kdata_store_ok tbl" and m: "jq_main sch jql levels sample_codes args stocks api it now jq ne dflt tbl = Inr s"
  shows "kdata_store_ok (run_table s) \<and> \<not> jq_logged_in s"
proof -
  from m obtain rc where "s = jq_run api it now jq ne rc dflt tbl"
    by (auto simp: jq_main_def Let_def split: sum.splits)
  then show ?thesis
    using ok jq_run_entities_store_ok [where s = "\<lparr>run_table = tbl, run_log = [], jq_logged_in = True\<rparr>" and api = api and it = it and now = now and jq = jq and ne = ne
        and rc = rc and dflt = dflt and es = "entities rc"]
    by (simp add: jq_run_def jq_on_finish_def)
qed


text \<open>An accepted command line constructs the recorder it names: the parsed level, the
  JoinQuant frequency and the stock table of that level, no configured start, the selected
  stocks, and their factors captured from the stored table; the run then starts on it.\<close>

lemma jq_main_recorder:
  assumes "jq_parse_args levels sample_codes args = Inr (lvl, codes)"
  shows "\<exists>rc. jq_main sch jql levels sample_codes args stocks api it now jq ne dflt tbl =
                Inr (jq_run api it now jq ne rc dflt tbl) \<and>
              rec_level rc = lvl \<and> jq_trading_level rc = jql lvl \<and> data_schema rc = sch ''stock'' lvl \<and>
              start_timestamp rc = None \<and>
              entities rc = filter (\<lambda>e. exchange e \<in> set [''sh'', ''sz'']) (select_entities stocks codes) \<and>
              current_factors rc = capture_factors tbl lvl (entities rc) Map.empty"
proof -
  let ?es = "filter (\<lambda>e. exchange e \<in> set [''sh'', ''sz'']) (select_entities stocks codes)"
  show ?thesis
    by (rule exI [where x = "init_recorder sch jql ''stock'' lvl None ?es tbl"])
      (simp add: assms jq_main_def init_recorder_def Let_def)
qed

end
