(* ===== verification/DividendTests.thy ===== *)
theory DividendTests
  imports Backfill
begin

text \<open>
  The repository's test of the yearly dividend-financing aggregate
  (\<open>test_000778_dividend_financing\<close> in \<open>src/tests/api/test_dividend_financing.py\<close>).  It
  queries the \<open>dividend_financing\<close> database of the eastmoney provider through
  \<open>zvt.api.api.get_dividend_financing\<close> (rows of the given codes up to an end timestamp,
  ordered by timestamp descending) and asserts the number of rows and the columns of the
  second one.  The query layer is not in the repository; it is modelled from its use here
  and from spec section 3 as \<open>get_data\<close>: a filter, then \<open>ORDER BY timestamp DESC\<close>.  The
  test is a boolean: Python evaluates the assertions in order and stops at the first that
  fails, and the index read after the length assertion is in range whenever that assertion
  holds.  The two detail tests of the same file only compare rows of a live database with
  fixed values; the model has no such data, so they are not modelled.
\<close>

section \<open>The query API\<close>

definition get_data :: "('r \<Rightarrow> bool) \<Rightarrow> ('r \<Rightarrow> timestamp) \<Rightarrow> timestamp \<Rightarrow> 'r list \<Rightarrow> 'r list" where
  "get_data sel ts end_ts tbl = rev (sort_key ts (filter (\<lambda>r. sel r \<and> ts r \<le> end_ts) tbl))"

definition get_dividend_financing :: "string list \<Rightarrow> timestamp \<Rightarrow> fin_db \<Rightarrow> dividend_financing list" where
  "get_dividend_financing codes end_ts session =
     get_data (\<lambda>r. fin_code r \<in> set codes) timestamp end_ts (fin_table session)"

section \<open>The tests\<close>

text \<open>\<open>to_pd_timestamp('2017')\<close> is the first instant of 2017.\<close>

definition test_000778_dividend_financing :: "fin_db \<Rightarrow> bool" where
  "test_000778_dividend_financing session =
     (let result = get_dividend_financing [''000778''] (to_pd_timestamp (Date 2018 9 30)) session in
      length result = 22 \<and>
      (let latest = result ! 1 in
       timestamp latest = to_pd_timestamp (Date 2017 1 1) \<and> dividend_money latest = Some 598632026.4 \<and>
       fin_spo_issues latest = Some 347572815 \<and> fin_rights_issues latest = Some 0 \<and> ipo_issues latest = Some 0))"

section \<open>Lemmas\<close>

text \<open>A query reads a table only through the columns its filter and its order use: querying
  a view of the table that contains them gives the view of the answer.\<close>

lemma get_data_map:
  "map g (get_data (\<lambda>r. P (g r)) (\<lambda>r. k (g r)) e t) = get_data P k e (map g t)"
  by (simp add: get_data_def rev_map sort_key_map [symmetric] filter_map comp_def)

lemma get_data_view:
  "map g t1 = map g t2 \<Longrightarrow>
   map g (get_data (\<lambda>r. P (g r)) (\<lambda>r. k (g r)) e t1) = map g (get_data (\<lambda>r. P (g r)) (\<lambda>r. k (g r)) e t2)"
  by (simp add: get_data_map)

text \<open>The columns \<open>test_000778_dividend_financing\<close> reads.\<close>

lemma test_000778_dividend_financing_view:
  assumes "map (\<lambda>r. (timestamp r, fin_code r, dividend_money r, fin_spo_issues r, fin_rights_issues r, ipo_issues r))
             (fin_table db1) =
           map (\<lambda>r. (timestamp r, fin_code r, dividend_money r, fin_spo_issues r, fin_rights_issues r, ipo_issues r))
             (fin_table db2)"
  shows "test_000778_dividend_financing db1 = test_000778_dividend_financing db2"
proof -
  let ?g = "\<lambda>r::dividend_financing. (timestamp r, fin_code r, dividend_money r, fin_spo_issues r, fin_rights_issues r, ipo_issues r)"
  let ?e = "to_pd_timestamp (Date 2018 9 30)"
  define q1 where "q1 = get_dividend_financing [''000778''] ?e db1"
  define q2 where "q2 = get_dividend_financing [''000778''] ?e db2"
  have "map ?g (get_data (\<lambda>r. (\<lambda>v. fst (snd v) \<in> set [''000778'']) (?g r)) (\<lambda>r. fst (?g r)) ?e (fin_table db1)) =
        map ?g (get_data (\<lambda>r. (\<lambda>v. fst (snd v) \<in> set [''000778'']) (?g r)) (\<lambda>r. fst (?g r)) ?e (fin_table db2))"
    using assms by (rule get_data_view)
  then have q: "map ?g q1 = map ?g q2"
    by (simp only: q1_def q2_def get_dividend_financing_def fst_conv snd_conv)
  then have len: "length q1 = length q2"
    by (rule map_eq_imp_length_eq)
  show ?thesis
  proof (cases "length q1 = 22")
    case True
    then have "?g (q1 ! 1) = ?g (q2 ! 1)"
      using arg_cong [OF q, of "\<lambda>xs. xs ! 1"] len by simp
    with True len show ?thesis
      by (simp add: test_000778_dividend_financing_def q1_def [symmetric] q2_def [symmetric] Let_def)
  next
    case False
    with len show ?thesis
      by (simp add: test_000778_dividend_financing_def q1_def [symmetric] q2_def [symmetric] Let_def)
  qed
qed

text \<open>C35. The aggregate test does not observe the backfills: the columns
  \<open>test_000778_dividend_financing\<close> asserts (\<open>dividend_money\<close>, \<open>spo_issues\<close>,
  \<open>rights_issues\<close>, \<open>ipo_issues\<close>) and the rows and order of its query are the same before
  and after either recorder's \<open>on_finish\<close>, so the test passes after a backfill exactly when
  it passed before; the backfills write only the raising-fund columns.\<close>

theorem dividend_financing_test_backfill_invariant:
  "test_000778_dividend_financing (spo_on_finish y es db) = test_000778_dividend_financing db \<and>
   test_000778_dividend_financing (rights_on_finish y es db) = test_000778_dividend_financing db"
  by (intro conjI test_000778_dividend_financing_view)
    (simp_all add: spo_on_finish_def rights_on_finish_def map_backfill_pass_frame set_spo_fund_def set_rights_fund_def)

end
