(* ===== verification/Spec2Isabelle.thy ===== *)
theory Spec2Isabelle
  imports TraderApp KdataRun DividendTests
begin

text \<open>
  \<^bold>\<open>A verification development for the zvt recorders.\<close>

  \<^emph>\<open>The program.\<close>  zvt pulls quotes and dividend/financing data from external providers
  into a relational store.  The parts under \<open>src/\<close>:
  \<^item> \<open>zvt/recorders/joinquant/quotes/jq_china_stock__kdata_recorder.py\<close>,
    \<open>JQChinaStockKdataRecorder\<close>: records raw daily/intraday k-data from JoinQuant
    (\<open>record\<close>), and after each entity (\<open>on_finish_entity\<close>) reconciles the
    back-adjusted (hfq) prices from JoinQuant's post-adjusted series, rewrites the
    forward-adjusted (qfq) prices with one of two SQL \<open>UPDATE\<close>s depending on whether the
    adjustment factor changed since \<open>__init__\<close> captured it, and merges turnover rate and
    percent change from netease;
  \<^item> \<open>zvt/recorders/eastmoney/dividend_financing/spo_detail_recorder.py\<close> and
    \<open>rights_issue_detail_recorder.py\<close>: detail recorders whose \<open>on_finish\<close> backfills the
    yearly \<open>DividendFinancing\<close> aggregate from the detail rows;
  \<^item> \<open>zvt/apps/trader_app.py\<close>: the Dash dashboard; it keeps the traders and one account
    and one order reader per trader in module globals and answers a polling callback;
  \<^item> \<open>tests/\<close>: the tests whose expected values document the recorders.

  \<^emph>\<open>The theories.\<close>
  \<^item> \<open>Prelude\<close>: dates and timestamps (\<open>date\<close> with a \<open>linorder\<close> instance, so that the
    ORM's timestamp filters and orderings are the library's), Python errors, pandas and
    SQL value semantics (\<open>pd_sum\<close> skips NaN, \<open>sql_div\<close> propagates \<open>NULL\<close>), and the two
    table-rewriting shapes the code uses: \<open>update_where\<close> (an SQL \<open>UPDATE ... WHERE\<close> or an
    attribute assignment on selected ORM objects) and \<open>for_each_match\<close> (a loop over loaded
    objects that copies the fields of the matching frame row), with
    \<open>for_each_match_eq\<close> characterising the loop as one \<open>update_where\<close>.
  \<^item> \<open>Kdata\<close>: the k-data row (\<open>kdata\<close>, every numeric column nullable), the recorder state
    (\<open>jq_recorder\<close>), \<open>init_recorder\<close>/\<open>capture_factors\<close> (\<open>__init__\<close>, with the
    table and JoinQuant frequency derived from the level by library functions passed as
    parameters, which \<open>record\<close> then requests), and
    \<open>on_finish_entity\<close> built from \<open>select_unreconciled\<close>, \<open>fill_hfq\<close>,
    \<open>qfq_update_sql\<close> (the two SQL statements as a \<open>qfq_scope\<close>), \<open>reconcile_hfq\<close> and
    \<open>merge_turnover\<close>.  The providers are parameters returning \<open>py_error + frame\<close>; the hook
    returns the committed table and the exception that escaped, so that commits made before
    an exception are visible.

  \<^item> \<open>Backfill\<close>: the rows \<open>spo_detail\<close>, \<open>rights_issue_detail\<close> and
    \<open>dividend_financing\<close> (extensions of the shared \<open>mixin\<close> record), the three tables as
    \<open>fin_db\<close>, and the \<open>on_finish\<close> of both detail recorders: \<open>spo_on_finish\<close> and
    \<open>rights_on_finish\<close> instantiate one loop \<open>backfill_pass\<close> (selection \<open>need_filled\<close>,
    detail query \<open>details_in_year\<close>, value \<open>backfill_look\<close>) with the aggregate column as a
    getter/setter pair satisfying the interface \<open>fund_column\<close>; \<open>backfill_update_sql\<close> is
    the set-based SQL \<open>UPDATE\<close> the loop is compared with (SQL \<open>SUM\<close> as \<open>sql_sum\<close>).
  \<^item> \<open>TraderApp\<close>: the dashboard's module globals as \<open>app_state\<close>, the import
    (\<open>module_init\<close>), \<open>load_traders\<close>, \<open>serve_layout\<close> (the layout and the reload) and the
    callback \<open>update_trader_details\<close> with Python's list indexing \<open>py_nth\<close>; the database read
    \<open>get_trader\<close> is a parameter, and the states reached by import and page loads form the
    inductive relation \<open>dash_reach\<close>, parameterised by the trader tables the database may hold.
    \<open>dashboard_spec\<close> is the abstract specification of the callback for a fixed table.
  \<^item> \<open>FieldMapper\<close> (modelled from the spec where the code is in \<open>zvdata\<close>): provider rows as
    maps to \<open>json_value\<close>s, \<open>to_float\<close> as a decimal reader that gives \<open>None\<close> on malformed
    input, \<open>apply_data_map\<close>, the data maps and time fields of the two detail recorders
    (\<open>spo_data_map\<close>, \<open>rights_data_map\<close>, from \<open>get_data_map\<close> and
    \<open>get_original_time_field\<close>), and the construction of the detail rows.
  \<^item> \<open>Pageable\<close> (modelled from the spec): the retried page request \<open>request_page\<close>, the
    page loop \<open>fetch_pages\<close>, the upsert \<open>upsert_all\<close>, the entity loop \<open>run_entities\<close> that
    logs and skips failed entities, \<open>spo_recorder_run\<close> and \<open>rights_recorder_run\<close>,
    complete runs of the two detail recorders, \<open>select_entities\<close> (entities chosen by code)
    and the two \<open>__main__\<close> blocks (\<open>spo_main\<close>, \<open>rights_main\<close>).  The recorders are values of the record \<open>detail_recorder\<close> (row builder, data
    map, time field, key, merge), so the loop is proved once for both.
  \<^item> \<open>KdataRun\<close>: the k-data recorder's class attributes and data map (\<open>jq_class\<close>,
    \<open>jq_data_map\<close>), its \<open>on_finish\<close> (logout, \<open>jq_on_finish\<close>) and, from the spec's
    recorder base, the per-entity sequence \<open>jq_entity_step\<close> (\<open>record\<close>, the upsert
    \<open>persist_kdata\<close>, then \<open>on_finish_entity\<close>, errors logged) run over the entities
    (\<open>jq_run_entities\<close>, \<open>jq_run\<close>) with the session state \<open>jq_run_state\<close>, and the
    \<open>__main__\<close> block \<open>jq_main\<close>: the command line parsed by \<open>jq_parse_args\<close> (the part
    of \<open>argparse\<close> its two options use), the constructor over the selected stocks, the run.
  \<^item> \<open>DividendTests\<close>: the aggregate test of \<open>src/tests/api/test_dividend_financing.py\<close>
    as a boolean function of the database (\<open>test_000778_dividend_financing\<close>) over the query
    layer of \<open>zvt.api.api\<close> (\<open>get_data\<close>: filter by code and end date, order by timestamp
    descending; modelled from the spec).

  \<^emph>\<open>What is proved.\<close>  In \<open>Kdata\<close> (C1--C12): the factor-change invariant (every row of the
  entity ends with \<open>qfq = hfq / latest_factor\<close>), the unchanged-factor invariant (complete
  rows untouched, incomplete rows recomputed, C2), the back-adjusted fill (matched by date
  alone, so intraday bars get the daily values, C3), the frame (rows of other entities or
  levels untouched on every path), preservation of the table's well-formedness, the two
  error paths of \<open>on_finish_entity\<close>, the \<open>IndexError\<close> of \<open>record\<close> on an empty frame, every
  column of the rows it returns (C9), its single request and the request's window (C10:
  the later of the two starts, up to the next calendar day, by \<open>next_date_valid\<close> and
  \<open>next_date_least\<close> in \<open>Prelude\<close>), and the factor capture of \<open>__init__\<close> with its
  consequence for new entities.  In \<open>Backfill\<close> (C13--C18, C23): aggregate correctness of
  both backfills (the sum of the details, null and not zero when there is none, C13), the
  frame and the single written column, that a pass interrupted after any number of per-item
  commits and rerun ends as one complete pass, and that the detail window is the calendar
  year for aggregates dated January 1st; and (C23) that on a well-formed aggregate table the
  per-item loop equals one set-based SQL \<open>UPDATE\<close> exactly when no selected aggregate has
  details that all lack the value, where pandas writes 0 and SQL leaves \<open>NULL\<close>.  In
  \<open>TraderApp\<close> (C19--C22, C24, C25, C27): the invariant of the module's globals by rule
  induction over \<open>dash_reach\<close>, that the callback never raises \<open>IndexError\<close> for a position of
  the current trader list, that with a fixed trader table it refines \<open>dashboard_spec\<close> and
  shows the trader an option is labelled with, and the defects for any change of the table
  between page loads: option \<open>i\<close> labelled with the previous trader \<open>i\<close> while the callback
  shows the new trader \<open>i\<close> with the readers built for the first one (C24), an \<open>IndexError\<close>
  for every option past the end of a shorter table (C25), and reader lists that grow with
  every page load (C27).  In \<open>FieldMapper\<close> (C28): the columns of the recorded rows through
  the recorders' data maps.  In \<open>Pageable\<close> (C29--C32): recording an SPO entity makes exactly
  the requests up to the first short or final page and upserts their rows; a provider whose
  pages never end makes the run diverge; a failed entity is logged and skipped while
  \<open>on_finish\<close> still runs; and a second complete run of either detail recorder changes
  nothing (upsert idempotence from the overwrite laws of the merge, then backfill
  idempotence).  In \<open>KdataRun\<close>: (C26) a complete k-data run keeps the store well-formed
  with distinct identifiers and ends logged out (and so does every command line
  \<open>jq_main\<close> accepts, whose parser round-trips a level and codes and rejects a level outside
  the choices), and (C34) persisting the k-data rows \<open>record\<close> returns is idempotent, keeps
  the adjusted columns of every stored row and inserts only rows the reconciler will select
  (\<open>persist_kdata\<close> is \<open>upsert_all\<close> with \<open>merge_raw\<close>).  Here (C33): a complete SPO
  recorder run records the rows, then backfills each selected aggregate with their sum.
  In \<open>DividendTests\<close> (C35): the aggregate test reads only columns and rows the backfills
  never change, so it passes after a backfill exactly when it passed before.
  The shared loop is characterised once in
  \<open>Prelude\<close> (\<open>for_each_match_eq\<close>); the loop lemmas of \<open>Kdata\<close> and \<open>Backfill\<close> go
  through it.

  \<^emph>\<open>Bounds and fuel.\<close>  The recorder loops of the repository run over finite lists of
  loaded rows and are structural recursions, \<open>map\<close>s or \<open>fold\<close>s.  The one loop that may
  not end is the page loop of the pageable base: it is a \<open>partial_function (option)\<close>, with
  \<open>None\<close> for divergence.  The lemma \<open>fetch_pages_exhaustion\<close> (by induction on the pages
  left) states that it returns, with the rows and the number of requests, as soon as the
  provider answers a short or final page, and \<open>fetch_pages_diverges\<close> (by the fixpoint
  induction \<open>fetch_pages.raw_induct\<close>) that without such a page it does not; C29 and C30 lift
  both to the recorder.  The entity loops (\<open>run_entities\<close>, \<open>jq_run_entities\<close>) are
  structural over the list of entities.

  \<^emph>\<open>Plan.\<close>  Every operation of the four implementation files that changes state is a
  definition; the lines the map leaves out are imports and blank lines.  Further work would
  be deeper properties of the existing definitions rather than new code.

  \<^emph>\<open>Modelled from the spec.\<close>  The base classes and helpers that are not in the
  repository: the domain rows (\<open>zvt.domain\<close>), the query layer \<open>zvt.api\<close> the tests call,
  the readers of the dashboard, \<open>to_float\<close>,
  the data-map application, the pageable loop with its retries and the upsert of the recorder
  base.  Their definitions follow sections 4.1, 4.2, 6 and 7 of the spec; the decimal grammar
  of \<open>to_float\<close> (sign, digits, optional fraction) is the model's reading of "string to
  float", and rows whose time field is not a \<open>YYYY-MM-DD\<close> date are skipped.

  \<^emph>\<open>Not modelled.\<close>  The ORM session and schema, HTTP transport and the URLs of the
  recorders, the external providers themselves and the library functions \<open>get_kdata_schema\<close>
  and \<open>to_jq_trading_level\<close> (they are parameters), the backoff delay,
  logging output, Dash rendering and \<open>get_trader_detail_figures\<close>, the process log started
  by the \<open>__main__\<close> blocks, the parts of \<open>argparse\<close> the k-data command line does not use
  (prefix abbreviations, \<open>--opt=value\<close>, \<open>--\<close>), and the test of the stock-list spider
  (\<open>src/tests/recorders/common/test_china_stock_list_recorder.py\<close>: it only runs
  \<open>ChinaStockListSpider\<close>, which is neither in the repository nor in the spec).
\<close>

section \<open>Across components: a complete run of the SPO detail recorder\<close>

text \<open>C33. Record, then backfill: after \<open>SPODetailRecorder.run()\<close> (every entity recorded
  through the pageable loop and the field mapper, then \<open>on_finish\<close>), the SPO table is the
  upsert of every recorded row, and a selected aggregate with details in its window holds the
  sum of the raising funds of the details just recorded.\<close>

theorem spo_recorder_run_backfills:
  assumes run: "spo_recorder_run cfg api y es db = Some (db', lg)"
    and wf: "fin_table_wf (fin_table db)" and i: "i < length (fin_table db)"
    and sel: "backfill_selected fin_spo_raising_fund y (map code es) (fin_table db ! i)"
    and ne: "details_in_year (spo_table db') (fin_table db ! i) \<noteq> []"
  shows "spo_table db' = upsert_all spo_id (\<lambda>n r. n) (spo_table db)
                           (concat (map (entity_rows spo_recorder cfg api) (map ent_id es))) \<and>
         fin_spo_raising_fund (fin_table db' ! i) =
           Some (pd_sum (map spo_raising_fund (details_in_year (spo_table db') (fin_table db ! i))))"
proof -
  from run obtain tbl where r: "run_entities spo_recorder cfg api (map ent_id es) (spo_table db) = Some (tbl, lg)"
    and db': "db' = spo_on_finish y es (db\<lparr>spo_table := tbl\<rparr>)"
    by (auto simp: spo_recorder_run_eq)
  have st: "spo_table db' = tbl" by (simp add: db' spo_on_finish_def)
  have "tbl = upsert_all spo_id (\<lambda>n r. n) (spo_table db) (concat (map (entity_rows spo_recorder cfg api) (map ent_id es)))"
    using r by (simp add: run_entities_eq spo_recorder_def split: if_splits)
  moreover have "fin_spo_raising_fund (fin_table db' ! i) =
           Some (pd_sum (map spo_raising_fund (details_in_year tbl (fin_table db ! i))))"
    using backfill_pass_sum [OF wf fund_column_spo i sel, where dcol = spo_raising_fund and dtl = tbl] ne
    by (simp add: db' st spo_on_finish_def)
  ultimately show ?thesis by (simp add: st)
qed

theorem spo_recorder_run_backfills_witness:
  "fin_spo_raising_fund (fin_table (fst (the (spo_recorder_run sample_pager sample_page_api 2019 [fin_sample_entity]
      (fin_sample_db\<lparr>spo_table := []\<rparr>)))) ! 0) = Some 1766000000"
proof -
  have "spo_recorder_run sample_pager sample_page_api 2019 [fin_sample_entity] (fin_sample_db\<lparr>spo_table := []\<rparr>) \<noteq> None"
    by (simp add: spo_recorder_run_def run_entities_eq sample_fetch_000778)
  then obtain db' lg where run: "spo_recorder_run sample_pager sample_page_api 2019 [fin_sample_entity]
      (fin_sample_db\<lparr>spo_table := []\<rparr>) = Some (db', lg)"
    by fastforce
  then have "spo_table db' = [to_spo_detail ''stock_sz_000778'' (Date 2017 4 1, 0) ''2017-04-01'' (apply_data_map spo_data_map spo_raw_2017),
       to_spo_detail ''stock_sz_000778'' (Date 2008 6 30, 0) ''2008-06-30'' (apply_data_map spo_data_map spo_raw_2008)]"
    by (simp add: spo_recorder_run_eq run_entities_eq sample_fetch_000778 entity_rows_def rows_of_def
        spo_recorder_def spo_time_field_def parse_date_def all_digits_def is_digit_def digits_val_def
        digit_value_def valid_date_def days_in_month_def is_leap_def spo_on_finish_def upsert_all_def
        upsert_row_def map_filter_def timestamp_defs to_spo_detail_def detail_id_def)
  with spo_recorder_run_backfills [OF run, where i = 0] run show ?thesis
    by (simp add: backfill_eval to_spo_detail_def num_field_def apply_data_map_def spo_data_map_def
        to_float_value_def to_float_def parse_decimal_def parse_unsigned_def all_digits_def is_digit_def
        digits_val_def digit_value_def)
qed

end
